theory Spec2Isabelle
  imports Main "HOL-Library.AList"
begin

section \<open>Python values, exceptions and the effect model\<close>

text \<open>
  The database documents, bus parameters and RO/VCA payloads of \<^verbatim>\<open>lcm.py\<close> are
  untyped Python dictionaries. They are modelled by one datatype of values; a
  dictionary is an association list, in insertion order (the order \<^verbatim>\<open>items()\<close>
  iterates in). Python's \<^verbatim>\<open>None\<close> is \<open>JNull\<close>.
\<close>

datatype json =
    JNull
  | JBool bool
  | JInt int
  | JStr string
  | JList "json list"
  | JDict "(string \<times> json) list"

text \<open>
  Every exception class the module raises, catches or can meet while indexing a
  document. \<open>ROClientException\<close> carries its \<^verbatim>\<open>http_code\<close>; \<open>OtherError\<close> is any
  further subclass of \<^verbatim>\<open>Exception\<close> raised by a collaborator.
\<close>

datatype exc =
    ROClientException int string
  | DbException string
  | FsException string
  | MsgException string
  | LcmException string
  | KeyError string
  | TypeError string
  | AttributeError string
  | UnboundLocalError string
  | AssertionError string
  | IndexError string
  | ValueError string
  | GetoptError string
  | OtherError string

text \<open>\<^verbatim>\<open>UnboundLocalError\<close> is the only subclass of \<^verbatim>\<open>NameError\<close> among them.\<close>

fun is_NameError :: "exc \<Rightarrow> bool" where
  "is_NameError (UnboundLocalError v) = True"
| "is_NameError e = False"

fun http_code :: "exc \<Rightarrow> int option" where
  "http_code (ROClientException c m) = Some c"
| "http_code e = None"

text \<open>The state of an asyncio task, as \<^verbatim>\<open>cancelled()\<close>, \<^verbatim>\<open>done()\<close> and \<^verbatim>\<open>exception()\<close> show it.\<close>

datatype task_state =
    Pending
  | CancelRequested
  | Cancelled
  | Done "exc option"

text \<open>
  Calls to the external collaborators (Db, Fs, Msg, RO, N2VC, the clock). The
  environment answers each call from the history of the run so far, so that any
  deterministic behaviour of the collaborators is an environment. It also says in
  which state \<^verbatim>\<open>asyncio.wait\<close> leaves each task it waited for. An answer \<open>Inl e\<close> is the
  call raising \<open>e\<close>.
\<close>

datatype call =
    DbGetOne string json
  | DbReplace string json json
  | DbSetOne string json json
  | DbDelOne string json
  | DbDelList string json
  | ROCreate string json
  | ROEdit string json json
  | RODelete string json
  | ROShow string json
  | ROGetList string json
  | ROAttachDatacenter json json
  | RODetachDatacenter json
  | ROCheckNsStatus json
  | ROGetNsVnfInfo json
  | FsFileRead string
  | FsGetParams
  | VcaLogin
  | VcaFormatApplicationName json json json
  | VcaDeployCharms json json json string json
  | VcaRemoveCharms json json
  | VcaExecutePrimitive json json json json
  | MsgAioWrite string string json
  | MsgAioRead
  | Time

text \<open>
  What a run does, in order: awaited calls with their answers, coroutines scheduled as
  tasks (\<^verbatim>\<open>asyncio.ensure_future\<close>) with the handle they get, waits on tasks with a
  timeout, sleeps, log records at error and critical level, and prints.
\<close>

datatype spawned =
    Coroutine string "json list"
  | Remote call

datatype event =
    Called call "exc + json"
  | Spawned spawned nat
  | Waited "nat list" nat
  | LogError string
  | LogCritical string
  | Slept nat
  | Printed "json list"

record env =
  answer :: "event list \<Rightarrow> call \<Rightarrow> exc + json"
  task_outcome :: "event list \<Rightarrow> nat \<Rightarrow> task_state"

text \<open>
  The fields of the \<^verbatim>\<open>Lcm\<close> object that the coroutines share: the three task
  registries (entity id, then order id, then task name, to a task handle), the
  ping counter, and the tasks of the event loop by handle. \<open>trace\<close> records what
  the run did to the outside world.
\<close>

type_synonym task_set = "(string \<times> nat) list"
type_synonym task_map = "(json \<times> (json \<times> task_set) list) list"

record st =
  trace :: "event list"

record lcm = st +
  lcm_ns_tasks :: task_map
  lcm_vim_tasks :: task_map
  lcm_sdn_tasks :: task_map
  pings_not_received :: int
  tasks :: "(nat \<times> task_state) list"

section \<open>Python's operations on values\<close>

text \<open>Truthiness, as \<^verbatim>\<open>if x:\<close>, \<^verbatim>\<open>and\<close> and \<^verbatim>\<open>not\<close> read it.\<close>

fun truthy :: "json \<Rightarrow> bool" where
  "truthy JNull = False"
| "truthy (JBool b) = b"
| "truthy (JInt i) = (i \<noteq> 0)"
| "truthy (JStr x) = (x \<noteq> [])"
| "truthy (JList xs) = (xs \<noteq> [])"
| "truthy (JDict kvs) = (kvs \<noteq> [])"

text \<open>Lists and dictionaries are unhashable: using one as the key of a dictionary or of a
  registry raises \<^verbatim>\<open>TypeError\<close>.\<close>

fun hashable :: "json \<Rightarrow> bool" where
  "hashable (JList xs) = False"
| "hashable (JDict kvs) = False"
| "hashable v = True"

text \<open>\<^verbatim>\<open>d[k]\<close> with a string key: \<^verbatim>\<open>KeyError\<close> on a dictionary without the key, \<^verbatim>\<open>TypeError\<close> on anything that is not a dictionary.\<close>

definition getitem :: "json \<Rightarrow> string \<Rightarrow> exc + json" where
  "getitem d k =
     (case d of
        JDict kvs \<Rightarrow> (case map_of kvs k of Some v \<Rightarrow> Inr v | None \<Rightarrow> Inl (KeyError k))
      | _ \<Rightarrow> Inl (TypeError ''subscript''))"

text \<open>\<^verbatim>\<open>d.get(k)\<close>: only a dictionary has the method.\<close>

definition dict_get :: "json \<Rightarrow> string \<Rightarrow> exc + json" where
  "dict_get d k =
     (case d of
        JDict kvs \<Rightarrow> (case map_of kvs k of Some v \<Rightarrow> Inr v | None \<Rightarrow> Inr JNull)
      | _ \<Rightarrow> Inl (AttributeError ''get''))"

text \<open>\<^verbatim>\<open>d[k] = v\<close>: an existing key keeps its place, a new one goes last.\<close>

definition setitem :: "json \<Rightarrow> string \<Rightarrow> json \<Rightarrow> exc + json" where
  "setitem d k v =
     (case d of
        JDict kvs \<Rightarrow> Inr (JDict (AList.update k v kvs))
      | _ \<Rightarrow> Inl (TypeError ''item assignment''))"

text \<open>\<^verbatim>\<open>d.pop(k, None)\<close>, for the dictionary it leaves.\<close>

definition pop_default :: "json \<Rightarrow> string \<Rightarrow> exc + json" where
  "pop_default d k =
     (case d of
        JDict kvs \<Rightarrow> Inr (JDict (AList.delete k kvs))
      | _ \<Rightarrow> Inl (AttributeError ''pop''))"

text \<open>\<^verbatim>\<open>del d[k]\<close>.\<close>

definition delitem :: "json \<Rightarrow> string \<Rightarrow> exc + json" where
  "delitem d k =
     (case d of
        JDict kvs \<Rightarrow> (case map_of kvs k of Some v \<Rightarrow> Inr (JDict (AList.delete k kvs))
                                        | None \<Rightarrow> Inl (KeyError k))
      | _ \<Rightarrow> Inl (TypeError ''item deletion''))"

text \<open>\<^verbatim>\<open>k in d\<close> for a string \<open>k\<close>: key of a dictionary, element of a list, substring of a string.\<close>

fun substring :: "string \<Rightarrow> string \<Rightarrow> bool" where
  "substring k [] = (k = [])"
| "substring k (c # cs) = (take (length k) (c # cs) = k \<or> substring k cs)"

definition contains :: "string \<Rightarrow> json \<Rightarrow> exc + bool" where
  "contains k d =
     (case d of
        JDict kvs \<Rightarrow> Inr (map_of kvs k \<noteq> None)
      | JList xs \<Rightarrow> Inr (JStr k \<in> set xs)
      | JStr x \<Rightarrow> Inr (substring k x)
      | _ \<Rightarrow> Inl (TypeError ''not iterable''))"

text \<open>\<^verbatim>\<open>d.items()\<close>.\<close>

definition items :: "json \<Rightarrow> exc + (string \<times> json) list" where
  "items d = (case d of JDict kvs \<Rightarrow> Inr kvs | _ \<Rightarrow> Inl (AttributeError ''items''))"

text \<open>
  \<^verbatim>\<open>str(x)\<close>, which \<^verbatim>\<open>format\<close> applies to its arguments. Decimal digits for integers;
  the \<^verbatim>\<open>repr\<close> of a list or a dictionary is not modelled beyond a placeholder.
\<close>

definition digit_char :: "nat \<Rightarrow> char" where
  "digit_char d = char_of (48 + d)"

fun show_nat :: "nat \<Rightarrow> string" where
  "show_nat n = (if n < 10 then [digit_char n] else show_nat (n div 10) @ [digit_char (n mod 10)])"

declare show_nat.simps [simp del]

definition show_int :: "int \<Rightarrow> string" where
  "show_int i = (if i < 0 then CHR ''-'' # show_nat (nat (- i)) else show_nat (nat i))"

fun py_str :: "json \<Rightarrow> string" where
  "py_str JNull = ''None''"
| "py_str (JBool b) = (if b then ''True'' else ''False'')"
| "py_str (JInt i) = show_int i"
| "py_str (JStr x) = x"
| "py_str (JList xs) = ''[...]''"
| "py_str (JDict kvs) = ''{...}''"

text \<open>\<^verbatim>\<open>str(e)\<close> of an exception: its message; a \<^verbatim>\<open>KeyError\<close> shows its key quoted.\<close>

fun exc_str :: "exc \<Rightarrow> string" where
  "exc_str (ROClientException c m) = m"
| "exc_str (DbException m) = m"
| "exc_str (FsException m) = m"
| "exc_str (MsgException m) = m"
| "exc_str (LcmException m) = m"
| "exc_str (KeyError k) = [CHR 0x27] @ k @ [CHR 0x27]"
| "exc_str (TypeError m) = m"
| "exc_str (AttributeError m) = m"
| "exc_str (UnboundLocalError v) =
     ''local variable '' @ [CHR 0x27] @ v @ [CHR 0x27] @ '' referenced before assignment''"
| "exc_str (AssertionError m) = m"
| "exc_str (IndexError m) = m"
| "exc_str (ValueError m) = m"
| "exc_str (GetoptError m) = m"
| "exc_str (OtherError m) = m"

text \<open>\<^verbatim>\<open>type(e).__name__\<close>; \<open>OtherError\<close> stands for a plain \<^verbatim>\<open>Exception\<close>.\<close>

fun type_name :: "exc \<Rightarrow> string" where
  "type_name (ROClientException c m) = ''ROClientException''"
| "type_name (DbException m) = ''DbException''"
| "type_name (FsException m) = ''FsException''"
| "type_name (MsgException m) = ''MsgException''"
| "type_name (LcmException m) = ''LcmException''"
| "type_name (KeyError k) = ''KeyError''"
| "type_name (TypeError m) = ''TypeError''"
| "type_name (AttributeError m) = ''AttributeError''"
| "type_name (UnboundLocalError v) = ''UnboundLocalError''"
| "type_name (AssertionError m) = ''AssertionError''"
| "type_name (IndexError m) = ''IndexError''"
| "type_name (ValueError m) = ''ValueError''"
| "type_name (GetoptError m) = ''GetoptError''"
| "type_name (OtherError m) = ''Exception''"

section \<open>Sequencing with exceptions\<close>

text \<open>
  A statement runs in a state and either raises (\<open>Inl\<close>) or yields a value (\<open>Inr\<close>);
  the state reached is kept in both cases, as the assignments made before a \<^verbatim>\<open>raise\<close>
  are still visible in \<^verbatim>\<open>except\<close> and \<^verbatim>\<open>finally\<close>.
\<close>

type_synonym ('s, 'a) M = "'s \<Rightarrow> (exc + 'a) \<times> 's"

definition returnE :: "'a \<Rightarrow> ('s, 'a) M" where
  "returnE x s = (Inr x, s)"

definition raiseE :: "exc \<Rightarrow> ('s, 'a) M" where
  "raiseE e s = (Inl e, s)"

definition liftE :: "exc + 'a \<Rightarrow> ('s, 'a) M" where
  "liftE r s = (r, s)"

definition bindE :: "('s, 'a) M \<Rightarrow> ('a \<Rightarrow> ('s, 'b) M) \<Rightarrow> ('s, 'b) M" where
  "bindE m f s = (case m s of (Inl e, s') \<Rightarrow> (Inl e, s') | (Inr x, s') \<Rightarrow> f x s')"

definition thenE :: "('s, 'a) M \<Rightarrow> ('s, 'b) M \<Rightarrow> ('s, 'b) M" where
  "thenE m k = bindE m (\<lambda>x. k)"

definition modify :: "('s \<Rightarrow> 's) \<Rightarrow> ('s, unit) M" where
  "modify f s = (Inr (), f s)"

definition gets :: "('s \<Rightarrow> 'a) \<Rightarrow> ('s, 'a) M" where
  "gets f s = (Inr (f s), s)"

definition catchE :: "('s, 'a) M \<Rightarrow> (exc \<Rightarrow> ('s, 'a) M) \<Rightarrow> ('s, 'a) M" where
  "catchE m h s = (case m s of (Inl e, s') \<Rightarrow> h e s' | (Inr x, s') \<Rightarrow> (Inr x, s'))"

text \<open>\<^verbatim>\<open>try: m finally: fin\<close>: \<open>fin\<close> always runs; if it raises, its exception replaces the outcome of \<open>m\<close>.\<close>

definition finallyE :: "('s, 'a) M \<Rightarrow> ('s, unit) M \<Rightarrow> ('s, 'a) M" where
  "finallyE m fin s =
     (case m s of (r, s') \<Rightarrow> (case fin s' of (Inl e, s'') \<Rightarrow> (Inl e, s'') | (Inr u, s'') \<Rightarrow> (r, s'')))"

text \<open>A \<^verbatim>\<open>for\<close> loop over a list, stopping at the first exception.\<close>

fun forE :: "'a list \<Rightarrow> ('a \<Rightarrow> ('s, unit) M) \<Rightarrow> ('s, unit) M" where
  "forE [] f = returnE ()"
| "forE (x # xs) f = thenE (f x) (forE xs f)"

text \<open>A call to a collaborator: the environment answers from the history, and the call and its answer are recorded.\<close>

definition call :: "env \<Rightarrow> call \<Rightarrow> ('z st_scheme, json) M" where
  "call env c s = (let r = answer env (trace s) c in (r, s\<lparr>trace := trace s @ [Called c r]\<rparr>))"

definition emit :: "event \<Rightarrow> ('z st_scheme, unit) M" where
  "emit ev s = (Inr (), s\<lparr>trace := trace s @ [ev]\<rparr>)"

section \<open>Database update helpers\<close>

text \<open>
  \<^verbatim>\<open>update_db\<close> calls \<^verbatim>\<open>db.replace\<close>, \<^verbatim>\<open>update_db_2\<close> calls \<^verbatim>\<open>db.set_one\<close> with the filter
  \<^verbatim>\<open>{"_id": _id}\<close>; both catch \<^verbatim>\<open>DbException\<close>, log it at error level and return. Any other
  exception passes through.
\<close>

definition update_db :: "env \<Rightarrow> string \<Rightarrow> json \<Rightarrow> json \<Rightarrow> ('z st_scheme, unit) M" where
  "update_db env item ident desc =
     catchE (thenE (call env (DbReplace item ident desc)) (returnE ()))
       (\<lambda>e. case e of
               DbException m \<Rightarrow>
                 emit (LogError (''Updating '' @ item @ '' _id='' @ py_str ident @ '': '' @ exc_str e))
             | _ \<Rightarrow> raiseE e)"

definition update_db_2 :: "env \<Rightarrow> string \<Rightarrow> json \<Rightarrow> json \<Rightarrow> ('z st_scheme, unit) M" where
  "update_db_2 env item ident desc =
     catchE (thenE (call env (DbSetOne item (JDict [(''_id'', ident)]) desc)) (returnE ()))
       (\<lambda>e. case e of
               DbException m \<Rightarrow>
                 emit (LogError (''Updating '' @ item @ '' _id='' @ py_str ident @ '': '' @ exc_str e))
             | _ \<Rightarrow> raiseE e)"

section \<open>The task registry: \<^verbatim>\<open>cancel_tasks\<close>\<close>

text \<open>
  \<^verbatim>\<open>task.cancel()\<close>: a task that is done (or already cancelled) is left alone and
  the call returns False; otherwise cancellation is requested and it returns True.
  A handle the loop does not know is treated as finished.
\<close>

definition task_cancel :: "nat \<Rightarrow> (nat \<times> task_state) list \<Rightarrow> bool \<times> (nat \<times> task_state) list" where
  "task_cancel h ts =
     (case map_of ts h of
        Some Pending \<Rightarrow> (True, AList.update h CancelRequested ts)
      | Some CancelRequested \<Rightarrow> (True, ts)
      | _ \<Rightarrow> (False, ts))"

text \<open>The two nested \<^verbatim>\<open>for\<close> loops of \<^verbatim>\<open>cancel_tasks\<close>.\<close>

fun cancel_task_set :: "task_set \<Rightarrow> (nat \<times> task_state) list \<Rightarrow> (nat \<times> task_state) list" where
  "cancel_task_set [] ts = ts"
| "cancel_task_set ((task_name, task) # rest) ts = cancel_task_set rest (snd (task_cancel task ts))"

fun cancel_orders :: "(json \<times> task_set) list \<Rightarrow> (nat \<times> task_state) list \<Rightarrow> (nat \<times> task_state) list" where
  "cancel_orders [] ts = ts"
| "cancel_orders ((order_id, tasks_set) # rest) ts = cancel_orders rest (cancel_task_set tasks_set ts)"

text \<open>
  \<^verbatim>\<open>lcm_tasks\<close> is bound to one of the three registries by the \<^verbatim>\<open>if/elif\<close> chain, and
  to nothing for any other topic: the following \<^verbatim>\<open>lcm_tasks.get(_id)\<close> then raises
  \<^verbatim>\<open>UnboundLocalError\<close>. The assignment \<^verbatim>\<open>lcm_tasks[_id] = {}\<close> writes through the
  alias into the registry of the object. The registries are keyed by the ids as the
  bus delivers them; \<^verbatim>\<open>get\<close> with an unhashable id raises \<^verbatim>\<open>TypeError\<close>.
\<close>

datatype tasks_ref = Ns_tasks | Vim_tasks | Sdn_tasks

fun read_ref :: "tasks_ref \<Rightarrow> 'z lcm_scheme \<Rightarrow> task_map" where
  "read_ref Ns_tasks s = lcm_ns_tasks s"
| "read_ref Vim_tasks s = lcm_vim_tasks s"
| "read_ref Sdn_tasks s = lcm_sdn_tasks s"

fun write_ref :: "tasks_ref \<Rightarrow> task_map \<Rightarrow> 'z lcm_scheme \<Rightarrow> 'z lcm_scheme" where
  "write_ref Ns_tasks m s = s\<lparr>lcm_ns_tasks := m\<rparr>"
| "write_ref Vim_tasks m s = s\<lparr>lcm_vim_tasks := m\<rparr>"
| "write_ref Sdn_tasks m s = s\<lparr>lcm_sdn_tasks := m\<rparr>"

definition topic_ref :: "string \<Rightarrow> tasks_ref option" where
  "topic_ref topic =
     (if topic = ''ns'' then Some Ns_tasks
      else if topic = ''vim_account'' then Some Vim_tasks
      else if topic = ''sdn'' then Some Sdn_tasks
      else None)"

definition cancel_tasks :: "string \<Rightarrow> json \<Rightarrow> 'z lcm_scheme \<Rightarrow> (exc + unit) \<times> 'z lcm_scheme" where
  "cancel_tasks topic ident s =
     (case topic_ref topic of
        None \<Rightarrow> (Inl (UnboundLocalError ''lcm_tasks''), s)
      | Some r \<Rightarrow>
          if \<not> hashable ident then (Inl (TypeError ''unhashable type''), s)
          else
            (case map_of (read_ref r s) ident of
               None \<Rightarrow> (Inr (), s)
             | Some [] \<Rightarrow> (Inr (), s)
             | Some orders \<Rightarrow>
                 (Inr (),
                  write_ref r (AList.update ident [] (read_ref r s))
                    (s\<lparr>tasks := cancel_orders orders (tasks s)\<rparr>))))"

section \<open>Local variables of the coroutines\<close>

text \<open>
  The local variables that an \<^verbatim>\<open>except\<close> or \<^verbatim>\<open>finally\<close> block reads after the \<^verbatim>\<open>try\<close> body has
  stopped are fields of the state; a variable used only straight down the body is a bound
  variable of the model. The documents \<^verbatim>\<open>db_nsr\<close> and \<^verbatim>\<open>db_nslcmop\<close> are dictionaries that
  the code mutates in place; \<^verbatim>\<open>nsr_lcm\<close>, where it aliases \<^verbatim>\<open>db_nsr["_admin"]["deployed"]\<close>, is
  read and written through that path. A variable that can be read before it is bound
  is an \<open>option\<close>, \<open>None\<close> while unbound.
\<close>

record wf = lcm +
  step :: string
  exc_v :: "exc option"

record ns_docs = wf +
  db_nsr :: json
  db_nslcmop :: json

record cb_st = ns_docs +
  cb_nsr_id :: json
  cb_nslcmop_id :: json
  update_nsr :: bool
  update_nslcmop :: bool

definition bindS :: "exc + 'a \<Rightarrow> ('a \<Rightarrow> exc + 'b) \<Rightarrow> exc + 'b" where
  "bindS r f = (case r of Inl e \<Rightarrow> Inl e | Inr x \<Rightarrow> f x)"

text \<open>\<^verbatim>\<open>d[k1][k2]...[kn]\<close> and \<^verbatim>\<open>d[k1][k2]...[kn] = v\<close> on nested dictionaries.\<close>

fun get_path :: "json \<Rightarrow> string list \<Rightarrow> exc + json" where
  "get_path d [] = Inr d"
| "get_path d (k # ks) = bindS (getitem d k) (\<lambda>sub. get_path sub ks)"

fun set_path :: "json \<Rightarrow> string list \<Rightarrow> json \<Rightarrow> exc + json" where
  "set_path d [] v = Inr v"
| "set_path d [k] v = setitem d k v"
| "set_path d (k # ks) v =
     bindS (getitem d k) (\<lambda>sub. bindS (set_path sub ks v) (\<lambda>sub'. setitem d k sub'))"

definition whenE :: "bool \<Rightarrow> ('s, unit) M \<Rightarrow> ('s, unit) M" where
  "whenE b m = (if b then m else returnE ())"

text \<open>\<^verbatim>\<open>sep.join(xs)\<close>.\<close>

fun join :: "string \<Rightarrow> string list \<Rightarrow> string" where
  "join sep [] = []"
| "join sep [x] = x"
| "join sep (x # xs) = x @ sep @ join sep xs"

section \<open>The VCA callback aggregator: \<^verbatim>\<open>n2vc_callback\<close>\<close>

text \<open>
  The loop over \<^verbatim>\<open>nsr_lcm["VCA"].items()\<close>, with its three accumulators \<^verbatim>\<open>all_active\<close>,
  \<^verbatim>\<open>status_map\<close> and \<^verbatim>\<open>n2vc_error_text\<close>. The branches are the source's: the test for
  "error"/"blocked" is the \<^verbatim>\<open>elif\<close> of the test \<^verbatim>\<open>vca_status != "active"\<close>. The text it
  would append names \<^verbatim>\<open>member_vnf_index\<close>, the callback's parameter.
\<close>

fun vca_scan :: "string \<Rightarrow> (string \<times> json) list \<Rightarrow> bool \<times> (json \<times> int) list \<times> string list
    \<Rightarrow> exc + (bool \<times> (json \<times> int) list \<times> string list)" where
  "vca_scan member_vnf_index [] acc = Inr acc"
| "vca_scan member_vnf_index ((vnf_index, vca_info) # rest) (all_active, status_map, n2vc_error_text) =
     bindS (getitem vca_info ''operational-status'') (\<lambda>vca_status.
       if \<not> hashable vca_status then Inl (TypeError ''unhashable type'')
       else
         let status_map1 = (if map_of status_map vca_status = None
                            then AList.update vca_status 0 status_map else status_map);
             status_map2 = AList.update vca_status
                             ((case map_of status_map1 vca_status of Some n \<Rightarrow> n | None \<Rightarrow> 0) + 1)
                             status_map1
         in if vca_status \<noteq> JStr ''active''
            then vca_scan member_vnf_index rest (False, status_map2, n2vc_error_text)
            else if vca_status = JStr ''error'' \<or> vca_status = JStr ''blocked''
            then bindS (getitem vca_info ''detailed-status'') (\<lambda>detail.
                   vca_scan member_vnf_index rest
                     (all_active, status_map2,
                      n2vc_error_text @ [''member_vnf_index='' @ member_vnf_index @ '' ''
                                          @ py_str vca_status @ '': '' @ py_str detail]))
            else vca_scan member_vnf_index rest (all_active, status_map2, n2vc_error_text))"

text \<open>The text \<^verbatim>\<open>"configuring: <status>: <n>, ..."\<close> built from \<^verbatim>\<open>status_map.items()\<close>.\<close>

fun status_text :: "(json \<times> int) list \<Rightarrow> string \<Rightarrow> string" where
  "status_text [] separator = []"
| "status_text ((status, num) # rest) separator =
     separator @ py_str status @ '': '' @ show_int num @ status_text rest '', ''"

definition set_nsr :: "string \<Rightarrow> json \<Rightarrow> ('z ns_docs_scheme, unit) M" where
  "set_nsr k v = bindE (gets db_nsr) (\<lambda>d. bindE (liftE (setitem d k v))
                   (\<lambda>d'. modify (\<lambda>s. s\<lparr>db_nsr := d'\<rparr>)))"

definition set_nslcmop :: "string \<Rightarrow> json \<Rightarrow> ('z ns_docs_scheme, unit) M" where
  "set_nslcmop k v = bindE (gets db_nslcmop) (\<lambda>d. bindE (liftE (setitem d k v))
                       (\<lambda>d'. modify (\<lambda>s. s\<lparr>db_nslcmop := d'\<rparr>)))"

definition set_nsr_path :: "string list \<Rightarrow> json \<Rightarrow> ('z ns_docs_scheme, unit) M" where
  "set_nsr_path ks v = bindE (gets db_nsr) (\<lambda>d. bindE (liftE (set_path d ks v))
                         (\<lambda>d'. modify (\<lambda>s. s\<lparr>db_nsr := d'\<rparr>)))"

definition get_nsr_path :: "string list \<Rightarrow> ('z ns_docs_scheme, json) M" where
  "get_nsr_path ks = bindE (gets db_nsr) (\<lambda>d. liftE (get_path d ks))"

text \<open>The aggregation, from \<^verbatim>\<open>all_active = True\<close> to \<^verbatim>\<open>update_nsr = update_nslcmop = True\<close>.\<close>

definition n2vc_aggregate :: "env \<Rightarrow> string \<Rightarrow> (cb_st, unit) M" where
  "n2vc_aggregate env member_vnf_index =
     bindE (get_nsr_path [''_admin'', ''deployed'', ''VCA'']) (\<lambda>vca.
     bindE (liftE (items vca)) (\<lambda>vca_items.
     bindE (liftE (vca_scan member_vnf_index vca_items (True, [], []))) (\<lambda>(all_active, status_map, n2vc_error_text).
     thenE
       (if all_active then
          thenE (set_nsr ''config-status'' (JStr ''configured''))
         (thenE (set_nsr ''detailed-status'' (JStr ''done''))
         (thenE (set_nslcmop ''operationState'' (JStr ''COMPLETED''))
         (thenE (set_nslcmop ''detailed-status'' (JStr ''Done''))
         (bindE (call env Time) (\<lambda>now. set_nslcmop ''statusEnteredTime'' now)))))
        else if n2vc_error_text \<noteq> [] then
          (let error_text = ''fail configuring '' @ join '';'' n2vc_error_text in
           thenE (set_nsr ''config-status'' (JStr ''failed''))
          (thenE (set_nsr ''detailed-status'' (JStr error_text))
          (thenE (set_nslcmop ''operationState'' (JStr ''FAILED_TEMP''))
          (thenE (set_nslcmop ''detailed-status'' (JStr error_text))
          (bindE (call env Time) (\<lambda>now. set_nslcmop ''statusEnteredTime'' now))))))
        else
          (let cs = ''configuring: '' @ status_text status_map [] in
           thenE (set_nsr ''config-status'' (JStr cs))
          (thenE (set_nsr ''detailed-status'' (JStr cs))
                 (set_nslcmop ''detailed-status'' (JStr cs)))))
       (modify (\<lambda>s. s\<lparr>update_nsr := True, update_nslcmop := True\<rparr>)))))"

text \<open>
  The \<^verbatim>\<open>try\<close> body. \<open>task\<close> is \<open>None\<close> for a status push and the state of the finished
  task for a completion callback. Each \<^verbatim>\<open>return\<close> of the source ends its branch here.
\<close>

definition n2vc_callback_body :: "env \<Rightarrow> json \<Rightarrow> json \<Rightarrow> string \<Rightarrow> task_state option \<Rightarrow> (cb_st, unit) M" where
  "n2vc_callback_body env status message member_vnf_index task =
     bindE (bindE (gets db_nsr) (\<lambda>d. liftE (getitem d ''_id''))) (\<lambda>v.
     thenE (modify (\<lambda>s. s\<lparr>cb_nsr_id := v\<rparr>))
    (bindE (bindE (gets db_nslcmop) (\<lambda>d. liftE (getitem d ''_id''))) (\<lambda>v.
     thenE (modify (\<lambda>s. s\<lparr>cb_nslcmop_id := v\<rparr>))
    (bindE (get_nsr_path [''_admin'', ''deployed'']) (\<lambda>nsr_lcm.
     bindE (bindE (gets db_nslcmop) (\<lambda>d. liftE (getitem d ''lcmOperationType''))) (\<lambda>ns_action.
     bindE (gets cb_nsr_id) (\<lambda>nsr_id. bindE (gets cb_nslcmop_id) (\<lambda>nslcmop_id.
     let vca_entry = [''_admin'', ''deployed'', ''VCA'', member_vnf_index];
         logging_text = ''Task ns='' @ py_str nsr_id @ '' '' @ py_str ns_action @ ''=''
                          @ py_str nslcmop_id @ '' [n2vc_callback] vnf_index='' @ member_vnf_index in
     (case task of
        Some t \<Rightarrow>
          (case t of
             Cancelled \<Rightarrow> returnE ()
           | Done (Some exc) \<Rightarrow>
               thenE (emit (LogError (logging_text @ '' task Exception='' @ exc_str exc)))
                 (if ns_action = JStr ''instantiate'' \<or> ns_action = JStr ''terminate'' then
                    thenE (set_nsr_path (vca_entry @ [''operational-status'']) (JStr ''error''))
                   (thenE (set_nsr_path (vca_entry @ [''detailed-status'']) (JStr (exc_str exc)))
                          (n2vc_aggregate env member_vnf_index))
                  else if ns_action = JStr ''action'' then
                    thenE (set_nslcmop ''operationState'' (JStr ''FAILED''))
                   (thenE (set_nslcmop ''detailed-status'' (JStr (exc_str exc)))
                   (thenE (bindE (call env Time) (\<lambda>now. set_nslcmop ''statusEnteredTime'' now))
                          (modify (\<lambda>s. s\<lparr>update_nslcmop := True\<rparr>))))
                  else n2vc_aggregate env member_vnf_index)
           | Done None \<Rightarrow>
               whenE (ns_action = JStr ''action'')
                 (thenE (set_nslcmop ''operationState'' (JStr ''COMPLETED''))
                 (thenE (set_nslcmop ''detailed-status'' (JStr ''Done''))
                 (thenE (bindE (call env Time) (\<lambda>now. set_nslcmop ''statusEnteredTime'' now))
                        (modify (\<lambda>s. s\<lparr>update_nslcmop := True\<rparr>)))))
           | _ \<Rightarrow> n2vc_aggregate env member_vnf_index)
      | None \<Rightarrow>
          if truthy status then
            bindE (get_nsr_path (vca_entry @ [''operational-status''])) (\<lambda>old.
              if old = status then returnE ()
              else
                thenE (set_nsr_path (vca_entry @ [''operational-status'']) status)
               (thenE (set_nsr_path (vca_entry @ [''detailed-status'']) (JStr (py_str message)))
                      (n2vc_aggregate env member_vnf_index)))
          else emit (LogCritical (logging_text @ '' Enter with bad parameters'')))))))))))"

text \<open>
  The whole callback: the body's exceptions are logged and dropped; the \<^verbatim>\<open>finally\<close> block
  writes the documents marked for update, and logs and drops an exception of its own.
  The parameters \<^verbatim>\<open>model_name\<close> and \<^verbatim>\<open>application_name\<close> are not used by the source.
\<close>

definition n2vc_callback :: "env \<Rightarrow> json \<Rightarrow> json \<Rightarrow> json \<Rightarrow> json \<Rightarrow> json \<Rightarrow> json \<Rightarrow> string
    \<Rightarrow> task_state option \<Rightarrow> (cb_st, unit) M" where
  "n2vc_callback env model_name application_name status message db_nsr_arg db_nslcmop_arg
       member_vnf_index task =
     thenE (modify (\<lambda>s. s\<lparr>db_nsr := db_nsr_arg, db_nslcmop := db_nslcmop_arg,
                           cb_nsr_id := JNull, cb_nslcmop_id := JNull,
                           update_nsr := False, update_nslcmop := False\<rparr>))
       (finallyE
          (catchE (n2vc_callback_body env status message member_vnf_index task)
             (\<lambda>e. emit (LogCritical (''[n2vc_callback] vnf_index='' @ member_vnf_index
                                      @ '' Exception '' @ exc_str e))))
          (catchE
             (thenE
                (bindE (gets update_nslcmop) (\<lambda>u. whenE u
                   (bindE (gets cb_nslcmop_id) (\<lambda>i. bindE (gets db_nslcmop) (\<lambda>d.
                      update_db env ''nslcmops'' i d)))))
                (bindE (gets update_nsr) (\<lambda>u. whenE u
                   (bindE (gets cb_nsr_id) (\<lambda>i. bindE (gets db_nsr) (\<lambda>d.
                      update_db env ''nsrs'' i d))))))
             (\<lambda>e. emit (LogCritical (''[n2vc_callback] vnf_index='' @ member_vnf_index
                                      @ '' Update database Exception '' @ exc_str e)))))"

section \<open>The liveness prober: \<^verbatim>\<open>kafka_ping\<close>\<close>

text \<open>
  The prober and the dispatch loop share \<^verbatim>\<open>pings_not_received\<close>: the dispatch loop sets
  it to 0 when it reads the self-ping, which can happen whenever the prober is
  suspended, at \<^verbatim>\<open>await aiowrite\<close> and at \<^verbatim>\<open>await asyncio.sleep\<close>. One iteration of the
  prober is run against what happens around it: the exception \<^verbatim>\<open>aiowrite\<close> raises, if
  any, and whether a self-ping was read during each of the two suspensions.
\<close>

record loop_st = lcm +
  consecutive_errors :: int
  first_start :: bool

record ping_st = loop_st +
  kafka_has_received :: bool

record ping_in =
  write_raises :: "exc option"
  ping_read_at_write :: bool
  ping_read_at_sleep :: bool

definition ping_message :: json where
  "ping_message = JDict [(''from'', JStr ''lcm''), (''to'', JStr ''lcm'')]"

definition ping_read :: "bool \<Rightarrow> 'z lcm_scheme \<Rightarrow> 'z lcm_scheme" where
  "ping_read b s = (if b then s\<lparr>pings_not_received := 0\<rparr> else s)"

text \<open>
  The condition \<^verbatim>\<open>consecutive_errors == 8 if not first_start else 30\<close> of both loops: a
  conditional expression whose first branch is the comparison and whose second is
  the number 30, read for its truth value.
\<close>

definition too_many_errors :: "'z loop_st_scheme \<Rightarrow> bool" where
  "too_many_errors s =
     truthy (if \<not> first_start s then JBool (consecutive_errors s = 8) else JInt 30)"

text \<open>One pass through the body of \<^verbatim>\<open>while True\<close>: \<open>Inl e\<close> when \<open>e\<close> leaves the loop, \<open>Inr ()\<close> when the loop goes round.\<close>

definition kafka_ping_iter :: "ping_in \<Rightarrow> ping_st \<Rightarrow> (exc + unit) \<times> ping_st" where
  "kafka_ping_iter i s =
     (let s1 = ping_read (ping_read_at_write i)
                 (s\<lparr>trace := trace s @ [Called (MsgAioWrite ''admin'' ''ping'' ping_message)
                                           (case write_raises i of None \<Rightarrow> Inr JNull | Some e \<Rightarrow> Inl e)]\<rparr>)
      in case write_raises i of
           None \<Rightarrow>
             (let wait_time = (if \<not> kafka_has_received s1 then 5 else 120);
                  s2 = (if pings_not_received s1 = 0 then s1\<lparr>kafka_has_received := True\<rparr> else s1);
                  s3 = s2\<lparr>pings_not_received := pings_not_received s2 + 1\<rparr>;
                  s4 = ping_read (ping_read_at_sleep i) (s3\<lparr>trace := trace s3 @ [Slept wait_time]\<rparr>)
              in if pings_not_received s4 > 10
                 then (Inl (LcmException ''It is not receiving pings from Kafka bus''), s4)
                 else (Inr (), s4\<lparr>consecutive_errors := 0, first_start := False\<rparr>))
         | Some e \<Rightarrow>
             (case e of
                LcmException m \<Rightarrow> (Inl e, s1)
              | _ \<Rightarrow>
                  if too_many_errors s1
                  then (Inl e, s1\<lparr>trace := trace s1 @
                          [LogError (''Task kafka_read task exit error too many errors. Exception: '' @ exc_str e)]\<rparr>)
                  else
                    (let s2 = s1\<lparr>consecutive_errors := consecutive_errors s1 + 1\<rparr>;
                         wait_time = (if \<not> first_start s2 then 1 else 5);
                         s3 = s2\<lparr>trace := trace s2 @
                                 [LogError (''Task kafka_read retrying after Exception '' @ exc_str e),
                                  Slept wait_time]\<rparr>
                     in (Inr (), ping_read (ping_read_at_sleep i) s3))))"

text \<open>
  The loop never ends by itself: it is run for as many iterations as the script of
  surroundings is long. \<open>Some e\<close> is the exception that ended it, \<open>None\<close> says it is
  still running when the script is used up.
\<close>

fun kafka_ping_loop :: "ping_in list \<Rightarrow> ping_st \<Rightarrow> exc option \<times> ping_st" where
  "kafka_ping_loop [] s = (None, s)"
| "kafka_ping_loop (i # rest) s =
     (case kafka_ping_iter i s of
        (Inl e, s') \<Rightarrow> (Some e, s')
      | (Inr u, s') \<Rightarrow> kafka_ping_loop rest s')"

definition kafka_ping :: "ping_in list \<Rightarrow> ping_st \<Rightarrow> exc option \<times> ping_st" where
  "kafka_ping script s =
     kafka_ping_loop script
       (s\<lparr>consecutive_errors := 0, first_start := True, kafka_has_received := False,
          pings_not_received := 1\<rparr>)"


section \<open>The dispatch loop: \<^verbatim>\<open>kafka_read\<close>\<close>

text \<open>
  \<^verbatim>\<open>asyncio.ensure_future\<close> schedules a coroutine as a new, pending task; the coroutine
  itself does not run before the caller is suspended next.
\<close>

definition fresh_handle :: "(nat \<times> task_state) list \<Rightarrow> nat" where
  "fresh_handle ts = fold max (map (\<lambda>(h, t). Suc h) ts) 0"

definition ensure_future :: "spawned \<Rightarrow> ('z lcm_scheme, nat) M" where
  "ensure_future c s =
     (let h = fresh_handle (tasks s)
      in (Inr h, s\<lparr>tasks := tasks s @ [(h, Pending)], trace := trace s @ [Spawned c h]\<rparr>))"

text \<open>
  The registration that follows every spawn:
  \<^verbatim>\<open>if ident not in registry: registry[ident] = {}\<close> and then
  \<^verbatim>\<open>registry[ident][order] = {name: task}\<close>.
\<close>

definition register :: "tasks_ref \<Rightarrow> json \<Rightarrow> json \<Rightarrow> string \<Rightarrow> nat \<Rightarrow> ('z lcm_scheme, unit) M" where
  "register r ident order name task s =
     (if \<not> hashable ident then (Inl (TypeError ''unhashable type''), s)
      else
        let m = read_ref r s;
            m1 = (if map_of m ident = None then AList.update ident [] m else m);
            orders = (case map_of m1 ident of Some os \<Rightarrow> os | None \<Rightarrow> [])
        in if \<not> hashable order then (Inl (TypeError ''unhashable type''), write_ref r m1 s)
           else (Inr (), write_ref r (AList.update ident (AList.update order [(name, task)] orders) m1) s))"

text \<open>
  Locals of the loop. \<^verbatim>\<open>nsr_id\<close> and \<^verbatim>\<open>nslcmop_id\<close> are bound by the "ns" commands
  that carry an operation record and keep their value over the iterations; the
  "show" command reads \<^verbatim>\<open>nsr_id\<close> without binding it.
\<close>

record read_st = loop_st +
  order_id :: int
  loop_nsr_id :: "json option"
  loop_nslcmop_id :: "json option"

datatype flow = Continue | Break

text \<open>The "ns" commands that spawn a workflow; \<^verbatim>\<open>terminate\<close> cancels the live tasks of the NS first.\<close>

definition spawn_ns :: "string \<Rightarrow> string \<Rightarrow> bool \<Rightarrow> json \<Rightarrow> (read_st, flow) M" where
  "spawn_ns topic name cancel_first params =
     bindE (liftE (getitem params ''_id'')) (\<lambda>nslcmop_id.
     thenE (modify (\<lambda>s. s\<lparr>loop_nslcmop_id := Some nslcmop_id\<rparr>))
    (bindE (liftE (getitem params ''nsInstanceId'')) (\<lambda>nsr_id.
     thenE (modify (\<lambda>s. s\<lparr>loop_nsr_id := Some nsr_id\<rparr>))
    (thenE (if cancel_first then cancel_tasks topic nsr_id else returnE ())
    (bindE (ensure_future (Coroutine name [nsr_id, nslcmop_id])) (\<lambda>task.
     thenE (register Ns_tasks nsr_id nslcmop_id name task)
           (returnE Continue)))))))"

text \<open>The "vim_account" and "sdn" commands that spawn a workflow, registered under the running \<^verbatim>\<open>order_id\<close>.\<close>

definition spawn_acct :: "tasks_ref \<Rightarrow> string \<Rightarrow> string \<Rightarrow> bool \<Rightarrow> json \<Rightarrow> json \<Rightarrow> (read_st, flow) M" where
  "spawn_acct r topic name cancel_first ident arg =
     thenE (if cancel_first then cancel_tasks topic ident else returnE ())
    (bindE (gets order_id) (\<lambda>oid.
     bindE (ensure_future (Coroutine name [arg, JInt oid])) (\<lambda>task.
     thenE (register r ident (JInt oid) name task)
           (returnE Continue))))"

text \<open>
  "ns show": the lookup and the print are inside a \<^verbatim>\<open>try\<close> of their own, whose handler
  prints "not found" with \<^verbatim>\<open>nsr_id\<close> again. What is printed is recorded as the list of
  the values formatted, not as the text.
\<close>

definition show_ns :: "env \<Rightarrow> (read_st, flow) M" where
  "show_ns env =
     thenE
       (catchE
          (bindE (gets loop_nsr_id) (\<lambda>v. case v of
             None \<Rightarrow> raiseE (UnboundLocalError ''nsr_id'')
           | Some nsr_id \<Rightarrow>
               bindE (call env (DbGetOne ''nsrs'' (JDict [(''_id'', nsr_id)]))) (\<lambda>db_nsr.
               bindE (liftE (getitem db_nsr ''operational-status'')) (\<lambda>a.
               bindE (liftE (getitem db_nsr ''config-status'')) (\<lambda>b.
               bindE (liftE (getitem db_nsr ''detailed-status'')) (\<lambda>c.
               bindE (liftE (get_path db_nsr [''_admin'', ''deployed''])) (\<lambda>d.
               if \<not> hashable nsr_id then raiseE (TypeError ''unhashable type'')
               else emit (Printed [JStr ''nsr'', nsr_id, a, b, c, d]))))))))
          (\<lambda>e. bindE (gets loop_nsr_id) (\<lambda>v. case v of
             None \<Rightarrow> raiseE (UnboundLocalError ''nsr_id'')
           | Some nsr_id \<Rightarrow> emit (Printed [JStr ''nsr not found'', nsr_id, JStr (exc_str e)]))))
       (returnE Continue)"

definition unknown_command :: "string \<Rightarrow> string \<Rightarrow> (read_st, flow) M" where
  "unknown_command topic command =
     thenE (emit (LogCritical (''unknown topic '' @ topic @ '' and command '' @ [CHR 0x27]
                                 @ command @ [CHR 0x27])))
           (returnE Continue)"

text \<open>The \<^verbatim>\<open>try\<close> body after \<^verbatim>\<open>aioread\<close> has delivered \<^verbatim>\<open>(topic, command, params)\<close>.\<close>

definition kafka_read_dispatch :: "env \<Rightarrow> string \<Rightarrow> string \<Rightarrow> json \<Rightarrow> (read_st, flow) M" where
  "kafka_read_dispatch env topic command params =
     thenE (modify (\<lambda>s. s\<lparr>consecutive_errors := 0, first_start := False, order_id := order_id s + 1\<rparr>))
      (if command = ''exit'' then thenE (emit (Printed [JStr ''Bye!''])) (returnE Break)
       else if take 1 command = ''#'' then returnE Continue
       else if command = ''echo'' then thenE (emit (Printed [params])) (returnE Continue)
       else if command = ''test'' then
         bindE (ensure_future (Coroutine ''test'' [params])) (\<lambda>task. returnE Continue)
       else if topic = ''admin'' then
         (if command = ''ping'' then
            bindE (liftE (getitem params ''to'')) (\<lambda>to.
              if to = JStr ''lcm'' then
                bindE (liftE (getitem params ''from'')) (\<lambda>from.
                  thenE (whenE (from = JStr ''lcm'') (modify (\<lambda>s. s\<lparr>pings_not_received := 0\<rparr>)))
                        (returnE Continue))
              else returnE Continue)
          else returnE Continue)
       else if topic = ''ns'' then
         (if command = ''instantiate'' then spawn_ns topic ''ns_instantiate'' False params
          else if command = ''terminate'' then spawn_ns topic ''ns_terminate'' True params
          else if command = ''action'' then spawn_ns topic ''ns_action'' False params
          else if command = ''show'' then show_ns env
          else if command = ''deleted'' then returnE Continue
          else unknown_command topic command)
       else if topic = ''vim_account'' then
         bindE (liftE (getitem params ''_id'')) (\<lambda>vim_id.
           if command = ''create'' then spawn_acct Vim_tasks topic ''vim_create'' False vim_id params
           else if command = ''delete'' then spawn_acct Vim_tasks topic ''vim_delete'' True vim_id vim_id
           else if command = ''show'' then
             thenE (emit (Printed [JStr ''not implemented show with vim_account''])) (returnE Continue)
           else if command = ''edit'' then spawn_acct Vim_tasks topic ''vim_edit'' False vim_id params
           else unknown_command topic command)
       else if topic = ''sdn'' then
         bindE (liftE (getitem params ''_id'')) (\<lambda>sdn_id.
           if command = ''create'' then spawn_acct Sdn_tasks topic ''sdn_create'' False sdn_id params
           else if command = ''delete'' then spawn_acct Sdn_tasks topic ''sdn_delete'' True sdn_id sdn_id
           else if command = ''edit'' then spawn_acct Sdn_tasks topic ''sdn_edit'' False sdn_id params
           else unknown_command topic command)
       else unknown_command topic command)"

text \<open>
  One iteration: \<^verbatim>\<open>aioread\<close> either raises or delivers a message, which is dispatched;
  an exception of either is handled by the \<^verbatim>\<open>except Exception\<close> clause, which re-raises
  when \<open>too_many_errors\<close> holds and otherwise counts the error and sleeps 2 s, or 5 s
  while \<^verbatim>\<open>first_start\<close>.
\<close>

type_synonym message = "string \<times> string \<times> json"

definition aioread_event :: "exc + message \<Rightarrow> event" where
  "aioread_event r =
     Called MsgAioRead
       (case r of Inl e \<Rightarrow> Inl e
        | Inr (topic, command, params) \<Rightarrow> Inr (JList [JStr topic, JStr command, params]))"

definition kafka_read_iter :: "env \<Rightarrow> exc + message \<Rightarrow> (read_st, flow) M" where
  "kafka_read_iter env r =
     catchE
       (thenE (emit (aioread_event r))
          (case r of
             Inl e \<Rightarrow> raiseE e
           | Inr (topic, command, params) \<Rightarrow> kafka_read_dispatch env topic command params))
       (\<lambda>e s.
          if too_many_errors s
          then (Inl e, s\<lparr>trace := trace s @
                  [LogError (''Task kafka_read task exit error too many errors. Exception: '' @ exc_str e)]\<rparr>)
          else
            (let s1 = s\<lparr>consecutive_errors := consecutive_errors s + 1\<rparr>;
                 wait_time = (if \<not> first_start s1 then 2 else 5)
             in (Inr Continue,
                 s1\<lparr>trace := trace s1 @
                      [LogError (''Task kafka_read retrying after Exception '' @ exc_str e),
                       Slept wait_time]\<rparr>)))"

text \<open>
  The loop \<^verbatim>\<open>while consecutive_errors < 10\<close>, run on a script of what \<^verbatim>\<open>aioread\<close> delivers.
  \<open>Running\<close>: the script is used up and the loop waits in \<^verbatim>\<open>aioread\<close>.
\<close>

datatype loop_end = Returned | Raised exc | Running

fun kafka_read_loop :: "env \<Rightarrow> (exc + message) list \<Rightarrow> read_st \<Rightarrow> loop_end \<times> read_st" where
  "kafka_read_loop env [] s = (if consecutive_errors s < 10 then (Running, s) else (Returned, s))"
| "kafka_read_loop env (r # rest) s =
     (if \<not> consecutive_errors s < 10 then (Returned, s)
      else
        (case kafka_read_iter env r s of
           (Inl e, s') \<Rightarrow> (Raised e, s')
         | (Inr Break, s') \<Rightarrow> (Returned, s')
         | (Inr Continue, s') \<Rightarrow> kafka_read_loop env rest s'))"

definition kafka_read :: "env \<Rightarrow> (exc + message) list \<Rightarrow> read_st \<Rightarrow> loop_end \<times> read_st" where
  "kafka_read env script s =
     kafka_read_loop env script
       (s\<lparr>order_id := 1, consecutive_errors := 0, first_start := True,
          loop_nsr_id := None, loop_nslcmop_id := None\<rparr>)"


section \<open>The process: \<^verbatim>\<open>start\<close> and the main block\<close>

text \<open>
  \<^verbatim>\<open>start\<close> runs \<^verbatim>\<open>asyncio.gather(self.kafka_read(), self.kafka_ping())\<close> under
  \<^verbatim>\<open>run_until_complete\<close>. \<^verbatim>\<open>gather\<close> is called without \<^verbatim>\<open>return_exceptions\<close>: the first
  exception that either coroutine raises is raised by \<^verbatim>\<open>run_until_complete\<close> at once,
  and without an exception the call returns when both coroutines have returned.
  Each coroutine is run on its script; the flag says which of the two raised first
  when both did.
\<close>

definition gather :: "bool \<Rightarrow> loop_end \<Rightarrow> loop_end \<Rightarrow> loop_end" where
  "gather first_raised_first a b =
     (case a of
        Raised e \<Rightarrow>
          (case b of
             Raised e' \<Rightarrow> Raised (if first_raised_first then e else e')
           | _ \<Rightarrow> Raised e)
      | Returned \<Rightarrow> (case b of Raised e' \<Rightarrow> Raised e' | Returned \<Rightarrow> Returned | Running \<Rightarrow> Running)
      | Running \<Rightarrow> (case b of Raised e' \<Rightarrow> Raised e' | _ \<Rightarrow> Running))"

text \<open>
  An exception of \<^verbatim>\<open>run_until_complete\<close> leaves \<^verbatim>\<open>start\<close>, which has no handler; the
  statements after it (closing the loop, disconnecting the database and the bus) run
  only when it returns.
\<close>

definition start :: "env \<Rightarrow> (exc + message) list \<Rightarrow> read_st \<Rightarrow> ping_in list \<Rightarrow> ping_st \<Rightarrow> bool
    \<Rightarrow> loop_end" where
  "start env messages rs script ps read_raised_first =
     gather read_raised_first
       (fst (kafka_read env messages rs))
       (case fst (kafka_ping script ps) of Some e \<Rightarrow> Raised e | None \<Rightarrow> Running)"

text \<open>
  The main block calls \<^verbatim>\<open>lcm.start()\<close> inside a \<^verbatim>\<open>try\<close> whose only handler is
  \<^verbatim>\<open>except getopt.GetoptError\<close>, which prints the error and calls \<^verbatim>\<open>exit(1)\<close>. Any
  other exception is uncaught: the interpreter prints the traceback and the process
  ends with a non-zero status. When \<^verbatim>\<open>start\<close> returns, the process ends with status 0.
\<close>

datatype process_end = Exited int | Traceback exc | Alive

definition main_block :: "env \<Rightarrow> (exc + message) list \<Rightarrow> read_st \<Rightarrow> ping_in list \<Rightarrow> ping_st \<Rightarrow> bool
    \<Rightarrow> process_end" where
  "main_block env messages rs script ps read_raised_first =
     (case start env messages rs script ps read_raised_first of
        Raised e \<Rightarrow> (case e of GetoptError m \<Rightarrow> Exited 1 | _ \<Rightarrow> Traceback e)
      | Returned \<Rightarrow> Exited 0
      | Running \<Rightarrow> Alive)"


section \<open>VIM and SDN workflows\<close>

text \<open>
  Every workflow has the same frame: a \<^verbatim>\<open>try\<close> body; two \<^verbatim>\<open>except\<close> clauses that log
  the exception (at error level for the expected classes, at critical level for any
  other \<^verbatim>\<open>Exception\<close>) and keep it in \<^verbatim>\<open>exc\<close>; and a \<^verbatim>\<open>finally\<close> block. A workflow that
  does not \<^verbatim>\<open>return\<close> a value from its body returns \<^verbatim>\<open>None\<close>.
\<close>

definition handled :: "(exc \<Rightarrow> string \<Rightarrow> event) \<Rightarrow> ('z wf_scheme, json) M \<Rightarrow> ('z wf_scheme, unit) M
    \<Rightarrow> ('z wf_scheme, json) M" where
  "handled exit_log body fin =
     finallyE
       (catchE body
          (\<lambda>e. bindE (gets step) (\<lambda>st.
                thenE (emit (exit_log e st))
               (thenE (modify (\<lambda>s. s\<lparr>exc_v := Some e\<rparr>)) (returnE JNull)))))
       fin"

text \<open>The record that both handlers of most workflows log: \<^verbatim>\<open>logging_text + "Exit Exception {}".format(e)\<close>.\<close>

definition workflow :: "string \<Rightarrow> (exc \<Rightarrow> bool) \<Rightarrow> ('z wf_scheme, json) M \<Rightarrow> ('z wf_scheme, unit) M
    \<Rightarrow> ('z wf_scheme, json) M" where
  "workflow logging_text expected body fin =
     handled (\<lambda>e st. (if expected e then LogError else LogCritical)
                        (logging_text @ ''Exit Exception '' @ exc_str e))
       body fin"

fun ro_or_db :: "exc \<Rightarrow> bool" where
  "ro_or_db (ROClientException c m) = True"
| "ro_or_db (DbException m) = True"
| "ro_or_db e = False"

text \<open>\<^verbatim>\<open>d.get("_admin") and d["_admin"].get("deployed") and d["_admin"]["deployed"].get("RO")\<close>: the first falsy value, or the last one.\<close>

definition deployed_RO :: "json \<Rightarrow> exc + json" where
  "deployed_RO d =
     bindS (dict_get d ''_admin'') (\<lambda>a.
       if \<not> truthy a then Inr a
       else bindS (dict_get a ''deployed'') (\<lambda>dp.
         if \<not> truthy dp then Inr dp else dict_get dp ''RO''))"

text \<open>\<^verbatim>\<open>c.get("config") and c["config"].get("sdn-controller")\<close>.\<close>

definition config_sdn :: "json \<Rightarrow> exc + json" where
  "config_sdn c =
     bindS (dict_get c ''config'') (\<lambda>cfg.
       if \<not> truthy cfg then Inr cfg else dict_get cfg ''sdn-controller'')"

text \<open>A run of \<^verbatim>\<open>d.pop(k, None)\<close> statements.\<close>

fun pop_keys :: "json \<Rightarrow> string list \<Rightarrow> exc + json" where
  "pop_keys d [] = Inr d"
| "pop_keys d (k # ks) = bindS (pop_default d k) (\<lambda>d'. pop_keys d' ks)"

text \<open>\<^verbatim>\<open>if k in d: del d[k]\<close>.\<close>

definition del_if_in :: "json \<Rightarrow> string \<Rightarrow> exc + json" where
  "del_if_in d k = bindS (contains k d) (\<lambda>b. if b then delitem d k else Inr d)"

definition quoted :: "string \<Rightarrow> string" where
  "quoted x = [CHR 0x27] @ x @ [CHR 0x27]"

text \<open>
  The block of \<^verbatim>\<open>vim_create\<close> and \<^verbatim>\<open>vim_edit\<close> that resolves the SDN controller a VIM names
  to its RO id: \<^verbatim>\<open>None\<close> when the VIM names none, \<^verbatim>\<open>LcmException\<close> when the controller is
  not deployed at RO.
\<close>

definition resolve_sdn :: "env \<Rightarrow> json \<Rightarrow> ('z wf_scheme, json) M" where
  "resolve_sdn env vim_content =
     bindE (liftE (config_sdn vim_content)) (\<lambda>sdn.
       if truthy sdn then
         thenE (modify (\<lambda>s. s\<lparr>step := ''Getting sdn-controller-id='' @ quoted (py_str sdn) @ '' from db''\<rparr>))
        (bindE (call env (DbGetOne ''sdns'' (JDict [(''_id'', sdn)]))) (\<lambda>db_sdn.
         bindE (liftE (deployed_RO db_sdn)) (\<lambda>ro.
           if truthy ro then returnE ro
           else raiseE (LcmException (''sdn-controller='' @ py_str sdn
                                       @ '' is not available. Not deployed at RO'')))))
       else returnE JNull)"

record vim_st = wf +
  db_vim :: json

record sdn_st = wf +
  db_sdn :: json

definition upd_db_vim :: "(json \<Rightarrow> exc + json) \<Rightarrow> (vim_st, unit) M" where
  "upd_db_vim f = bindE (gets db_vim) (\<lambda>d. bindE (liftE (f d)) (\<lambda>d'. modify (\<lambda>s. s\<lparr>db_vim := d'\<rparr>)))"

definition upd_db_sdn :: "(json \<Rightarrow> exc + json) \<Rightarrow> (sdn_st, unit) M" where
  "upd_db_sdn f = bindE (gets db_sdn) (\<lambda>d. bindE (liftE (f d)) (\<lambda>d'. modify (\<lambda>s. s\<lparr>db_sdn := d'\<rparr>)))"

text \<open>
  \<^verbatim>\<open>if "_admin" not in d: d["_admin"] = {}\<close>,
  \<^verbatim>\<open>if "deployed" not in d["_admin"]: d["_admin"]["deployed"] = {}\<close> and
  \<^verbatim>\<open>d["_admin"]["deployed"]["RO"] = None\<close>.
\<close>

definition init_deployed :: "json \<Rightarrow> exc + json" where
  "init_deployed d =
     bindS (contains ''_admin'' d) (\<lambda>b.
     bindS (if b then Inr d else setitem d ''_admin'' (JDict [])) (\<lambda>d1.
     bindS (getitem d1 ''_admin'') (\<lambda>a.
     bindS (contains ''deployed'' a) (\<lambda>b.
     bindS (if b then Inr d1 else set_path d1 [''_admin'', ''deployed''] (JDict [])) (\<lambda>d2.
       set_path d2 [''_admin'', ''deployed'', ''RO''] JNull)))))"

text \<open>The \<^verbatim>\<open>finally\<close> block of the three VIM workflows.\<close>

definition vim_finally :: "env \<Rightarrow> json \<Rightarrow> (vim_st, unit) M" where
  "vim_finally env vim_id =
     bindE (gets exc_v) (\<lambda>e. bindE (gets db_vim) (\<lambda>d.
       case e of
         None \<Rightarrow> returnE ()
       | Some exc \<Rightarrow>
           whenE (truthy d)
             (thenE (upd_db_vim (\<lambda>d. set_path d [''_admin'', ''operationalState''] (JStr ''ERROR'')))
             (bindE (gets step) (\<lambda>st.
              thenE (upd_db_vim (\<lambda>d. set_path d [''_admin'', ''detailed-status'']
                                        (JStr (''ERROR '' @ st @ '': '' @ exc_str exc))))
             (bindE (gets db_vim) (\<lambda>d'. update_db env ''vim_accounts'' vim_id d')))))))"

definition sdn_finally :: "env \<Rightarrow> json \<Rightarrow> (sdn_st, unit) M" where
  "sdn_finally env sdn_id =
     bindE (gets exc_v) (\<lambda>e. bindE (gets db_sdn) (\<lambda>d.
       case e of
         None \<Rightarrow> returnE ()
       | Some exc \<Rightarrow>
           whenE (truthy d)
             (thenE (upd_db_sdn (\<lambda>d. set_path d [''_admin'', ''operationalState''] (JStr ''ERROR'')))
             (bindE (gets step) (\<lambda>st.
              thenE (upd_db_sdn (\<lambda>d. set_path d [''_admin'', ''detailed-status'']
                                        (JStr (''ERROR '' @ st @ '': '' @ exc_str exc))))
             (bindE (gets db_sdn) (\<lambda>d'. update_db env ''sdns'' sdn_id d')))))))"

subsection \<open>\<^verbatim>\<open>vim_create\<close>\<close>

definition vim_create_body :: "env \<Rightarrow> json \<Rightarrow> json \<Rightarrow> (vim_st, json) M" where
  "vim_create_body env vim_content vim_id =
     thenE (modify (\<lambda>s. s\<lparr>step := ''Getting vim-id='' @ quoted (py_str vim_id) @ '' from db''\<rparr>))
    (bindE (call env (DbGetOne ''vim_accounts'' (JDict [(''_id'', vim_id)]))) (\<lambda>d.
     thenE (modify (\<lambda>s. s\<lparr>db_vim := d\<rparr>))
    (thenE (upd_db_vim init_deployed)
    (bindE (resolve_sdn env vim_content) (\<lambda>RO_sdn_id.
     thenE (modify (\<lambda>s. s\<lparr>step := ''Creating vim at RO''\<rparr>))
    (bindE (liftE (pop_keys vim_content
              [''_id'', ''_admin'', ''schema_version'', ''schema_type'', ''vim_tenant_name''])) (\<lambda>v1.
     bindE (liftE (getitem v1 ''vim_type'')) (\<lambda>vim_type.
     bindE (liftE (bindS (delitem v1 ''vim_type'') (\<lambda>v2. setitem v2 ''type'' vim_type))) (\<lambda>v3.
     bindE (liftE (pop_keys v3 [''vim_user'', ''vim_password''])) (\<lambda>v4.
     bindE (liftE (if truthy RO_sdn_id then set_path v4 [''config'', ''sdn-controller''] RO_sdn_id
                   else Inr v4)) (\<lambda>vim_RO.
     bindE (call env (ROCreate ''vim'' (JDict [(''descriptor'', vim_RO)]))) (\<lambda>desc.
     bindE (liftE (getitem desc ''uuid'')) (\<lambda>RO_vim_id.
     thenE (upd_db_vim (\<lambda>d. set_path d [''_admin'', ''deployed'', ''RO''] RO_vim_id))
    (thenE (bindE (gets db_vim) (\<lambda>d. update_db env ''vim_accounts'' vim_id d))
    (thenE (modify (\<lambda>s. s\<lparr>step := ''Creating vim_account at RO''\<rparr>))
    (bindE (liftE (getitem vim_content ''vim_tenant_name'')) (\<lambda>tenant.
     bindE (liftE (getitem vim_content ''vim_user'')) (\<lambda>user.
     bindE (liftE (getitem vim_content ''vim_password'')) (\<lambda>password.
     let account = JDict [(''vim_tenant_name'', tenant), (''vim_username'', user),
                          (''vim_password'', password)] in
     bindE (liftE (bindS (dict_get vim_RO ''config'') (\<lambda>cfg.
              if truthy cfg then
                bindS (del_if_in cfg ''sdn-controller'') (\<lambda>c1.
                bindS (del_if_in c1 ''sdn-port-mapping'') (\<lambda>c2.
                  setitem account ''config'' c2))
              else Inr account))) (\<lambda>vim_account_RO.
     thenE (call env (ROAttachDatacenter RO_vim_id (JDict [(''descriptor'', vim_account_RO)])))
    (thenE (upd_db_vim (\<lambda>d. set_path d [''_admin'', ''operationalState''] (JStr ''ENABLED'')))
    (thenE (bindE (gets db_vim) (\<lambda>d. update_db env ''vim_accounts'' vim_id d))
           (returnE RO_vim_id)))))))))))))))))))))))"

text \<open>\<^verbatim>\<open>vim_id = vim_content["_id"]\<close> is read before the \<^verbatim>\<open>try\<close>: its exception leaves the coroutine directly.\<close>

definition vim_create :: "env \<Rightarrow> json \<Rightarrow> json \<Rightarrow> (vim_st, json) M" where
  "vim_create env vim_content order =
     bindE (liftE (getitem vim_content ''_id'')) (\<lambda>vim_id.
     thenE (modify (\<lambda>s. s\<lparr>db_vim := JNull, exc_v := None\<rparr>))
       (workflow (''Task vim_create='' @ py_str vim_id @ '' '') ro_or_db
          (vim_create_body env vim_content vim_id)
          (vim_finally env vim_id)))"


subsection \<open>\<^verbatim>\<open>vim_edit\<close>\<close>

definition call_unit :: "env \<Rightarrow> call \<Rightarrow> ('z st_scheme, unit) M" where
  "call_unit env c = thenE (call env c) (returnE ())"

text \<open>\<^verbatim>\<open>if "vim_type" in vim_RO: vim_RO["type"] = vim_RO.pop("vim_type")\<close>.\<close>

definition rename_vim_type :: "json \<Rightarrow> exc + json" where
  "rename_vim_type v =
     bindS (contains ''vim_type'' v) (\<lambda>b.
       if b then bindS (getitem v ''vim_type'') (\<lambda>t.
                 bindS (delitem v ''vim_type'') (\<lambda>v'. setitem v' ''type'' t))
       else Inr v)"

text \<open>The block of \<^verbatim>\<open>vim_edit\<close> that removes the SDN keys from \<^verbatim>\<open>vim_content["config"]\<close>, and the configuration itself when nothing is left of it.\<close>

definition strip_sdn_config :: "json \<Rightarrow> exc + json" where
  "strip_sdn_config vc =
     bindS (contains ''config'' vc) (\<lambda>b.
       if \<not> b then Inr vc
       else bindS (getitem vc ''config'') (\<lambda>cfg.
            bindS (del_if_in cfg ''sdn-controller'') (\<lambda>c1.
            bindS (del_if_in c1 ''sdn-port-mapping'') (\<lambda>c2.
              if \<not> truthy c2 then delitem vc ''config'' else setitem vc ''config'' c2))))"

text \<open>\<^verbatim>\<open>for k in ks: if k in src: dst[k] = src[k]\<close>.\<close>

fun copy_keys :: "json \<Rightarrow> string list \<Rightarrow> json \<Rightarrow> exc + json" where
  "copy_keys src [] dst = Inr dst"
| "copy_keys src (k # ks) dst =
     bindS (contains k src) (\<lambda>b.
       if b then bindS (getitem src k) (\<lambda>v. bindS (setitem dst k v) (\<lambda>dst'. copy_keys src ks dst'))
       else copy_keys src ks dst)"

text \<open>
  \<^verbatim>\<open>RO_vim_id\<close> is bound only inside the \<^verbatim>\<open>if\<close> that finds the VIM deployed at RO; the
  log line and the \<^verbatim>\<open>return\<close> after the \<^verbatim>\<open>if\<close> read it in both cases. The model's
  \<open>bound\<close> is \<open>None\<close> while the variable is unbound.
\<close>

definition vim_edit_body :: "env \<Rightarrow> json \<Rightarrow> json \<Rightarrow> (vim_st, json) M" where
  "vim_edit_body env vim_content vim_id =
     bindE (call env (DbGetOne ''vim_accounts'' (JDict [(''_id'', vim_id)]))) (\<lambda>d.
     thenE (modify (\<lambda>s. s\<lparr>db_vim := d\<rparr>))
    (bindE (liftE (deployed_RO d)) (\<lambda>ro.
     bindE
       (if truthy ro then
          bindE (resolve_sdn env vim_content) (\<lambda>RO_sdn_id.
          bindE (liftE (get_path d [''_admin'', ''deployed'', ''RO''])) (\<lambda>RO_vim_id.
          thenE (modify (\<lambda>s. s\<lparr>step := ''Editing vim at RO''\<rparr>))
         (bindE (liftE (pop_keys vim_content
                   [''_id'', ''_admin'', ''schema_version'', ''schema_type'', ''vim_tenant_name''])) (\<lambda>v1.
          bindE (liftE (rename_vim_type v1)) (\<lambda>v2.
          bindE (liftE (pop_keys v2 [''vim_user'', ''vim_password''])) (\<lambda>v3.
          bindE (liftE (if truthy RO_sdn_id then set_path v3 [''config'', ''sdn-controller''] RO_sdn_id
                        else Inr v3)) (\<lambda>vim_RO.
          thenE (whenE (truthy vim_RO)
                   (call_unit env (ROEdit ''vim'' RO_vim_id (JDict [(''descriptor'', vim_RO)]))))
         (thenE (modify (\<lambda>s. s\<lparr>step := ''Editing vim-account at RO tenant''\<rparr>))
         (bindE (liftE (strip_sdn_config vim_content)) (\<lambda>vc.
          bindE (liftE (copy_keys vc [''vim_tenant_name'', ''vim_password'', ''config''] (JDict []))) (\<lambda>vim_account_RO.
          bindE (liftE (bindS (contains ''vim_user'' vc) (\<lambda>b.
                   if b then bindS (getitem vc ''vim_user'') (\<lambda>u. setitem vc ''vim_username'' u)
                   else Inr vc))) (\<lambda>vc'.
          thenE (whenE (truthy vim_account_RO)
                   (call_unit env (ROEdit ''vim_account'' RO_vim_id
                                     (JDict [(''descriptor'', vim_account_RO)]))))
         (thenE (upd_db_vim (\<lambda>d. set_path d [''_admin'', ''operationalState''] (JStr ''ENABLED'')))
         (thenE (bindE (gets db_vim) (\<lambda>d. update_db env ''vim_accounts'' vim_id d))
                (returnE (Some RO_vim_id))))))))))))))))
        else returnE None)
       (\<lambda>bound. case bound of
          None \<Rightarrow> raiseE (UnboundLocalError ''RO_vim_id'')
        | Some RO_vim_id \<Rightarrow> returnE RO_vim_id))))"

definition vim_edit :: "env \<Rightarrow> json \<Rightarrow> json \<Rightarrow> (vim_st, json) M" where
  "vim_edit env vim_content order =
     bindE (liftE (getitem vim_content ''_id'')) (\<lambda>vim_id.
     thenE (modify (\<lambda>s. s\<lparr>db_vim := JNull, exc_v := None,
                           step := ''Getting vim-id='' @ quoted (py_str vim_id) @ '' from db''\<rparr>))
       (workflow (''Task vim_edit='' @ py_str vim_id @ '' '') ro_or_db
          (vim_edit_body env vim_content vim_id)
          (vim_finally env vim_id)))"

subsection \<open>\<^verbatim>\<open>vim_delete\<close>\<close>

text \<open>
  \<^verbatim>\<open>try: await m except ROClientException as e: if e.http_code == 404: (log) else: raise\<close>,
  the guard around \<^verbatim>\<open>detach_datacenter\<close> and around \<^verbatim>\<open>RO.delete\<close> in the delete workflows.
\<close>

definition ignore_404 :: "('s, unit) M \<Rightarrow> ('s, unit) M" where
  "ignore_404 m =
     catchE m (\<lambda>e. case e of
                      ROClientException c msg \<Rightarrow> if c = 404 then returnE () else raiseE e
                    | _ \<Rightarrow> raiseE e)"

definition vim_delete_body :: "env \<Rightarrow> json \<Rightarrow> (vim_st, json) M" where
  "vim_delete_body env vim_id =
     bindE (call env (DbGetOne ''vim_accounts'' (JDict [(''_id'', vim_id)]))) (\<lambda>d.
     thenE (modify (\<lambda>s. s\<lparr>db_vim := d\<rparr>))
    (bindE (liftE (deployed_RO d)) (\<lambda>ro.
     thenE
       (if truthy ro then
          bindE (liftE (get_path d [''_admin'', ''deployed'', ''RO''])) (\<lambda>RO_vim_id.
          thenE (modify (\<lambda>s. s\<lparr>step := ''Detaching vim from RO tenant''\<rparr>))
         (thenE (ignore_404 (call_unit env (RODetachDatacenter RO_vim_id)))
         (thenE (modify (\<lambda>s. s\<lparr>step := ''Deleting vim from RO''\<rparr>))
                (ignore_404 (call_unit env (RODelete ''vim'' RO_vim_id))))))
        else emit (LogError (''Task vim_delete='' @ py_str vim_id
                              @ '' Skipping. There is not RO information at database'')))
       (thenE (call_unit env (DbDelOne ''vim_accounts'' (JDict [(''_id'', vim_id)])))
              (returnE JNull)))))"

definition vim_delete :: "env \<Rightarrow> json \<Rightarrow> json \<Rightarrow> (vim_st, json) M" where
  "vim_delete env vim_id order =
     thenE (modify (\<lambda>s. s\<lparr>db_vim := JNull, exc_v := None, step := ''Getting vim from db''\<rparr>))
       (workflow (''Task vim_delete='' @ py_str vim_id @ '' '') ro_or_db
          (vim_delete_body env vim_id)
          (vim_finally env vim_id))"

subsection \<open>\<^verbatim>\<open>sdn_create\<close>, \<^verbatim>\<open>sdn_edit\<close>, \<^verbatim>\<open>sdn_delete\<close>\<close>

definition sdn_create_body :: "env \<Rightarrow> json \<Rightarrow> json \<Rightarrow> (sdn_st, json) M" where
  "sdn_create_body env sdn_content sdn_id =
     thenE (modify (\<lambda>s. s\<lparr>step := ''Getting sdn from db''\<rparr>))
    (bindE (call env (DbGetOne ''sdns'' (JDict [(''_id'', sdn_id)]))) (\<lambda>d.
     thenE (modify (\<lambda>s. s\<lparr>db_sdn := d\<rparr>))
    (thenE (upd_db_sdn init_deployed)
    (thenE (modify (\<lambda>s. s\<lparr>step := ''Creating sdn at RO''\<rparr>))
    (bindE (liftE (pop_keys sdn_content
              [''_id'', ''_admin'', ''schema_version'', ''schema_type'', ''description''])) (\<lambda>sdn_RO.
     bindE (call env (ROCreate ''sdn'' (JDict [(''descriptor'', sdn_RO)]))) (\<lambda>desc.
     bindE (liftE (getitem desc ''uuid'')) (\<lambda>RO_sdn_id.
     thenE (upd_db_sdn (\<lambda>d. set_path d [''_admin'', ''deployed'', ''RO''] RO_sdn_id))
    (thenE (upd_db_sdn (\<lambda>d. set_path d [''_admin'', ''operationalState''] (JStr ''ENABLED'')))
    (thenE (bindE (gets db_sdn) (\<lambda>d. update_db env ''sdns'' sdn_id d))
           (returnE RO_sdn_id)))))))))))"

definition sdn_create :: "env \<Rightarrow> json \<Rightarrow> json \<Rightarrow> (sdn_st, json) M" where
  "sdn_create env sdn_content order =
     bindE (liftE (getitem sdn_content ''_id'')) (\<lambda>sdn_id.
     thenE (modify (\<lambda>s. s\<lparr>db_sdn := JNull, exc_v := None\<rparr>))
       (workflow (''Task sdn_create='' @ py_str sdn_id @ '' '') ro_or_db
          (sdn_create_body env sdn_content sdn_id)
          (sdn_finally env sdn_id)))"

definition sdn_edit_body :: "env \<Rightarrow> json \<Rightarrow> json \<Rightarrow> (sdn_st, json) M" where
  "sdn_edit_body env sdn_content sdn_id =
     bindE (call env (DbGetOne ''sdns'' (JDict [(''_id'', sdn_id)]))) (\<lambda>d.
     thenE (modify (\<lambda>s. s\<lparr>db_sdn := d\<rparr>))
    (bindE (liftE (deployed_RO d)) (\<lambda>ro.
     bindE
       (if truthy ro then
          bindE (liftE (get_path d [''_admin'', ''deployed'', ''RO''])) (\<lambda>RO_sdn_id.
          thenE (modify (\<lambda>s. s\<lparr>step := ''Editing sdn at RO''\<rparr>))
         (bindE (liftE (pop_keys sdn_content
                   [''_id'', ''_admin'', ''schema_version'', ''schema_type'', ''description''])) (\<lambda>sdn_RO.
          thenE (whenE (truthy sdn_RO)
                   (call_unit env (ROEdit ''sdn'' RO_sdn_id (JDict [(''descriptor'', sdn_RO)]))))
         (thenE (upd_db_sdn (\<lambda>d. set_path d [''_admin'', ''operationalState''] (JStr ''ENABLED'')))
         (thenE (bindE (gets db_sdn) (\<lambda>d. update_db env ''sdns'' sdn_id d))
                (returnE (Some RO_sdn_id)))))))
        else returnE None)
       (\<lambda>bound. case bound of
          None \<Rightarrow> raiseE (UnboundLocalError ''RO_sdn_id'')
        | Some RO_sdn_id \<Rightarrow> returnE RO_sdn_id))))"

definition sdn_edit :: "env \<Rightarrow> json \<Rightarrow> json \<Rightarrow> (sdn_st, json) M" where
  "sdn_edit env sdn_content order =
     bindE (liftE (getitem sdn_content ''_id'')) (\<lambda>sdn_id.
     thenE (modify (\<lambda>s. s\<lparr>db_sdn := JNull, exc_v := None, step := ''Getting sdn from db''\<rparr>))
       (workflow (''Task sdn_edit='' @ py_str sdn_id @ '' '') ro_or_db
          (sdn_edit_body env sdn_content sdn_id)
          (sdn_finally env sdn_id)))"

definition sdn_delete_body :: "env \<Rightarrow> json \<Rightarrow> (sdn_st, json) M" where
  "sdn_delete_body env sdn_id =
     bindE (call env (DbGetOne ''sdns'' (JDict [(''_id'', sdn_id)]))) (\<lambda>d.
     thenE (modify (\<lambda>s. s\<lparr>db_sdn := d\<rparr>))
    (bindE (liftE (deployed_RO d)) (\<lambda>ro.
     thenE
       (if truthy ro then
          bindE (liftE (get_path d [''_admin'', ''deployed'', ''RO''])) (\<lambda>RO_sdn_id.
          thenE (modify (\<lambda>s. s\<lparr>step := ''Deleting sdn from RO''\<rparr>))
                (ignore_404 (call_unit env (RODelete ''sdn'' RO_sdn_id))))
        else emit (LogError (''Task sdn_delete='' @ py_str sdn_id
                              @ '' Skipping. There is not RO information at database'')))
       (thenE (call_unit env (DbDelOne ''sdns'' (JDict [(''_id'', sdn_id)])))
              (returnE JNull)))))"

definition sdn_delete :: "env \<Rightarrow> json \<Rightarrow> json \<Rightarrow> (sdn_st, json) M" where
  "sdn_delete env sdn_id order =
     thenE (modify (\<lambda>s. s\<lparr>db_sdn := JNull, exc_v := None, step := ''Getting sdn from db''\<rparr>))
       (workflow (''Task sdn_delete='' @ py_str sdn_id @ '' '') ro_or_db
          (sdn_delete_body env sdn_id)
          (sdn_finally env sdn_id))"


section \<open>NS workflows: \<^verbatim>\<open>ns_action\<close> and \<^verbatim>\<open>ns_terminate\<close>\<close>

text \<open>
  \<^verbatim>\<open>await asyncio.wait(tasks, timeout=t)\<close>: when it returns, each task waited for is in
  the state the environment gives it; a task still pending then has run into the
  timeout.
\<close>

definition wait_tasks :: "env \<Rightarrow> nat list \<Rightarrow> nat \<Rightarrow> ('z lcm_scheme, unit) M" where
  "wait_tasks env hs timeout s =
     (Inr (),
      s\<lparr>tasks := fold (\<lambda>h ts. AList.update h (task_outcome env (trace s) h) ts) hs (tasks s),
        trace := trace s @ [Waited hs timeout]\<rparr>)"

text \<open>\<^verbatim>\<open>d.get(k)\<close> where the key is a value read from a document: a key that is not a string is in no document.\<close>

definition dict_get_key :: "json \<Rightarrow> json \<Rightarrow> exc + json" where
  "dict_get_key d k =
     (case d of
        JDict kvs \<Rightarrow>
          (if \<not> hashable k then Inl (TypeError ''unhashable type'')
           else case k of JStr x \<Rightarrow> dict_get d x | _ \<Rightarrow> Inr JNull)
      | _ \<Rightarrow> Inl (AttributeError ''get''))"

text \<open>
  Locals of the two workflows. \<^verbatim>\<open>db_nslcmop_update\<close> and \<^verbatim>\<open>db_nsr_update\<close> are read by the
  \<^verbatim>\<open>finally\<close> blocks; \<^verbatim>\<open>ns_action\<close> binds the first to \<^verbatim>\<open>None\<close> before its \<^verbatim>\<open>try\<close>,
  \<^verbatim>\<open>ns_terminate\<close> binds neither before its \<^verbatim>\<open>try\<close>. \<^verbatim>\<open>nsr_lcm\<close> is the deep copy of
  \<^verbatim>\<open>db_nsr["_admin"]["deployed"]\<close> that \<^verbatim>\<open>ns_terminate\<close> works on. (The fields are named
  \<open>db_nslcmop_upd\<close> and \<open>db_nsr_upd\<close>: the full names are taken by the update functions
  of the fields \<open>db_nslcmop\<close> and \<open>db_nsr\<close>.)
\<close>

record term_st = ns_docs +
  db_nslcmop_upd :: "json option"
  db_nsr_upd :: "json option"
  nsr_lcm :: json
  failed_detail :: "string list"
  vca_task_list :: "nat list"
  vca_task_dict :: "(string \<times> nat) list"

fun db_or_lcm :: "exc \<Rightarrow> bool" where
  "db_or_lcm (DbException m) = True"
| "db_or_lcm (LcmException m) = True"
| "db_or_lcm e = False"

text \<open>
  The first statement of both \<^verbatim>\<open>finally\<close> blocks:
  \<^verbatim>\<open>if exc and db_nslcmop: db_nslcmop_update = {"detailed-status": "FAILED {step}: {exc}", "operationState": "FAILED", "statusEnteredTime": time()}\<close>.
\<close>

definition failed_update :: "env \<Rightarrow> (term_st, unit) M" where
  "failed_update env =
     bindE (gets exc_v) (\<lambda>e. bindE (gets db_nslcmop) (\<lambda>d.
       case e of
         None \<Rightarrow> returnE ()
       | Some exc \<Rightarrow>
           whenE (truthy d)
             (bindE (gets step) (\<lambda>st.
              bindE (call env Time) (\<lambda>now.
                modify (\<lambda>s. s\<lparr>db_nslcmop_upd := Some (JDict
                  [(''detailed-status'', JStr (''FAILED '' @ st @ '': '' @ exc_str exc)),
                   (''operationState'', JStr ''FAILED''),
                   (''statusEnteredTime'', now)])\<rparr>))))))"

text \<open>\<^verbatim>\<open>if db_nslcmop_update: self.update_db_2("nslcmops", nslcmop_id, db_nslcmop_update)\<close>, with the read of a variable that may be unbound.\<close>

definition write_nslcmop_update :: "env \<Rightarrow> string \<Rightarrow> (term_st, unit) M" where
  "write_nslcmop_update env nslcmop_id =
     bindE (gets db_nslcmop_upd) (\<lambda>u. case u of
       None \<Rightarrow> raiseE (UnboundLocalError ''db_nslcmop_update'')
     | Some v \<Rightarrow> whenE (truthy v) (update_db_2 env ''nslcmops'' (JStr nslcmop_id) v))"

definition write_nsr_update :: "env \<Rightarrow> string \<Rightarrow> (term_st, unit) M" where
  "write_nsr_update env nsr_id =
     bindE (gets db_nsr_upd) (\<lambda>u. case u of
       None \<Rightarrow> raiseE (UnboundLocalError ''db_nsr_update'')
     | Some v \<Rightarrow> whenE (truthy v) (update_db_2 env ''nsrs'' (JStr nsr_id) v))"

subsection \<open>\<^verbatim>\<open>ns_action\<close>\<close>

text \<open>The end of the \<^verbatim>\<open>try\<close> body: \<^verbatim>\<open>db_nslcmop_update = {...}\<close> from \<^verbatim>\<open>result\<close> and \<^verbatim>\<open>result_detail\<close>, and \<^verbatim>\<open>return\<close>.\<close>

definition action_result :: "env \<Rightarrow> string \<Rightarrow> string \<Rightarrow> (term_st, json) M" where
  "action_result env result result_detail =
     bindE (call env Time) (\<lambda>now.
     thenE (modify (\<lambda>s. s\<lparr>db_nslcmop_upd := Some (JDict
              [(''detailed-status'', JStr result_detail),
               (''operationState'', JStr result),
               (''statusEnteredTime'', now)])\<rparr>))
           (returnE JNull))"

text \<open>
  What follows \<^verbatim>\<open>asyncio.wait\<close>. \<^verbatim>\<open>result\<close> is "FAILED" and \<^verbatim>\<open>result_detail\<close> is "" unless a
  branch changes them. The cancelled branch assigns its text to
  \<^verbatim>\<open>db_nslcmop["detailed-status"]\<close>; the done branch assigns the task's exception to the
  local \<^verbatim>\<open>exc\<close>, the variable the \<^verbatim>\<open>finally\<close> block tests.
\<close>

definition action_outcome :: "env \<Rightarrow> nat \<Rightarrow> (term_st, json) M" where
  "action_outcome env task =
     bindE (gets (\<lambda>s. map_of (tasks s) task)) (\<lambda>state.
       case state of
         Some Cancelled \<Rightarrow>
           thenE (set_nslcmop ''detailed-status'' (JStr ''Task has been cancelled''))
                 (action_result env ''FAILED'' [])
       | Some (Done e) \<Rightarrow>
           thenE (modify (\<lambda>s. s\<lparr>exc_v := e\<rparr>))
             (case e of
                Some exc \<Rightarrow> action_result env ''FAILED'' (exc_str exc)
              | None \<Rightarrow> action_result env ''COMPLETED'' ''Done'')
       | _ \<Rightarrow>
           thenE (modify (\<lambda>s. s\<lparr>tasks := snd (task_cancel task (tasks s))\<rparr>))
                 (action_result env ''FAILED'' ''timeout''))"

definition ns_action_body :: "env \<Rightarrow> string \<Rightarrow> string \<Rightarrow> (term_st, json) M" where
  "ns_action_body env nsr_id nslcmop_id =
     thenE (modify (\<lambda>s. s\<lparr>step := ''Getting information from database''\<rparr>))
    (bindE (call env (DbGetOne ''nslcmops'' (JDict [(''_id'', JStr nslcmop_id)]))) (\<lambda>oper.
     thenE (modify (\<lambda>s. s\<lparr>db_nslcmop := oper\<rparr>))
    (bindE (call env (DbGetOne ''nsrs'' (JDict [(''_id'', JStr nsr_id)]))) (\<lambda>d.
     thenE (modify (\<lambda>s. s\<lparr>db_nsr := d\<rparr>))
    (bindE (liftE (bindS (getitem d ''_admin'') (\<lambda>a. dict_get a ''deployed''))) (\<lambda>deployed.
     bindE (liftE (get_path oper [''operationParams'', ''member_vnf_index''])) (\<lambda>vnf_index.
     bindE (liftE (bindS (getitem deployed ''VCA'') (\<lambda>vca. dict_get_key vca vnf_index))) (\<lambda>vca_deployed.
     if \<not> truthy vca_deployed then
       raiseE (LcmException (''charm for member_vnf_index='' @ py_str vnf_index @ '' is not deployed''))
     else
       bindE (liftE (dict_get vca_deployed ''model'')) (\<lambda>model_name.
       bindE (liftE (dict_get vca_deployed ''application'')) (\<lambda>application_name.
       if \<not> truthy model_name \<or> \<not> truthy application_name then
         raiseE (LcmException (''charm for member_vnf_index='' @ py_str vnf_index
                                 @ '' is not properly deployed''))
       else
         bindE (liftE (getitem vca_deployed ''operational-status'')) (\<lambda>operational_status.
         if operational_status \<noteq> JStr ''active'' then
           raiseE (LcmException (''charm for member_vnf_index='' @ py_str vnf_index
                                   @ '' operational_status='' @ py_str operational_status
                                   @ '' not '' @ quoted ''active''))
         else
           bindE (liftE (get_path oper [''operationParams'', ''primitive''])) (\<lambda>primitive.
           bindE (liftE (get_path oper [''operationParams'', ''primitive_params''])) (\<lambda>primitive_params.
           thenE (call_unit env VcaLogin)
          (bindE (case primitive_params of
                    JDict kvs \<Rightarrow> ensure_future (Remote (VcaExecutePrimitive model_name
                                    application_name primitive primitive_params))
                  | _ \<Rightarrow> raiseE (TypeError ''argument after ** must be a mapping'')) (\<lambda>task.
           thenE (wait_tasks env [task] 300)
                 (action_outcome env task))))))))))))))))"

definition ns_action :: "env \<Rightarrow> string \<Rightarrow> string \<Rightarrow> (term_st, json) M" where
  "ns_action env nsr_id nslcmop_id =
     thenE (modify (\<lambda>s. s\<lparr>db_nsr := JNull, db_nslcmop := JNull, db_nslcmop_upd := Some JNull,
                           exc_v := None\<rparr>))
       (handled
          (\<lambda>e st. if db_or_lcm e
                   then LogError (''Task ns='' @ nsr_id @ '' action='' @ nslcmop_id @ '' ''
                                    @ ''Exit Exception '' @ exc_str e)
                   else LogCritical (''Task ns='' @ nsr_id @ '' action='' @ nslcmop_id @ '' ''
                                       @ ''Exit Exception '' @ type_name e @ '' '' @ exc_str e))
          (ns_action_body env nsr_id nslcmop_id)
          (thenE (failed_update env) (write_nslcmop_update env nslcmop_id)))"


subsection \<open>\<^verbatim>\<open>ns_terminate\<close>\<close>

text \<open>\<^verbatim>\<open>registry[ident][order][name] = task\<close>: \<^verbatim>\<open>KeyError\<close> when the registry has no entry for the id or the order.\<close>

definition registry_insert :: "tasks_ref \<Rightarrow> json \<Rightarrow> json \<Rightarrow> string \<Rightarrow> nat \<Rightarrow> ('z lcm_scheme, unit) M" where
  "registry_insert r ident order name task s =
     (case map_of (read_ref r s) ident of
        None \<Rightarrow> (Inl (KeyError (py_str ident)), s)
      | Some orders \<Rightarrow>
          (case map_of orders order of
             None \<Rightarrow> (Inl (KeyError (py_str order)), s)
           | Some ts \<Rightarrow>
               (Inr (),
                write_ref r
                  (AList.update ident (AList.update order (AList.update name task ts) orders)
                     (read_ref r s)) s)))"

definition upd_nsr_lcm :: "(json \<Rightarrow> exc + json) \<Rightarrow> (term_st, unit) M" where
  "upd_nsr_lcm f = bindE (gets nsr_lcm) (\<lambda>l. bindE (liftE (f l)) (\<lambda>l'. modify (\<lambda>s. s\<lparr>nsr_lcm := l'\<rparr>)))"

text \<open>\<^verbatim>\<open>step = db_nsr["detailed-status"] = text\<close>.\<close>

definition set_step_status :: "string \<Rightarrow> ('z ns_docs_scheme, unit) M" where
  "set_step_status text =
     thenE (modify (\<lambda>s. s\<lparr>step := text\<rparr>)) (set_nsr ''detailed-status'' (JStr text))"

text \<open>The loop that schedules \<^verbatim>\<open>RemoveCharms\<close> for every VCA entry with an application; it sits in a \<^verbatim>\<open>try\<close> whose handler only logs at debug level.\<close>

definition remove_charms :: "env \<Rightarrow> string \<Rightarrow> string \<Rightarrow> (term_st, unit) M" where
  "remove_charms env nsr_id nslcmop_id =
     bindE (gets nsr_lcm) (\<lambda>l.
     bindE (liftE (bindS (getitem l ''VCA'') items)) (\<lambda>entries.
       forE entries (\<lambda>(vnf_index, deploy_info).
         bindE (liftE (if truthy deploy_info then dict_get deploy_info ''application''
                       else Inr deploy_info)) (\<lambda>has_application.
         whenE (truthy has_application)
           (bindE (liftE (getitem deploy_info ''model'')) (\<lambda>model.
            bindE (liftE (getitem deploy_info ''application'')) (\<lambda>application.
            bindE (ensure_future (Remote (VcaRemoveCharms model application))) (\<lambda>task.
            thenE (modify (\<lambda>s. s\<lparr>vca_task_list := vca_task_list s @ [task],
                                  vca_task_dict := AList.update vnf_index task (vca_task_dict s)\<rparr>))
                  (registry_insert Ns_tasks (JStr nsr_id) (JStr nslcmop_id)
                     (''delete_charm:'' @ vnf_index) task)))))))))"

text \<open>
  The handler of the three \<^verbatim>\<open>RO.delete\<close> calls: 404 counts as deleted (\<open>gone\<close> nulls the
  id out), 409 and any other \<^verbatim>\<open>ROClientException\<close> are noted in \<^verbatim>\<open>failed_detail\<close>; any other
  exception goes on to the outer handlers.
\<close>

definition delete_failed :: "string \<Rightarrow> string \<Rightarrow> json \<Rightarrow> (term_st, unit) M \<Rightarrow> exc \<Rightarrow> (term_st, unit) M" where
  "delete_failed logging_text what ro_id gone e =
     (case e of
        ROClientException c msg \<Rightarrow>
          if c = 404 then gone
          else if c = 409 then
            modify (\<lambda>s. s\<lparr>failed_detail := failed_detail s @
              [what @ ''='' @ py_str ro_id @ '' delete conflict: '' @ exc_str e]\<rparr>)
          else
            thenE (modify (\<lambda>s. s\<lparr>failed_detail := failed_detail s @
                    [what @ ''='' @ py_str ro_id @ '' delete error: '' @ exc_str e]\<rparr>))
                  (emit (LogError (logging_text @ what @ ''='' @ py_str ro_id @ '' delete error: ''
                                     @ exc_str e)))
      | _ \<Rightarrow> raiseE e)"

definition delete_ns :: "env \<Rightarrow> string \<Rightarrow> (term_st, unit) M" where
  "delete_ns env logging_text =
     bindE (gets nsr_lcm) (\<lambda>l.
     bindE (liftE (bindS (getitem l ''RO'') (\<lambda>ro. dict_get ro ''nsr_id''))) (\<lambda>RO_nsr_id.
     let gone = thenE (upd_nsr_lcm (\<lambda>l. set_path l [''RO'', ''nsr_id''] JNull))
                      (upd_nsr_lcm (\<lambda>l. set_path l [''RO'', ''nsr_status''] (JStr ''DELETED'')))
     in whenE (truthy RO_nsr_id)
          (catchE
             (thenE (set_step_status ''Deleting ns at RO'')
             (thenE (call_unit env (RODelete ''ns'' RO_nsr_id)) gone))
             (delete_failed logging_text ''RO_ns_id'' RO_nsr_id gone))))"

definition delete_nsd :: "env \<Rightarrow> string \<Rightarrow> (term_st, unit) M" where
  "delete_nsd env logging_text =
     bindE (gets nsr_lcm) (\<lambda>l.
     bindE (liftE (get_path l [''RO'', ''nsd_id''])) (\<lambda>RO_nsd_id.
     let gone = upd_nsr_lcm (\<lambda>l. set_path l [''RO'', ''nsd_id''] JNull)
     in whenE (truthy RO_nsd_id)
          (catchE
             (thenE (set_step_status ''Deleting nsd at RO'')
             (thenE (call_unit env (RODelete ''nsd'' RO_nsd_id)) gone))
             (delete_failed logging_text ''RO_nsd_id'' RO_nsd_id gone))))"

definition delete_vnfds :: "env \<Rightarrow> string \<Rightarrow> (term_st, unit) M" where
  "delete_vnfds env logging_text =
     bindE (gets nsr_lcm) (\<lambda>l.
     bindE (liftE (bindS (get_path l [''RO'', ''vnfd_id'']) items)) (\<lambda>entries.
       forE entries (\<lambda>(vnf_id, RO_vnfd_id).
         let gone = upd_nsr_lcm (\<lambda>l. set_path l [''RO'', ''vnfd_id'', vnf_id] JNull)
         in whenE (truthy RO_vnfd_id)
              (catchE
                 (thenE (set_step_status (''Deleting vnfd='' @ vnf_id @ '' at RO''))
                 (thenE (call_unit env (RODelete ''vnfd'' RO_vnfd_id)) gone))
                 (delete_failed logging_text ''RO_vnfd_id'' RO_vnfd_id gone)))))"

text \<open>The loop over \<^verbatim>\<open>vca_task_dict\<close> after the wait. Its \<^verbatim>\<open>exc = task.exception()\<close> assigns the local \<^verbatim>\<open>exc\<close> of the workflow.\<close>

definition collect_vca :: "(term_st, unit) M" where
  "collect_vca =
     bindE (gets vca_task_dict) (\<lambda>entries.
       forE entries (\<lambda>(vnf_index, task).
         bindE (gets (\<lambda>s. map_of (tasks s) task)) (\<lambda>state.
           case state of
             Some Cancelled \<Rightarrow>
               modify (\<lambda>s. s\<lparr>failed_detail := failed_detail s @
                 [''VCA['' @ vnf_index @ ''] Deletion has been cancelled'']\<rparr>)
           | Some (Done e) \<Rightarrow>
               thenE (modify (\<lambda>s. s\<lparr>exc_v := e\<rparr>))
                 (case e of
                    Some exc \<Rightarrow>
                      modify (\<lambda>s. s\<lparr>failed_detail := failed_detail s @
                        [''VCA['' @ vnf_index @ ''] Deletion exception: '' @ exc_str exc]\<rparr>)
                  | None \<Rightarrow> upd_nsr_lcm (\<lambda>l. set_path l [''VCA'', vnf_index] JNull))
           | _ \<Rightarrow>
               modify (\<lambda>s. s\<lparr>tasks := snd (task_cancel task (tasks s)),
                              failed_detail := failed_detail s @
                                [''VCA['' @ vnf_index @ ''] Deletion timeout'']\<rparr>))))"

text \<open>The choice of the outcome at the end of the \<^verbatim>\<open>try\<close> body.\<close>

definition terminate_outcome :: "env \<Rightarrow> string \<Rightarrow> string \<Rightarrow> (term_st, json) M" where
  "terminate_outcome env nsr_id nslcmop_id =
     bindE (gets failed_detail) (\<lambda>fd.
       if fd \<noteq> [] then
         thenE (emit (LogError (''Task ns='' @ nsr_id @ '' terminate='' @ nslcmop_id @ '' ''
                                 @ join '' ;'' fd)))
        (bindE (gets nsr_lcm) (\<lambda>l.
         thenE (modify (\<lambda>s. s\<lparr>db_nsr_upd := Some (JDict
                  [(''operational-status'', JStr ''failed''),
                   (''detailed-status'', JStr (''Deletion errors '' @ join ''; '' fd)),
                   (''_admin.deployed'', l)])\<rparr>))
        (bindE (call env Time) (\<lambda>now.
         thenE (modify (\<lambda>s. s\<lparr>db_nslcmop_upd := Some (JDict
                  [(''detailed-status'', JStr (join ''; '' fd)),
                   (''operationState'', JStr ''FAILED''),
                   (''statusEnteredTime'', now)])\<rparr>))
               (returnE JNull)))))
       else
         bindE (gets db_nslcmop) (\<lambda>oper.
         bindE (liftE (bindS (getitem oper ''operationParams'') (\<lambda>p. dict_get p ''autoremove''))) (\<lambda>autoremove.
           if truthy autoremove then
             thenE (call_unit env (DbDelOne ''nsrs'' (JDict [(''_id'', JStr nsr_id)])))
            (thenE (call_unit env (DbDelList ''nslcmops'' (JDict [(''nsInstanceId'', JStr nsr_id)])))
            (thenE (call_unit env (DbDelList ''vnfrs'' (JDict [(''nsr-id-ref'', JStr nsr_id)])))
                   (returnE JNull)))
           else
             bindE (gets nsr_lcm) (\<lambda>l.
             thenE (modify (\<lambda>s. s\<lparr>db_nsr_upd := Some (JDict
                      [(''operational-status'', JStr ''terminated''),
                       (''detailed-status'', JStr ''Done''),
                       (''_admin.deployed'', l),
                       (''_admin.nsState'', JStr ''NOT_INSTANTIATED'')])\<rparr>))
            (bindE (call env Time) (\<lambda>now.
             thenE (modify (\<lambda>s. s\<lparr>db_nslcmop_upd := Some (JDict
                      [(''detailed-status'', JStr ''Done''),
                       (''operationState'', JStr ''COMPLETED''),
                       (''statusEnteredTime'', now)])\<rparr>))
                   (returnE JNull)))))))"

definition ns_terminate_body :: "env \<Rightarrow> string \<Rightarrow> string \<Rightarrow> (term_st, json) M" where
  "ns_terminate_body env nsr_id nslcmop_id =
     bindE (call env (DbGetOne ''nslcmops'' (JDict [(''_id'', JStr nslcmop_id)]))) (\<lambda>oper.
     thenE (modify (\<lambda>s. s\<lparr>db_nslcmop := oper\<rparr>))
    (bindE (call env (DbGetOne ''nsrs'' (JDict [(''_id'', JStr nsr_id)]))) (\<lambda>d.
     thenE (modify (\<lambda>s. s\<lparr>db_nsr := d\<rparr>))
    (bindE (liftE (get_path d [''_admin'', ''deployed''])) (\<lambda>deployed.
     thenE (modify (\<lambda>s. s\<lparr>nsr_lcm := deployed\<rparr>))
    (bindE (liftE (get_path d [''_admin'', ''nsState''])) (\<lambda>nsState.
     if nsState = JStr ''NOT_INSTANTIATED'' then returnE JNull
     else
       let terminating = JDict [(''operational-status'', JStr ''terminating''),
                                (''config-status'', JStr ''terminating''),
                                (''detailed-status'', JStr ''Deleting charms'')] in
       thenE (modify (\<lambda>s. s\<lparr>db_nsr_upd := Some terminating\<rparr>))
      (thenE (update_db_2 env ''nsrs'' (JStr nsr_id) terminating)
      (thenE (catchE (remove_charms env nsr_id nslcmop_id) (\<lambda>e. returnE ()))
      (thenE (delete_ns env (''Task ns='' @ nsr_id @ '' terminate='' @ nslcmop_id @ '' ''))
      (thenE (delete_nsd env (''Task ns='' @ nsr_id @ '' terminate='' @ nslcmop_id @ '' ''))
      (thenE (delete_vnfds env (''Task ns='' @ nsr_id @ '' terminate='' @ nslcmop_id @ '' ''))
      (thenE (bindE (gets vca_task_list) (\<lambda>l. whenE (l \<noteq> []) (wait_tasks env l 300)))
      (thenE collect_vca
             (terminate_outcome env nsr_id nslcmop_id)))))))))))))))"

text \<open>
  Before the \<^verbatim>\<open>try\<close>, \<^verbatim>\<open>ns_terminate\<close> binds \<^verbatim>\<open>db_nsr\<close>, \<^verbatim>\<open>db_nslcmop\<close>, \<^verbatim>\<open>exc\<close>, \<^verbatim>\<open>step\<close>,
  \<^verbatim>\<open>failed_detail\<close>, \<^verbatim>\<open>vca_task_list\<close> and \<^verbatim>\<open>vca_task_dict\<close>, and neither of the two update
  dictionaries. The \<^verbatim>\<open>finally\<close> block reads both.
\<close>

definition ns_terminate :: "env \<Rightarrow> string \<Rightarrow> string \<Rightarrow> (term_st, json) M" where
  "ns_terminate env nsr_id nslcmop_id =
     thenE (modify (\<lambda>s. s\<lparr>db_nsr := JNull, db_nslcmop := JNull, exc_v := None,
                           step := ''Getting nsr, nslcmop from db'',
                           failed_detail := [], vca_task_list := [], vca_task_dict := [],
                           db_nslcmop_upd := None, db_nsr_upd := None, nsr_lcm := JNull\<rparr>))
       (workflow (''Task ns='' @ nsr_id @ '' terminate='' @ nslcmop_id @ '' '') ro_or_db
          (ns_terminate_body env nsr_id nslcmop_id)
          (thenE (failed_update env)
          (thenE (write_nslcmop_update env nslcmop_id)
                 (write_nsr_update env nsr_id))))"


section \<open>NS workflow: \<^verbatim>\<open>ns_instantiate\<close>\<close>

text \<open>
  Locals that several phases share. \<^verbatim>\<open>db_vnfr\<close> and \<^verbatim>\<open>needed_vnfd\<close> are dictionaries keyed
  by values read from the NS descriptor; \<^verbatim>\<open>vim_2_RO\<close> is the memo of \<^verbatim>\<open>ns_params_2_RO\<close>.
  \<^verbatim>\<open>nsr_lcm\<close> aliases \<^verbatim>\<open>db_nsr["_admin"]["deployed"]\<close> throughout this workflow and is
  read and written through \<^verbatim>\<open>db_nsr\<close>.
\<close>

record inst_st = ns_docs +
  db_vnfr :: "(json \<times> json) list"
  needed_vnfd :: "(json \<times> json) list"
  vim_2_RO :: "(json \<times> json) list"
  number_to_configure :: int

text \<open>\<^verbatim>\<open>for x in v\<close>: the elements of a list, the keys of a dictionary, the characters of a string.\<close>

definition iter_list :: "json \<Rightarrow> exc + json list" where
  "iter_list v =
     (case v of
        JList xs \<Rightarrow> Inr xs
      | JDict kvs \<Rightarrow> Inr (map (\<lambda>(k, x). JStr k) kvs)
      | JStr x \<Rightarrow> Inr (map (\<lambda>c. JStr [c]) x)
      | _ \<Rightarrow> Inl (TypeError ''not iterable''))"

text \<open>\<^verbatim>\<open>v[0]\<close>.\<close>

definition index0 :: "json \<Rightarrow> exc + json" where
  "index0 v =
     (case v of
        JList (x # xs) \<Rightarrow> Inr x
      | JList [] \<Rightarrow> Inl (IndexError ''list index out of range'')
      | JStr (c # cs) \<Rightarrow> Inr (JStr [c])
      | JStr [] \<Rightarrow> Inl (IndexError ''string index out of range'')
      | JDict kvs \<Rightarrow> Inl (KeyError ''0'')
      | _ \<Rightarrow> Inl (TypeError ''subscript''))"

text \<open>\<^verbatim>\<open>a, b = v\<close>: \<open>v\<close> is iterated and must yield two values.\<close>

definition unpack2 :: "json \<Rightarrow> exc + json \<times> json" where
  "unpack2 v =
     bindS (iter_list v) (\<lambda>xs.
       case xs of
         [a, b] \<Rightarrow> Inr (a, b)
       | _ \<Rightarrow> Inl (ValueError (if length xs < 2
                                then ''not enough values to unpack (expected 2, got ''
                                       @ show_nat (length xs) @ '')''
                                else ''too many values to unpack (expected 2)'')))"

text \<open>
  The identity of a descriptor at RO, \<^verbatim>\<open>nsr_id + "." + ident[:200]\<close>: the first 200
  characters of the descriptor's id after the NS id and a dot. An id that is not a
  string cannot be concatenated.
\<close>

definition RO_id :: "string \<Rightarrow> json \<Rightarrow> exc + string" where
  "RO_id nsr_id ident =
     (case ident of
        JStr x \<Rightarrow> Inr (nsr_id @ ''.'' @ take 200 x)
      | _ \<Rightarrow> Inl (TypeError ''must be str''))"

fun mapE :: "('a \<Rightarrow> ('s, 'b) M) \<Rightarrow> 'a list \<Rightarrow> ('s, 'b list) M" where
  "mapE f [] = returnE []"
| "mapE f (x # xs) = bindE (f x) (\<lambda>y. bindE (mapE f xs) (\<lambda>ys. returnE (y # ys)))"

fun foldE :: "('a \<Rightarrow> 'b \<Rightarrow> ('s, 'b) M) \<Rightarrow> 'a list \<Rightarrow> 'b \<Rightarrow> ('s, 'b) M" where
  "foldE f [] acc = returnE acc"
| "foldE f (x # xs) acc = bindE (f x acc) (\<lambda>acc'. foldE f xs acc')"

fun foldS :: "('a \<Rightarrow> 'b \<Rightarrow> exc + 'b) \<Rightarrow> 'a list \<Rightarrow> 'b \<Rightarrow> exc + 'b" where
  "foldS f [] acc = Inr acc"
| "foldS f (x # xs) acc = bindS (f x acc) (\<lambda>acc'. foldS f xs acc')"

fun mapS :: "('a \<Rightarrow> exc + 'b) \<Rightarrow> 'a list \<Rightarrow> exc + 'b list" where
  "mapS f [] = Inr []"
| "mapS f (x # xs) = bindS (f x) (\<lambda>y. bindS (mapS f xs) (\<lambda>ys. Inr (y # ys)))"

text \<open>
  A loop that changes the elements of \<^verbatim>\<open>d[k]\<close> in place leaves \<open>d\<close> with the changed
  elements when \<^verbatim>\<open>d[k]\<close> is a list; the keys of a dictionary and the characters of a
  string cannot be changed.
\<close>

definition put_elements :: "json \<Rightarrow> string \<Rightarrow> json list \<Rightarrow> exc + json" where
  "put_elements d k xs =
     bindS (getitem d k) (\<lambda>old. case old of JList ys \<Rightarrow> setitem d k (JList xs) | _ \<Rightarrow> Inr d)"

subsection \<open>\<^verbatim>\<open>vnfd2RO\<close>\<close>

text \<open>
  The body of the loop over the VDUs. Opening, reading and closing the cloud-init
  file is one call to the file store.
\<close>

definition cloud_init :: "env \<Rightarrow> json \<Rightarrow> json \<Rightarrow> ('z st_scheme, json) M" where
  "cloud_init env vnfd vdu =
     bindE (liftE (contains ''cloud-init-file'' vdu)) (\<lambda>b.
       if \<not> b then returnE vdu
       else
         bindE (liftE (get_path vnfd [''_admin'', ''storage''])) (\<lambda>base_folder.
         bindE (liftE (getitem base_folder ''folder'')) (\<lambda>folder.
         bindE (liftE (getitem base_folder ''pkg-dir'')) (\<lambda>pkg_dir.
         bindE (liftE (getitem vdu ''cloud-init-file'')) (\<lambda>file.
         bindE (call env (FsFileRead (py_str folder @ ''/'' @ py_str pkg_dir @ ''/cloud_init/''
                                        @ py_str file))) (\<lambda>content.
         liftE (bindS (pop_default vdu ''cloud-init-file'') (\<lambda>v. setitem v ''cloud-init'' content))))))))"

definition vnfd2RO :: "env \<Rightarrow> json \<Rightarrow> json \<Rightarrow> ('z st_scheme, json) M" where
  "vnfd2RO env vnfd new_id =
     catchE
       (bindE (liftE (pop_keys vnfd [''_id'', ''_admin''])) (\<lambda>v1.
        bindE (liftE (if truthy new_id then setitem v1 ''id'' new_id else Inr v1)) (\<lambda>v2.
        bindE (liftE (bindS (getitem v2 ''vdu'') iter_list)) (\<lambda>vdus.
        bindE (mapE (cloud_init env vnfd) vdus) (\<lambda>vdus'.
          liftE (put_elements v2 ''vdu'' vdus'))))))
       (\<lambda>e. case e of
               FsException m \<Rightarrow>
                 bindE (liftE (getitem vnfd ''_id'')) (\<lambda>i.
                   raiseE (LcmException (''Error reading file at vnfd '' @ py_str i @ '': '' @ m @ '' '')))
             | _ \<Rightarrow> raiseE e)"

subsection \<open>\<^verbatim>\<open>ns_params_2_RO\<close>\<close>

text \<open>The inner function \<^verbatim>\<open>vim_account_2_RO\<close>, with its memo.\<close>

definition vim_account_2_RO :: "env \<Rightarrow> json \<Rightarrow> (inst_st, json) M" where
  "vim_account_2_RO env vim_account =
     (if \<not> hashable vim_account then raiseE (TypeError ''unhashable type'')
      else
        bindE (gets vim_2_RO) (\<lambda>memo.
          case map_of memo vim_account of
            Some RO_vim_id \<Rightarrow> returnE RO_vim_id
          | None \<Rightarrow>
              bindE (call env (DbGetOne ''vim_accounts'' (JDict [(''_id'', vim_account)]))) (\<lambda>vim_doc.
              bindE (liftE (get_path vim_doc [''_admin'', ''operationalState''])) (\<lambda>state.
                if state \<noteq> JStr ''ENABLED'' then
                  raiseE (LcmException (''VIM='' @ py_str vim_account
                            @ '' is not available. operationalState='' @ py_str state))
                else
                  bindE (liftE (get_path vim_doc [''_admin'', ''deployed'', ''RO''])) (\<lambda>RO_vim_id.
                  thenE (modify (\<lambda>s. s\<lparr>vim_2_RO := AList.update vim_account RO_vim_id (vim_2_RO s)\<rparr>))
                        (returnE RO_vim_id))))))"

text \<open>
  \<^verbatim>\<open>d[k1][key] = v\<close> in a payload for RO, where the key is a value read from a document:
  the payload keeps the key as the text that its JSON encoding has.
\<close>

definition set_by_key :: "json \<Rightarrow> string \<Rightarrow> json \<Rightarrow> json \<Rightarrow> exc + json" where
  "set_by_key d k1 key v =
     (if \<not> hashable key then Inl (TypeError ''unhashable type'')
      else set_path d [k1, py_str key] v)"

definition add_vnf :: "env \<Rightarrow> json \<Rightarrow> json \<Rightarrow> (inst_st, json) M" where
  "add_vnf env vnf RO_ns_params =
     bindE (liftE (contains ''vimAccountId'' vnf)) (\<lambda>b.
     bindE (if b then
              bindE (liftE (getitem vnf ''vimAccountId'')) (\<lambda>va.
              bindE (vim_account_2_RO env va) (\<lambda>dc. returnE (JDict [(''datacenter'', dc)])))
            else returnE (JDict [])) (\<lambda>RO_vnf.
       if truthy RO_vnf then
         bindE (liftE (getitem vnf ''member-vnf-index'')) (\<lambda>idx.
           liftE (set_by_key RO_ns_params ''vnfs'' idx RO_vnf))
       else returnE RO_ns_params))"

definition vld_sites :: "env \<Rightarrow> json \<Rightarrow> (inst_st, json list) M" where
  "vld_sites env net =
     (case net of
        JDict kvs \<Rightarrow>
          mapE (\<lambda>(vim_account, vim_net).
                  bindE (vim_account_2_RO env (JStr vim_account)) (\<lambda>dc.
                    returnE (JDict [(''netmap-use'', vim_net), (''datacenter'', dc)]))) kvs
      | _ \<Rightarrow> returnE [JDict [(''netmap-use'', net)]])"

definition add_vld :: "env \<Rightarrow> json \<Rightarrow> json \<Rightarrow> (inst_st, json) M" where
  "add_vld env vld RO_ns_params =
     bindE (liftE (contains ''ip-profile'' vld)) (\<lambda>b.
     bindE (liftE (if b then bindS (getitem vld ''ip-profile'') (\<lambda>p. Inr (JDict [(''ip-profile'', p)]))
                   else Inr (JDict []))) (\<lambda>v1.
     bindE (liftE (contains ''vim-network-name'' vld)) (\<lambda>b.
     bindE (if b then
              bindE (liftE (getitem vld ''vim-network-name'')) (\<lambda>net.
              bindE (vld_sites env net) (\<lambda>sites. liftE (setitem v1 ''sites'' (JList sites))))
            else returnE v1) (\<lambda>RO_vld.
       if truthy RO_vld then
         bindE (liftE (getitem vld ''name'')) (\<lambda>name.
           liftE (set_by_key RO_ns_params ''networks'' name RO_vld))
       else returnE RO_ns_params))))"

definition ns_params_2_RO :: "env \<Rightarrow> json \<Rightarrow> (inst_st, json) M" where
  "ns_params_2_RO env ns_params =
     thenE (modify (\<lambda>s. s\<lparr>vim_2_RO := []\<rparr>))
       (if \<not> truthy ns_params then returnE JNull
        else
          bindE (liftE (getitem ns_params ''vimAccountId'')) (\<lambda>va.
          bindE (vim_account_2_RO env va) (\<lambda>dc.
          let p0 = JDict [(''datacenter'', dc), (''vnfs'', JDict []), (''networks'', JDict [])] in
          bindE (liftE (bindS (dict_get ns_params ''ssh-authorized-key'') (\<lambda>k.
                   if truthy k then setitem p0 ''cloud-config'' (JDict [(''key-pairs'', k)])
                   else Inr p0))) (\<lambda>p1.
          bindE (liftE (dict_get ns_params ''vnf'')) (\<lambda>vnf.
          bindE (if truthy vnf then bindE (liftE (iter_list vnf)) (\<lambda>vs. foldE (add_vnf env) vs p1)
                 else returnE p1) (\<lambda>p2.
          bindE (liftE (dict_get ns_params ''vld'')) (\<lambda>vld.
            if truthy vld then bindE (liftE (iter_list vld)) (\<lambda>vs. foldE (add_vld env) vs p2)
            else returnE p2)))))))"


subsection \<open>Phase 1: load\<close>

text \<open>One pass of the loop over \<^verbatim>\<open>nsd["constituent-vnfd"]\<close> that fetches the VNF record and, once per descriptor id, the VNFD.\<close>

definition load_vnf :: "env \<Rightarrow> string \<Rightarrow> json \<Rightarrow> (inst_st, unit) M" where
  "load_vnf env nsr_id c_vnf =
     bindE (liftE (getitem c_vnf ''vnfd-id-ref'')) (\<lambda>vnfd_id.
     bindE (liftE (getitem c_vnf ''member-vnf-index'')) (\<lambda>idx.
     bindE (call env (DbGetOne ''vnfrs'' (JDict [(''nsr-id-ref'', JStr nsr_id),
                                                  (''member-vnf-index-ref'', idx)]))) (\<lambda>vnfr.
     thenE (if \<not> hashable idx then raiseE (TypeError ''unhashable type'')
            else modify (\<lambda>s. s\<lparr>db_vnfr := AList.update idx vnfr (db_vnfr s)\<rparr>))
    (bindE (gets needed_vnfd) (\<lambda>known.
       if \<not> hashable vnfd_id then raiseE (TypeError ''unhashable type'')
       else
         whenE (map_of known vnfd_id = None)
           (thenE (modify (\<lambda>s. s\<lparr>step := ''Getting vnfd='' @ py_str vnfd_id @ '' from db''\<rparr>))
           (bindE (call env (DbGetOne ''vnfds'' (JDict [(''id'', vnfd_id)]))) (\<lambda>vnfd.
              modify (\<lambda>s. s\<lparr>needed_vnfd := AList.update vnfd_id vnfd (needed_vnfd s)\<rparr>)))))))))"

definition fresh_deployed :: "string \<Rightarrow> json" where
  "fresh_deployed nsr_id =
     JDict [(''id'', JStr nsr_id),
            (''RO'', JDict [(''vnfd_id'', JDict []), (''nsd_id'', JNull), (''nsr_id'', JNull),
                            (''nsr_status'', JStr ''SCHEDULED'')]),
            (''nsr_ip'', JDict []),
            (''VCA'', JDict [])]"

text \<open>From the start of the \<^verbatim>\<open>try\<close> body to \<^verbatim>\<open>db_nsr["operational-status"] = "init"\<close>; the value is \<^verbatim>\<open>(nsd, nsr_name)\<close>.\<close>

definition load :: "env \<Rightarrow> string \<Rightarrow> string \<Rightarrow> (inst_st, json \<times> json) M" where
  "load env nsr_id nslcmop_id =
     thenE (modify (\<lambda>s. s\<lparr>step := ''Getting nslcmop='' @ nslcmop_id @ '' from db''\<rparr>))
    (bindE (call env (DbGetOne ''nslcmops'' (JDict [(''_id'', JStr nslcmop_id)]))) (\<lambda>oper.
     thenE (modify (\<lambda>s. s\<lparr>db_nslcmop := oper, step := ''Getting nsr='' @ nsr_id @ '' from db''\<rparr>))
    (bindE (call env (DbGetOne ''nsrs'' (JDict [(''_id'', JStr nsr_id)]))) (\<lambda>d.
     thenE (modify (\<lambda>s. s\<lparr>db_nsr := d\<rparr>))
    (bindE (liftE (getitem d ''nsd'')) (\<lambda>nsd.
     bindE (liftE (getitem d ''name'')) (\<lambda>nsr_name.
     thenE (bindE (liftE (bindS (getitem nsd ''constituent-vnfd'') iter_list)) (\<lambda>c_vnfs.
              forE c_vnfs (load_vnf env nsr_id)))
    (bindE (liftE (bindS (getitem d ''_admin'') (\<lambda>a. dict_get a ''deployed''))) (\<lambda>deployed.
     thenE (whenE (\<not> truthy deployed)
              (set_nsr_path [''_admin'', ''deployed''] (fresh_deployed nsr_id)))
    (thenE (set_nsr ''detailed-status'' (JStr ''creating''))
    (thenE (set_nsr ''operational-status'' (JStr ''init''))
           (returnE (nsd, nsr_name)))))))))))))"

subsection \<open>Phases 2 to 4: descriptors and NS at RO\<close>

definition ro_path :: "string \<Rightarrow> string list" where
  "ro_path k = [''_admin'', ''deployed'', ''RO'', k]"

definition save_nsr :: "env \<Rightarrow> string \<Rightarrow> ('z ns_docs_scheme, unit) M" where
  "save_nsr env nsr_id = bindE (gets db_nsr) (\<lambda>d. update_db env ''nsrs'' (JStr nsr_id) d)"

text \<open>\<^verbatim>\<open>nsr_lcm["RO"]["vnfd_id"][vnfd_id] = uuid\<close>.\<close>

definition set_vnfd_uuid :: "json \<Rightarrow> json \<Rightarrow> ('z ns_docs_scheme, unit) M" where
  "set_vnfd_uuid vnfd_id uuid =
     (case vnfd_id of
        JStr k \<Rightarrow> set_nsr_path (ro_path ''vnfd_id'' @ [k]) uuid
      | _ \<Rightarrow> if hashable vnfd_id then set_nsr_path (ro_path ''vnfd_id'' @ [py_str vnfd_id]) uuid
             else raiseE (TypeError ''unhashable type''))"

text \<open>One pass of the loop over \<^verbatim>\<open>needed_vnfd.items()\<close>.\<close>

definition register_vnfd :: "env \<Rightarrow> string \<Rightarrow> json \<times> json \<Rightarrow> (inst_st, unit) M" where
  "register_vnfd env nsr_id entry =
     (case entry of (vnfd_id, vnfd) \<Rightarrow>
        thenE (set_step_status (''Creating vnfd='' @ py_str vnfd_id @ '' at RO''))
       (bindE (liftE (RO_id nsr_id vnfd_id)) (\<lambda>vnfd_id_RO.
        bindE (call env (ROGetList ''vnfd'' (JDict [(''osm_id'', JStr vnfd_id_RO)]))) (\<lambda>vnfd_list.
        thenE
          (if truthy vnfd_list then
             bindE (liftE (bindS (index0 vnfd_list) (\<lambda>x. getitem x ''uuid''))) (\<lambda>uuid.
               set_vnfd_uuid vnfd_id uuid)
           else
             bindE (vnfd2RO env vnfd (JStr vnfd_id_RO)) (\<lambda>vnfd_RO.
             bindE (call env (ROCreate ''vnfd'' (JDict [(''descriptor'', vnfd_RO)]))) (\<lambda>desc.
             bindE (liftE (getitem desc ''uuid'')) (\<lambda>uuid.
             thenE (set_vnfd_uuid vnfd_id uuid)
                   (set_nsr_path [''_admin'', ''nsState''] (JStr ''INSTANTIATED''))))))
          (save_nsr env nsr_id)))))"

text \<open>The copy of the NSD sent to RO: its id and the references to its VNFDs are the RO identities.\<close>

definition nsd2RO :: "string \<Rightarrow> json \<Rightarrow> string \<Rightarrow> exc + json" where
  "nsd2RO nsr_id nsd nsd_id_RO =
     bindS (setitem nsd ''id'' (JStr nsd_id_RO)) (\<lambda>n1.
     bindS (pop_keys n1 [''_id'', ''_admin'']) (\<lambda>n2.
     bindS (bindS (getitem n2 ''constituent-vnfd'') iter_list) (\<lambda>c_vnfs.
     bindS (mapS (\<lambda>c_vnf. bindS (getitem c_vnf ''vnfd-id-ref'') (\<lambda>vnfd_id.
                           bindS (RO_id nsr_id vnfd_id) (\<lambda>r. setitem c_vnf ''vnfd-id-ref'' (JStr r))))
              c_vnfs) (\<lambda>c_vnfs'.
       put_elements n2 ''constituent-vnfd'' c_vnfs'))))"

definition register_nsd :: "env \<Rightarrow> string \<Rightarrow> json \<Rightarrow> (inst_st, unit) M" where
  "register_nsd env nsr_id nsd =
     bindE (liftE (getitem nsd ''id'')) (\<lambda>nsd_id.
     thenE (set_step_status (''Creating nsd='' @ py_str nsd_id @ '' at RO''))
    (bindE (liftE (RO_id nsr_id nsd_id)) (\<lambda>nsd_id_RO.
     bindE (call env (ROGetList ''nsd'' (JDict [(''osm_id'', JStr nsd_id_RO)]))) (\<lambda>nsd_list.
     thenE
       (if truthy nsd_list then
          bindE (liftE (bindS (index0 nsd_list) (\<lambda>x. getitem x ''uuid''))) (\<lambda>uuid.
            set_nsr_path (ro_path ''nsd_id'') uuid)
        else
          bindE (liftE (nsd2RO nsr_id nsd nsd_id_RO)) (\<lambda>nsd_RO.
          bindE (call env (ROCreate ''nsd'' (JDict [(''descriptor'', nsd_RO)]))) (\<lambda>desc.
          thenE (set_nsr_path [''_admin'', ''nsState''] (JStr ''INSTANTIATED''))
          (bindE (liftE (getitem desc ''uuid'')) (\<lambda>uuid.
             set_nsr_path (ro_path ''nsd_id'') uuid)))))
       (save_nsr env nsr_id)))))"

text \<open>
  The look for an NS that an earlier run left at RO. The value is \<^verbatim>\<open>RO_nsr_id\<close> after the
  block: the id read from the record when RO shows the NS in a status other than
  ERROR, and \<^verbatim>\<open>None\<close> when the record has none, when \<^verbatim>\<open>RO.show\<close> answers 404, and when
  the NS was in ERROR and has been deleted. The \<^verbatim>\<open>RO.delete\<close> has no handler.
\<close>

definition recover_ns :: "env \<Rightarrow> (inst_st, json) M" where
  "recover_ns env =
     bindE (bindE (get_nsr_path [''_admin'', ''deployed'', ''RO'']) (\<lambda>ro. liftE (dict_get ro ''nsr_id''))) (\<lambda>RO_nsr_id.
       if truthy RO_nsr_id then
         bindE (catchE
                  (thenE (set_step_status ''Looking for existing ns at RO'')
                         (bindE (call env (ROShow ''ns'' RO_nsr_id)) (\<lambda>desc. returnE (Some desc))))
                  (\<lambda>e. case e of
                          ROClientException c msg \<Rightarrow>
                            if c \<noteq> 404 then raiseE e
                            else thenE (set_nsr_path (ro_path ''nsr_id'') JNull) (returnE None)
                        | _ \<Rightarrow> raiseE e)) (\<lambda>found.
           case found of
             None \<Rightarrow> returnE JNull
           | Some desc \<Rightarrow>
               bindE (bindE (call env (ROCheckNsStatus desc)) (\<lambda>r. liftE (unpack2 r))) (\<lambda>(ns_status, ns_status_info).
               thenE (set_nsr_path (ro_path ''nsr_status'') ns_status)
                 (if ns_status = JStr ''ERROR'' then
                    thenE (set_step_status (''Deleting ns at RO. RO_ns_id='' @ py_str RO_nsr_id))
                   (thenE (call_unit env (RODelete ''ns'' RO_nsr_id))
                   (thenE (set_nsr_path (ro_path ''nsr_id'') JNull)
                          (returnE JNull)))
                  else returnE RO_nsr_id)))
       else returnE RO_nsr_id)"

text \<open>\<^verbatim>\<open>if not RO_nsr_id:\<close> create the NS at RO; then save the record. The value is \<^verbatim>\<open>RO_nsr_id\<close>.\<close>

definition create_ns :: "env \<Rightarrow> string \<Rightarrow> json \<Rightarrow> (inst_st, json) M" where
  "create_ns env nsr_id RO_nsr_id =
     bindE
       (if \<not> truthy RO_nsr_id then
          thenE (set_step_status ''Creating ns at RO'')
         (bindE (bindE (gets db_nsr) (\<lambda>d. liftE (dict_get d ''instantiate_params''))) (\<lambda>ns_params.
          bindE (ns_params_2_RO env ns_params) (\<lambda>RO_ns_params.
          bindE (bindE (gets db_nsr) (\<lambda>d. liftE (getitem d ''name''))) (\<lambda>name.
          bindE (get_nsr_path (ro_path ''nsd_id'')) (\<lambda>scenario.
          bindE (call env (ROCreate ''ns'' (JDict [(''descriptor'', RO_ns_params), (''name'', name),
                                                   (''scenario'', scenario)]))) (\<lambda>desc.
          bindE (liftE (getitem desc ''uuid'')) (\<lambda>uuid.
          thenE (set_nsr_path (ro_path ''nsr_id'') uuid)
         (thenE (set_nsr_path [''_admin'', ''nsState''] (JStr ''INSTANTIATED''))
         (thenE (set_nsr_path (ro_path ''nsr_status'') (JStr ''BUILD''))
                (returnE uuid))))))))))
        else returnE RO_nsr_id)
       (\<lambda>RO_nsr_id'. thenE (save_nsr env nsr_id) (returnE RO_nsr_id'))"


subsection \<open>Phase 5: VIM account of the VNF records\<close>

text \<open>
  \<^verbatim>\<open>p.get("vnf") and p["vnf"].get(vnf_index) and p["vnf"][vnf_index].get("vimAccountId")\<close>
  chooses between the account of the VNF and \<^verbatim>\<open>p["vimAccountId"]\<close>.
\<close>

definition vnf_vim_account :: "json \<Rightarrow> json \<Rightarrow> exc + json" where
  "vnf_vim_account p vnf_index =
     bindS (dict_get p ''vnf'') (\<lambda>v.
       if \<not> truthy v then getitem p ''vimAccountId''
       else bindS (dict_get_key v vnf_index) (\<lambda>entry.
         if \<not> truthy entry then getitem p ''vimAccountId''
         else bindS (dict_get entry ''vimAccountId'') (\<lambda>a.
           if \<not> truthy a then getitem p ''vimAccountId'' else Inr a)))"

definition backfill_vim_account :: "env \<Rightarrow> (inst_st, unit) M" where
  "backfill_vim_account env =
     thenE (modify (\<lambda>s. s\<lparr>step := ''Updating VNFR vimAcccount''\<rparr>))
    (bindE (gets db_vnfr) (\<lambda>entries.
       forE entries (\<lambda>(vnf_index, vnfr).
         bindE (liftE (dict_get vnfr ''vim-account-id'')) (\<lambda>has.
           if truthy has then returnE ()
           else
             bindE (bindE (gets db_nsr) (\<lambda>d. liftE (getitem d ''instantiate_params''))) (\<lambda>p.
             bindE (liftE (vnf_vim_account p vnf_index)) (\<lambda>account.
             bindE (liftE (setitem vnfr ''vim-account-id'' account)) (\<lambda>vnfr'.
             thenE (modify (\<lambda>s. s\<lparr>db_vnfr := AList.update vnf_index vnfr' (db_vnfr s)\<rparr>))
            (bindE (liftE (getitem vnfr' ''_id'')) (\<lambda>i. update_db env ''vnfrs'' i vnfr')))))))))"

subsection \<open>Phase 6: wait for the NS at RO\<close>

text \<open>
  One pass of the polling loop: \<open>Some info\<close> when the loop is left by \<^verbatim>\<open>break\<close> with the
  addresses, \<open>None\<close> when it goes on to sleep. The exception raised for status ERROR is
  built from the status text alone; 400 stands for the \<^verbatim>\<open>http_code\<close> it gets by default,
  which the workflow does not read.
\<close>

definition poll_iter :: "env \<Rightarrow> string \<Rightarrow> json \<Rightarrow> string \<Rightarrow> (inst_st, json option) M" where
  "poll_iter env nsr_id RO_nsr_id ns_status_detailed =
     bindE (call env (ROShow ''ns'' RO_nsr_id)) (\<lambda>desc.
     bindE (bindE (call env (ROCheckNsStatus desc)) (\<lambda>r. liftE (unpack2 r))) (\<lambda>(ns_status, ns_status_info).
     thenE (set_nsr_path (ro_path ''nsr_status'') ns_status)
       (if ns_status = JStr ''ERROR'' then raiseE (ROClientException 400 (py_str ns_status_info))
        else if ns_status = JStr ''BUILD'' then
          bindE (bindE (gets db_nsr) (\<lambda>d. liftE (getitem d ''detailed-status''))) (\<lambda>old.
          let new = JStr (ns_status_detailed @ ''; '' @ py_str ns_status_info) in
          thenE (set_nsr ''detailed-status'' new)
         (thenE (whenE (old \<noteq> new) (save_nsr env nsr_id))
                (returnE None)))
        else if ns_status = JStr ''ACTIVE'' then
          thenE (modify (\<lambda>s. s\<lparr>step := ''Waiting for management IP address from VIM''\<rparr>))
            (catchE
               (bindE (call env (ROGetNsVnfInfo desc)) (\<lambda>info.
                thenE (set_nsr_path [''_admin'', ''deployed'', ''nsr_ip''] info)
                      (returnE (Some info))))
               (\<lambda>e. case e of
                       ROClientException c msg \<Rightarrow> if c \<noteq> 409 then raiseE e else returnE None
                     | _ \<Rightarrow> raiseE e))
        else raiseE (AssertionError (''ROclient.check_ns_status returns unknown ''
                                       @ py_str ns_status)))))"

text \<open>
  \<^verbatim>\<open>while deployment_timeout > 0\<close>, with the 5 s sleep and the decrement at the end of
  each pass, and the \<^verbatim>\<open>raise\<close> that follows the loop when the time is used up.
\<close>

function poll_ns :: "env \<Rightarrow> string \<Rightarrow> json \<Rightarrow> string \<Rightarrow> int \<Rightarrow> inst_st \<Rightarrow> (exc + json) \<times> inst_st" where
  "poll_ns env nsr_id RO_nsr_id ns_status_detailed deployment_timeout s =
     (if deployment_timeout > 0 then
        (case poll_iter env nsr_id RO_nsr_id ns_status_detailed s of
           (Inl e, s') \<Rightarrow> (Inl e, s')
         | (Inr (Some info), s') \<Rightarrow> (Inr info, s')
         | (Inr None, s') \<Rightarrow>
             poll_ns env nsr_id RO_nsr_id ns_status_detailed (deployment_timeout - 5)
               (s'\<lparr>trace := trace s' @ [Slept 5]\<rparr>))
      else (Inl (ROClientException 400 ''Timeout waiting ns to be ready''), s))"
  by pat_completeness auto
termination
  by (relation "measure (\<lambda>(env, nsr_id, RO_nsr_id, d, t, s). nat t)") auto

declare poll_ns.simps [simp del]

definition wait_ns_ready :: "env \<Rightarrow> string \<Rightarrow> json \<Rightarrow> (inst_st, json) M" where
  "wait_ns_ready env nsr_id RO_nsr_id =
     (let ns_status_detailed = ''Waiting ns ready at RO. RO_id='' @ py_str RO_nsr_id in
      thenE (modify (\<lambda>s. s\<lparr>step := ns_status_detailed\<rparr>))
     (thenE (set_nsr ''detailed-status'' (JStr ns_status_detailed))
            (poll_ns env nsr_id RO_nsr_id ns_status_detailed (2 * 3600))))"

subsection \<open>Phase 7: addresses into the VNF records\<close>

text \<open>The loop over \<^verbatim>\<open>vnfr["vdur"]\<close> that fills the first entry with the given \<^verbatim>\<open>vdu-id-ref\<close>.\<close>

fun update_first :: "string \<Rightarrow> json \<Rightarrow> json list \<Rightarrow> exc + json list" where
  "update_first vdu_id vdu_deployed [] = Inr []"
| "update_first vdu_id vdu_deployed (vdur # rest) =
     bindS (getitem vdur ''vdu-id-ref'') (\<lambda>r.
       if r = JStr vdu_id then
         bindS (dict_get vdu_deployed ''vim_id'') (\<lambda>vim_id.
         bindS (setitem vdur ''vim-id'' vim_id) (\<lambda>v1.
         bindS (dict_get vdu_deployed ''ip_address'') (\<lambda>ip.
         bindS (setitem v1 ''ip-address'' ip) (\<lambda>v2. Inr (v2 # rest)))))
       else bindS (update_first vdu_id vdu_deployed rest) (\<lambda>rest'. Inr (vdur # rest')))"

definition update_vdur :: "string \<times> json \<Rightarrow> json \<Rightarrow> exc + json" where
  "update_vdur entry vnfr =
     (case entry of (vdu_id, vdu_deployed) \<Rightarrow>
        bindS (bindS (getitem vnfr ''vdur'') iter_list) (\<lambda>vdurs.
        bindS (update_first vdu_id vdu_deployed vdurs) (\<lambda>vdurs'.
          put_elements vnfr ''vdur'' vdurs')))"

definition enrich_vnfrs :: "env \<Rightarrow> string \<Rightarrow> json \<Rightarrow> (inst_st, unit) M" where
  "enrich_vnfrs env nsr_id ns_RO_info =
     thenE (modify (\<lambda>s. s\<lparr>step := ''Updating VNFRs''\<rparr>))
    (thenE
       (bindE (liftE (items ns_RO_info)) (\<lambda>entries.
          forE entries (\<lambda>(vnf_index, vnfr_deployed).
            bindE (gets (\<lambda>s. map_of (db_vnfr s) (JStr vnf_index))) (\<lambda>found.
              case found of
                None \<Rightarrow> raiseE (KeyError vnf_index)
              | Some vnfr \<Rightarrow>
                  bindE (liftE (bindS (dict_get vnfr_deployed ''ip_address'') (\<lambda>ip.
                           setitem vnfr ''ip-address'' ip))) (\<lambda>vnfr1.
                  thenE (modify (\<lambda>s. s\<lparr>db_vnfr := AList.update (JStr vnf_index) vnfr1 (db_vnfr s)\<rparr>))
                 (bindE (liftE (bindS (getitem vnfr_deployed ''vdur'') items)) (\<lambda>vdus.
                  bindE (liftE (foldS update_vdur vdus vnfr1)) (\<lambda>vnfr2.
                  thenE (modify (\<lambda>s. s\<lparr>db_vnfr := AList.update (JStr vnf_index) vnfr2 (db_vnfr s)\<rparr>))
                 (bindE (liftE (getitem vnfr2 ''_id'')) (\<lambda>i. update_db env ''vnfrs'' i vnfr2))))))))))
    (thenE (set_nsr ''detailed-status'' (JStr ''Configuring vnfr''))
           (save_nsr env nsr_id)))"

subsection \<open>Phase 8: charms\<close>

text \<open>
  The inner function \<^verbatim>\<open>deploy\<close>, with the variables of the enclosing loop that it reads
  as parameters. The charm is scheduled as a task; the completion callback attached
  to the task runs after this workflow and is \<open>n2vc_callback\<close>.
\<close>

definition deploy :: "env \<Rightarrow> string \<Rightarrow> string \<Rightarrow> json \<Rightarrow> json \<Rightarrow> json \<Rightarrow> string \<Rightarrow> json \<Rightarrow> json
    \<Rightarrow> (inst_st, unit) M" where
  "deploy env nsr_id nslcmop_id nsr_name vnfd vnfd_id vnf_index proxy_charm params =
     bindE (liftE (get_path vnfd [''_admin'', ''storage''])) (\<lambda>base_folder.
     bindE (call env FsGetParams) (\<lambda>storage_params.
     bindE (liftE (getitem storage_params ''path'')) (\<lambda>path.
     bindE (liftE (getitem base_folder ''folder'')) (\<lambda>folder.
     bindE (liftE (getitem base_folder ''pkg-dir'')) (\<lambda>pkg_dir.
     let charm_path = py_str path @ py_str folder @ ''/'' @ py_str pkg_dir @ ''/charms/''
                        @ py_str proxy_charm in
     bindE (gets (\<lambda>s. map_of (db_vnfr s) (JStr vnf_index))) (\<lambda>found.
       case found of
         None \<Rightarrow> raiseE (KeyError vnf_index)
       | Some vnfr \<Rightarrow>
           bindE (liftE (bindS (getitem vnfr ''ip-address'') (\<lambda>ip. setitem params ''rw_mgmt_ip'' ip))) (\<lambda>params'.
           bindE (liftE (getitem vnfd ''name'')) (\<lambda>vnfd_name.
           bindE (call env (VcaFormatApplicationName nsr_name (JStr vnf_index) vnfd_name)) (\<lambda>application_name.
           thenE (set_nsr_path [''_admin'', ''deployed'', ''VCA'', vnf_index]
                    (JDict [(''model'', JStr ''default''), (''application'', application_name),
                            (''operational-status'', JStr ''init''), (''detailed-status'', JStr []),
                            (''vnfd_id'', vnfd_id)]))
          (bindE (ensure_future (Remote (VcaDeployCharms (JStr ''default'') application_name vnfd
                                           charm_path params'))) (\<lambda>task.
             registry_insert Ns_tasks (JStr nsr_id) (JStr nslcmop_id)
               (''create_charm:'' @ vnf_index) task)))))))))))"

definition initial_params :: "json \<Rightarrow> exc + json" where
  "initial_params config =
     bindS (contains ''initial-config-primitive'' config) (\<lambda>b.
       if b then bindS (getitem config ''initial-config-primitive'') (\<lambda>v.
                   Inr (JDict [(''initial-config-primitive'', v)]))
       else Inr (JDict []))"

text \<open>\<^verbatim>\<open>config and config.get("juju")\<close>.\<close>

definition has_juju :: "json \<Rightarrow> exc + bool" where
  "has_juju config =
     (if truthy config then bindS (dict_get config ''juju'') (\<lambda>j. Inr (truthy j)) else Inr False)"

text \<open>One pass of the loop over the constituent VNFs: the charm of the VNF, then the charms of its VDUs.\<close>

definition configure_vnf :: "env \<Rightarrow> string \<Rightarrow> string \<Rightarrow> json \<Rightarrow> json \<Rightarrow> (inst_st, unit) M" where
  "configure_vnf env nsr_id nslcmop_id nsr_name c_vnf =
     bindE (liftE (getitem c_vnf ''vnfd-id-ref'')) (\<lambda>vnfd_id.
     bindE (liftE (getitem c_vnf ''member-vnf-index'')) (\<lambda>idx.
     let vnf_index = py_str idx in
     bindE (gets (\<lambda>s. map_of (needed_vnfd s) vnfd_id)) (\<lambda>found.
       case found of
         None \<Rightarrow> raiseE (if hashable vnfd_id then KeyError (py_str vnfd_id)
                         else TypeError ''unhashable type'')
       | Some vnfd \<Rightarrow>
           bindE (liftE (dict_get vnfd ''vnf-configuration'')) (\<lambda>vnf_config.
           thenE
             (bindE (liftE (has_juju vnf_config)) (\<lambda>j.
                whenE j
                  (bindE (liftE (get_path vnf_config [''juju'', ''charm''])) (\<lambda>proxy_charm.
                     whenE (truthy proxy_charm)
                       (bindE (liftE (initial_params vnf_config)) (\<lambda>params.
                        thenE (deploy env nsr_id nslcmop_id nsr_name vnfd vnfd_id vnf_index
                                 proxy_charm params)
                              (modify (\<lambda>s. s\<lparr>number_to_configure := number_to_configure s + 1\<rparr>))))))))
             (bindE (liftE (bindS (getitem vnfd ''vdu'') iter_list)) (\<lambda>vdus.
                forE vdus (\<lambda>vdu.
                  bindE (liftE (dict_get vdu ''vdu-configuration'')) (\<lambda>vdu_config.
                  bindE (liftE (has_juju vdu_config)) (\<lambda>j.
                    whenE j
                      (bindE (liftE (get_path vdu_config [''juju'', ''charm''])) (\<lambda>proxy_charm.
                       bindE (liftE (initial_params vdu_config)) (\<lambda>params.
                         whenE (truthy proxy_charm)
                           (thenE (deploy env nsr_id nslcmop_id nsr_name vnfd vnfd_id vnf_index
                                     proxy_charm params)
                                  (modify (\<lambda>s. s\<lparr>number_to_configure := number_to_configure s + 1\<rparr>)))))))))))))))"

definition deploy_charms :: "env \<Rightarrow> string \<Rightarrow> string \<Rightarrow> json \<Rightarrow> json \<Rightarrow> (inst_st, unit) M" where
  "deploy_charms env nsr_id nslcmop_id nsd nsr_name =
     thenE (modify (\<lambda>s. s\<lparr>number_to_configure := 0\<rparr>))
    (thenE (call_unit env VcaLogin)
    (thenE (modify (\<lambda>s. s\<lparr>step := ''Looking for needed vnfd to configure''\<rparr>))
    (bindE (liftE (bindS (getitem nsd ''constituent-vnfd'') iter_list)) (\<lambda>c_vnfs.
       forE c_vnfs (configure_vnf env nsr_id nslcmop_id nsr_name)))))"

subsection \<open>Phase 9 and the whole workflow\<close>

definition save_nslcmop :: "env \<Rightarrow> string \<Rightarrow> ('z ns_docs_scheme, unit) M" where
  "save_nslcmop env nslcmop_id = bindE (gets db_nslcmop) (\<lambda>d. update_db env ''nslcmops'' (JStr nslcmop_id) d)"

text \<open>The end of the \<^verbatim>\<open>try\<close> body: the outcome goes into both documents, both are saved, and \<^verbatim>\<open>nsr_lcm\<close> is returned.\<close>

definition record_outcome :: "env \<Rightarrow> string \<Rightarrow> string \<Rightarrow> (inst_st, json) M" where
  "record_outcome env nsr_id nslcmop_id =
     bindE (gets number_to_configure) (\<lambda>n.
     thenE
       (if n \<noteq> 0 then
          thenE (set_nsr ''config-status'' (JStr ''configuring''))
         (thenE (set_nsr ''detailed-status'' (JStr (''configuring: init: '' @ show_int n)))
                (set_nslcmop ''detailed-status'' (JStr (''configuring: init: '' @ show_int n))))
        else
          thenE (set_nslcmop ''operationState'' (JStr ''COMPLETED''))
         (thenE (set_nslcmop ''detailed-status'' (JStr ''done''))
         (thenE (set_nsr ''config-status'' (JStr ''configured''))
                (set_nsr ''detailed-status'' (JStr ''done'')))))
    (thenE (set_nsr ''operational-status'' (JStr ''running''))
    (thenE (save_nsr env nsr_id)
    (thenE (save_nslcmop env nslcmop_id)
           (get_nsr_path [''_admin'', ''deployed''])))))"

definition ns_instantiate_body :: "env \<Rightarrow> string \<Rightarrow> string \<Rightarrow> (inst_st, json) M" where
  "ns_instantiate_body env nsr_id nslcmop_id =
     bindE (load env nsr_id nslcmop_id) (\<lambda>(nsd, nsr_name).
     thenE (bindE (gets needed_vnfd) (\<lambda>vnfds. forE vnfds (register_vnfd env nsr_id)))
    (thenE (register_nsd env nsr_id nsd)
    (bindE (recover_ns env) (\<lambda>found.
     bindE (create_ns env nsr_id found) (\<lambda>RO_nsr_id.
     thenE (backfill_vim_account env)
    (bindE (wait_ns_ready env nsr_id RO_nsr_id) (\<lambda>ns_RO_info.
     thenE (enrich_vnfrs env nsr_id ns_RO_info)
    (thenE (deploy_charms env nsr_id nslcmop_id nsd nsr_name)
           (record_outcome env nsr_id nslcmop_id)))))))))"

fun ro_db_or_lcm :: "exc \<Rightarrow> bool" where
  "ro_db_or_lcm (ROClientException c m) = True"
| "ro_db_or_lcm (DbException m) = True"
| "ro_db_or_lcm (LcmException m) = True"
| "ro_db_or_lcm e = False"

definition inst_finally :: "env \<Rightarrow> string \<Rightarrow> string \<Rightarrow> (inst_st, unit) M" where
  "inst_finally env nsr_id nslcmop_id =
     bindE (gets exc_v) (\<lambda>e.
       case e of
         None \<Rightarrow> returnE ()
       | Some exc \<Rightarrow>
           bindE (gets step) (\<lambda>st.
           thenE
             (bindE (gets db_nsr) (\<lambda>d.
                whenE (truthy d)
                  (thenE (set_nsr ''detailed-status'' (JStr (''ERROR '' @ st @ '': '' @ exc_str exc)))
                  (thenE (set_nsr ''operational-status'' (JStr ''failed''))
                         (save_nsr env nsr_id)))))
             (bindE (gets db_nslcmop) (\<lambda>d.
                whenE (truthy d)
                  (thenE (set_nslcmop ''detailed-status'' (JStr (''FAILED '' @ st @ '': '' @ exc_str exc)))
                  (thenE (set_nslcmop ''operationState'' (JStr ''FAILED''))
                  (thenE (bindE (call env Time) (\<lambda>now. set_nslcmop ''statusEnteredTime'' now))
                         (save_nslcmop env nslcmop_id))))))))"

definition ns_instantiate :: "env \<Rightarrow> string \<Rightarrow> string \<Rightarrow> (inst_st, json) M" where
  "ns_instantiate env nsr_id nslcmop_id =
     thenE (modify (\<lambda>s. s\<lparr>db_nsr := JNull, db_nslcmop := JNull, db_vnfr := [], needed_vnfd := [],
                           exc_v := None\<rparr>))
       (handled
          (\<lambda>e st. if ro_db_or_lcm e
                   then LogError (''Task ns='' @ nsr_id @ '' instantiate='' @ nslcmop_id @ '' ''
                                    @ ''Exit Exception while '' @ quoted st @ '': '' @ exc_str e)
                   else LogCritical (''Task ns='' @ nsr_id @ '' instantiate='' @ nslcmop_id @ '' ''
                                       @ ''Exit Exception '' @ type_name e @ '' while '' @ quoted st
                                       @ '': '' @ exc_str e))
          (ns_instantiate_body env nsr_id nslcmop_id)
          (inst_finally env nsr_id nslcmop_id))"


section \<open>Requests and traces\<close>


text \<open>A statement only appends to the trace, and every event it appends satisfies \<open>P\<close>.\<close>

definition grows :: "(event \<Rightarrow> bool) \<Rightarrow> ('z st_scheme, 'a) M \<Rightarrow> bool" where
  "grows P m = (\<forall>s. \<exists>evs. trace (snd (m s)) = trace s @ evs \<and> list_all P evs)"



section \<open>Refused status writes\<close>

text \<open>
  \<open>only_writes_refused\<close> describes a database that answers \<^verbatim>\<open>DbException\<close> to nothing but
  \<^verbatim>\<open>db.replace\<close> and \<^verbatim>\<open>db.set_one\<close>, the two requests of the helpers. \<open>never_db\<close> says of a
  statement that it does not raise \<^verbatim>\<open>DbException\<close>, from any state.
\<close>

fun is_DbException :: "exc \<Rightarrow> bool" where
  "is_DbException (DbException m) = True"
| "is_DbException e = False"

fun is_status_write :: "call \<Rightarrow> bool" where
  "is_status_write (DbReplace item ident desc) = True"
| "is_status_write (DbSetOne item q desc) = True"
| "is_status_write c = False"

definition only_writes_refused :: "env \<Rightarrow> bool" where
  "only_writes_refused env = (\<forall>h c m. answer env h c = Inl (DbException m) \<longrightarrow> is_status_write c)"

definition no_db :: "exc + 'a \<Rightarrow> bool" where
  "no_db r = (case r of Inl e \<Rightarrow> \<not> is_DbException e | Inr x \<Rightarrow> True)"

definition never_db :: "('s, 'a) M \<Rightarrow> bool" where
  "never_db m = (\<forall>s. no_db (fst (m s)))"


section \<open>Records of an outcome\<close>

text \<open>The requests of a trace, in order.\<close>

fun requested :: "event list \<Rightarrow> call list" where
  "requested [] = []"
| "requested (Called c a # evs) = c # requested evs"
| "requested (ev # evs) = requested evs"






definition is_record :: "json \<Rightarrow> bool" where
  "is_record d = (case d of JDict kvs \<Rightarrow> kvs \<noteq> [] | _ \<Rightarrow> False)"




section \<open>Concrete inputs\<close>

text \<open>
  The three cases at concrete inputs: an unknown topic, a known topic with no entry,
  and a vim with one pending task.
\<close>

definition lcm0 :: lcm where
  "lcm0 = \<lparr>trace = [], lcm_ns_tasks = [], lcm_vim_tasks = [], lcm_sdn_tasks = [],
           pings_not_received = 1, tasks = []\<rparr>"

definition lcm_one_vim_task :: lcm where
  "lcm_one_vim_task =
     lcm0\<lparr>lcm_vim_tasks := [(JStr ''v1'', [(JInt 2, [(''vim_create'', 0)])])],
          tasks := [(0, Pending)]\<rparr>"


text \<open>An environment in which every call succeeds with \<^verbatim>\<open>None\<close> and no task ever finishes.\<close>

definition env_quiet :: env where
  "env_quiet = \<lparr>answer = (\<lambda>h c. Inr JNull), task_outcome = (\<lambda>h t. Pending)\<rparr>"

definition cb0 :: cb_st where
  "cb0 = \<lparr>trace = [], lcm_ns_tasks = [], lcm_vim_tasks = [], lcm_sdn_tasks = [],
          pings_not_received = 1, tasks = [], step = [], exc_v = None,
          db_nsr = JNull, db_nslcmop = JNull, cb_nsr_id = JNull, cb_nslcmop_id = JNull,
          update_nsr = False, update_nslcmop = False\<rparr>"

text \<open>An NS record with one charm, active, and the record of its instantiate operation.\<close>

definition nsr_one_active :: json where
  "nsr_one_active =
     JDict [(''_id'', JStr ''ns1''),
            (''_admin'', JDict [(''deployed'', JDict [(''VCA'', JDict
               [(''1'', JDict [(''operational-status'', JStr ''active''),
                               (''detailed-status'', JStr '''')])])])])]"

definition op_instantiate :: json where
  "op_instantiate = JDict [(''_id'', JStr ''op1''), (''lcmOperationType'', JStr ''instantiate'')]"

definition ping0 :: ping_st where
  "ping0 = \<lparr>trace = [], lcm_ns_tasks = [], lcm_vim_tasks = [], lcm_sdn_tasks = [],
            pings_not_received = 1, tasks = [], consecutive_errors = 0, first_start = True,
            kafka_has_received = False\<rparr>"

definition read0 :: read_st where
  "read0 = \<lparr>trace = [], lcm_ns_tasks = [], lcm_vim_tasks = [], lcm_sdn_tasks = [],
            pings_not_received = 1, tasks = [], consecutive_errors = 0, first_start = True,
            order_id = 1, loop_nsr_id = None, loop_nslcmop_id = None\<rparr>"

text \<open>Surroundings of a prober iteration: the publish succeeds, and a self-ping is read during the sleep or not.\<close>

definition quiet_iter :: ping_in where
  "quiet_iter = \<lparr>write_raises = None, ping_read_at_write = False, ping_read_at_sleep = False\<rparr>"

definition answered_iter :: ping_in where
  "answered_iter = \<lparr>write_raises = None, ping_read_at_write = False, ping_read_at_sleep = True\<rparr>"


text \<open>A status push "error" for the only charm of \<open>nsr_one_active\<close>.\<close>

definition error_push :: "(exc + unit) \<times> cb_st" where
  "error_push =
     n2vc_callback env_quiet JNull JNull (JStr ''error'') (JStr ''hook failed'')
       nsr_one_active op_instantiate ''1'' None cb0"

text \<open>The prober after two iterations, the self-ping having been read during the first sleep.\<close>

definition ping_after_two :: ping_st where
  "ping_after_two = snd (kafka_ping [answered_iter, quiet_iter] ping0)"


text \<open>The prober after nine iterations from the start of the process, no self-ping having been read.\<close>

definition ping_nine :: ping_st where
  "ping_nine = snd (kafka_ping (replicate 9 quiet_iter) ping0)"


text \<open>Initial states of the workflows: nothing registered, nothing done yet.\<close>

definition vim0 :: vim_st where
  "vim0 = \<lparr>trace = [], lcm_ns_tasks = [], lcm_vim_tasks = [], lcm_sdn_tasks = [],
           pings_not_received = 1, tasks = [], step = [], exc_v = None, db_vim = JNull\<rparr>"

definition sdn0 :: sdn_st where
  "sdn0 = \<lparr>trace = [], lcm_ns_tasks = [], lcm_vim_tasks = [], lcm_sdn_tasks = [],
           pings_not_received = 1, tasks = [], step = [], exc_v = None, db_sdn = JNull\<rparr>"

definition term0 :: term_st where
  "term0 = \<lparr>trace = [], lcm_ns_tasks = [], lcm_vim_tasks = [], lcm_sdn_tasks = [],
            pings_not_received = 1, tasks = [], step = [], exc_v = None,
            db_nsr = JNull, db_nslcmop = JNull, db_nslcmop_upd = None, db_nsr_upd = None,
            nsr_lcm = JNull, failed_detail = [], vca_task_list = [], vca_task_dict = []\<rparr>"

text \<open>An environment that answers every call by a fixed table and leaves every task in one state.\<close>

definition env_of :: "(call \<Rightarrow> exc + json) \<Rightarrow> task_state \<Rightarrow> env" where
  "env_of table t = \<lparr>answer = (\<lambda>h c. table c), task_outcome = (\<lambda>h k. t)\<rparr>"


text \<open>
  An NS record that was never instantiated, and a terminate operation on it; a database
  that holds the two.
\<close>

definition nsr_not_instantiated :: json where
  "nsr_not_instantiated =
     JDict [(''_id'', JStr ''ns1''),
            (''_admin'', JDict [(''nsState'', JStr ''NOT_INSTANTIATED''), (''deployed'', JDict [])])]"

definition op_terminate :: json where
  "op_terminate = JDict [(''_id'', JStr ''op1''), (''lcmOperationType'', JStr ''terminate''),
                         (''operationParams'', JDict [])]"

definition db_not_instantiated :: "call \<Rightarrow> exc + json" where
  "db_not_instantiated c =
     (case c of
        DbGetOne table q \<Rightarrow> if table = ''nsrs'' then Inr nsr_not_instantiated else Inr op_terminate
      | _ \<Rightarrow> Inr JNull)"

text \<open>
  An NS with one charm deployed for member index "1", in the given operational status, and
  an action operation that runs the primitive "touch" on it. The clock reads 1000.
\<close>

definition nsr_charm :: "string \<Rightarrow> json" where
  "nsr_charm status =
     JDict [(''_id'', JStr ''ns1''),
            (''_admin'', JDict [(''nsState'', JStr ''INSTANTIATED''),
               (''deployed'', JDict [(''VCA'', JDict
                  [(''1'', JDict [(''model'', JStr ''default''), (''application'', JStr ''app''),
                                  (''operational-status'', JStr status)])])])])]"

definition op_action :: json where
  "op_action =
     JDict [(''_id'', JStr ''op1''), (''lcmOperationType'', JStr ''action''),
            (''operationParams'', JDict [(''member_vnf_index'', JStr ''1''),
                                         (''primitive'', JStr ''touch''),
                                         (''primitive_params'', JDict [])])]"

definition db_action :: "string \<Rightarrow> call \<Rightarrow> exc + json" where
  "db_action status c =
     (case c of
        DbGetOne table q \<Rightarrow> if table = ''nsrs'' then Inr (nsr_charm status) else Inr op_action
      | Time \<Rightarrow> Inr (JInt 1000)
      | _ \<Rightarrow> Inr JNull)"

definition action_run :: "string \<Rightarrow> task_state \<Rightarrow> (exc + json) \<times> term_st" where
  "action_run status t = ns_action (env_of (db_action status) t) ''ns1'' ''op1'' term0"

definition failed_record :: "string \<Rightarrow> json" where
  "failed_record detail =
     JDict [(''detailed-status'', JStr detail), (''operationState'', JStr ''FAILED''),
            (''statusEnteredTime'', JInt 1000)]"

text \<open>
  A VIM to create, with RO answering \<^verbatim>\<open>create\<close> by the uuid "RO-1", and a database that
  reads but refuses every write.
\<close>

definition vim_content1 :: json where
  "vim_content1 =
     JDict [(''_id'', JStr ''v1''), (''vim_type'', JStr ''openstack''),
            (''vim_tenant_name'', JStr ''t''), (''vim_user'', JStr ''u''),
            (''vim_password'', JStr ''p'')]"

definition db_refuses_writes :: "bool \<Rightarrow> call \<Rightarrow> exc + json" where
  "db_refuses_writes ro_up c =
     (case c of
        DbGetOne table q \<Rightarrow> Inr (JDict [(''_id'', JStr ''v1'')])
      | DbReplace table i d \<Rightarrow> Inl (DbException ''db down'')
      | DbSetOne table q d \<Rightarrow> Inl (DbException ''db down'')
      | ROCreate kind d \<Rightarrow> if ro_up then Inr (JDict [(''uuid'', JStr ''RO-1'')])
                            else Inl (ROClientException 500 ''RO down'')
      | _ \<Rightarrow> Inr JNull)"

definition refused :: "event \<Rightarrow> bool" where
  "refused ev =
     (case ev of
        Called (DbReplace table i d) r \<Rightarrow> r = Inl (DbException ''db down'')
      | _ \<Rightarrow> True)"

fun is_replace :: "event \<Rightarrow> bool" where
  "is_replace (Called (DbReplace table i d) r) = True"
| "is_replace ev = False"


text \<open>
  An NS of two VNFs, "A" with a charm and "B" without, as the dispatch loop leaves it
  for \<^verbatim>\<open>ns_instantiate\<close>: the workflow registered under its operation id, its task pending.
\<close>

definition vnfd_doc :: "string \<Rightarrow> bool \<Rightarrow> json" where
  "vnfd_doc name charmed =
     JDict ([(''_id'', JStr (''id-'' @ name)), (''id'', JStr name), (''name'', JStr name),
             (''_admin'', JDict [(''storage'', JDict [(''folder'', JStr ''f''), (''pkg-dir'', JStr ''p'')])]),
             (''vdu'', JList [JDict [(''id'', JStr ''vdu1'')]])]
            @ (if charmed then [(''vnf-configuration'', JDict [(''juju'', JDict [(''charm'', JStr ''charm-a'')])])]
               else []))"

definition nsd_two :: json where
  "nsd_two =
     JDict [(''id'', JStr ''nsd1''),
            (''constituent-vnfd'',
             JList [JDict [(''vnfd-id-ref'', JStr ''A''), (''member-vnf-index'', JStr ''1'')],
                    JDict [(''vnfd-id-ref'', JStr ''B''), (''member-vnf-index'', JStr ''2'')]])]"

definition nsr_new :: "json \<Rightarrow> json" where
  "nsr_new admin =
     JDict [(''_id'', JStr ''ns1''), (''name'', JStr ''ns-one''), (''nsd'', nsd_two),
            (''instantiate_params'', JDict [(''vimAccountId'', JStr ''v1'')]),
            (''_admin'', admin)]"

definition vnfr_doc :: "json \<Rightarrow> json" where
  "vnfr_doc idx =
     JDict [(''_id'', JStr (''vnfr-'' @ py_str idx)), (''member-vnf-index-ref'', idx),
            (''vdur'', JList [JDict [(''vdu-id-ref'', JStr ''vdu1'')]])]"

definition vim_enabled :: json where
  "vim_enabled =
     JDict [(''_id'', JStr ''v1''),
            (''_admin'', JDict [(''operationalState'', JStr ''ENABLED''),
                                (''deployed'', JDict [(''RO'', JStr ''RO-vim'')])])]"

definition inst0 :: inst_st where
  "inst0 = \<lparr>trace = [], lcm_ns_tasks = [(JStr ''ns1'', [(JStr ''op1'', [(''ns_instantiate'', 0)])])],
            lcm_vim_tasks = [], lcm_sdn_tasks = [],
            pings_not_received = 1, tasks = [(0, Pending)], step = [], exc_v = None,
            db_nsr = JNull, db_nslcmop = JNull, db_vnfr = [], needed_vnfd = [], vim_2_RO = [],
            number_to_configure = 0\<rparr>"

text \<open>The database of the scenario; \<open>admin\<close> is the \<^verbatim>\<open>_admin\<close> part of the NS record.\<close>

definition db_answer :: "json \<Rightarrow> string \<Rightarrow> json \<Rightarrow> exc + json" where
  "db_answer admin table q =
     (if table = ''nslcmops'' then Inr op_instantiate
      else if table = ''nsrs'' then Inr (nsr_new admin)
      else if table = ''vnfrs'' then
        (case getitem q ''member-vnf-index-ref'' of Inr idx \<Rightarrow> Inr (vnfr_doc idx) | Inl e \<Rightarrow> Inl e)
      else if table = ''vnfds'' then
        (case getitem q ''id'' of
           Inr (JStr name) \<Rightarrow> Inr (vnfd_doc name (name = ''A''))
         | _ \<Rightarrow> Inl (DbException ''not found''))
      else if table = ''vim_accounts'' then Inr vim_enabled
      else Inl (DbException ''not found''))"

fun is_call :: "(call \<Rightarrow> bool) \<Rightarrow> event \<Rightarrow> bool" where
  "is_call p (Called c r) = p c"
| "is_call p ev = False"

fun is_check :: "call \<Rightarrow> bool" where
  "is_check (ROCheckNsStatus d) = True"
| "is_check c = False"

fun is_info :: "call \<Rightarrow> bool" where
  "is_info (ROGetNsVnfInfo d) = True"
| "is_info c = False"

definition ns_info :: json where
  "ns_info =
     JDict [(''1'', JDict [(''ip_address'', JStr ''10.0.0.1''),
                           (''vdur'', JDict [(''vdu1'', JDict [(''vim_id'', JStr ''vm1''),
                                                               (''ip_address'', JStr ''10.0.0.1'')])])]),
            (''2'', JDict [(''ip_address'', JStr ''10.0.0.2''), (''vdur'', JDict [])])]"

text \<open>
  RO in a fresh scenario: no descriptor is known, every \<^verbatim>\<open>create\<close> yields a uuid named after
  the kind, the NS is reported BUILD twice and ACTIVE from then on, and the addresses
  are ready at the second request.
\<close>

definition ro_fresh :: "json \<Rightarrow> event list \<Rightarrow> call \<Rightarrow> exc + json" where
  "ro_fresh admin h c =
     (case c of
        DbGetOne table q \<Rightarrow> db_answer admin table q
      | ROGetList kind q \<Rightarrow> Inr (JList [])
      | ROCreate kind d \<Rightarrow> Inr (JDict [(''uuid'', JStr (''uuid-'' @ kind))])
      | ROShow kind i \<Rightarrow> Inr (JDict [(''uuid'', i)])
      | ROCheckNsStatus d \<Rightarrow>
          Inr (JList [JStr (if length (filter (is_call is_check) h) < 2 then ''BUILD'' else ''ACTIVE''),
                      JStr ''info''])
      | ROGetNsVnfInfo d \<Rightarrow>
          if length (filter (is_call is_info) h) < 1 then Inl (ROClientException 409 ''IP not ready'')
          else Inr ns_info
      | FsGetParams \<Rightarrow> Inr (JDict [(''path'', JStr ''/app/storage/'')])
      | VcaFormatApplicationName a b d \<Rightarrow> Inr (JStr (py_str a @ ''-'' @ py_str b @ ''-'' @ py_str d))
      | Time \<Rightarrow> Inr (JInt 1000)
      | _ \<Rightarrow> Inr JNull)"



text \<open>
  The same NS after an earlier run that got as far as creating the NS at RO: the record
  holds the RO ids, RO knows both descriptors and shows the NS. \<open>first_status\<close> is what
  \<^verbatim>\<open>check_ns_status\<close> reports at the first request (ACTIVE from the second on), and
  \<open>delete_answer\<close> is the answer of \<^verbatim>\<open>RO.delete\<close>.
\<close>

definition admin_deployed :: json where
  "admin_deployed =
     JDict [(''deployed'',
             JDict [(''id'', JStr ''ns1''),
                    (''RO'', JDict [(''vnfd_id'', JDict [(''A'', JStr ''uuid-vnfd''), (''B'', JStr ''uuid-vnfd'')]),
                                    (''nsd_id'', JStr ''uuid-nsd''), (''nsr_id'', JStr ''uuid-old''),
                                    (''nsr_status'', JStr ''BUILD'')]),
                    (''nsr_ip'', JDict []),
                    (''VCA'', JDict [])]),
            (''nsState'', JStr ''INSTANTIATED'')]"

definition ro_rerun :: "string \<Rightarrow> exc + json \<Rightarrow> event list \<Rightarrow> call \<Rightarrow> exc + json" where
  "ro_rerun first_status delete_answer h c =
     (case c of
        ROGetList kind q \<Rightarrow> Inr (JList [JDict [(''uuid'', JStr (''uuid-'' @ kind))]])
      | ROCheckNsStatus d \<Rightarrow>
          Inr (JList [JStr (if length (filter (is_call is_check) h) < 1 then first_status else ''ACTIVE''),
                      JStr ''info''])
      | ROGetNsVnfInfo d \<Rightarrow> Inr ns_info
      | RODelete kind i \<Rightarrow> delete_answer
      | _ \<Rightarrow> ro_fresh admin_deployed h c)"

definition env_rerun :: "string \<Rightarrow> exc + json \<Rightarrow> env" where
  "env_rerun first_status delete_answer =
     \<lparr>answer = ro_rerun first_status delete_answer, task_outcome = (\<lambda>h t. Pending)\<rparr>"

definition not_found :: "exc + json" where
  "not_found = Inl (ROClientException 404 ''not found'')"

fun is_create :: "call \<Rightarrow> bool" where
  "is_create (ROCreate kind d) = True"
| "is_create c = False"

fun is_delete :: "call \<Rightarrow> bool" where
  "is_delete (RODelete kind i) = True"
| "is_delete c = False"

text \<open>A VIM and an SDN controller deployed at RO, an NS with every artifact at RO, and an RO that answers 404 to every delete and detach.\<close>

definition account_doc :: "string \<Rightarrow> json" where
  "account_doc ident =
     JDict [(''_id'', JStr ident), (''_admin'', JDict [(''deployed'', JDict [(''RO'', JStr ''RO-1'')])])]"

definition ro_all_gone :: "call \<Rightarrow> exc + json" where
  "ro_all_gone c =
     (case c of
        DbGetOne table q \<Rightarrow>
          if table = ''nsrs'' then Inr (nsr_new admin_deployed)
          else if table = ''nslcmops'' then Inr op_terminate
          else if table = ''sdns'' then Inr (account_doc ''s1'')
          else Inr (account_doc ''v1'')
      | RODelete kind i \<Rightarrow> not_found
      | RODetachDatacenter i \<Rightarrow> not_found
      | Time \<Rightarrow> Inr (JInt 1000)
      | _ \<Rightarrow> Inr JNull)"


fun is_spawn :: "event \<Rightarrow> bool" where
  "is_spawn (Spawned c h) = True"
| "is_spawn ev = False"





text \<open>A database that refuses the removal of a row and nothing else; the accounts are deployed at RO.\<close>

definition db_refuses_delete :: "call \<Rightarrow> exc + json" where
  "db_refuses_delete c =
     (case c of
        DbGetOne table q \<Rightarrow> Inr (account_doc ''v1'')
      | DbDelOne table q \<Rightarrow> Inl (DbException ''db down'')
      | _ \<Rightarrow> Inr JNull)"




text \<open>A database in which no document is found.\<close>

definition db_fetch_fails :: "call \<Rightarrow> exc + json" where
  "db_fetch_fails c =
     (case c of
        DbGetOne table q \<Rightarrow> Inl (DbException ''not found'')
      | Time \<Rightarrow> Inr (JInt 1000)
      | _ \<Rightarrow> Inr JNull)"


section \<open>Properties of \<^verbatim>\<open>cancel_tasks\<close>\<close>

lemma read_write_ref: "read_ref r (write_ref r m s) = m"
  by (cases r) simp_all

lemma read_ref_tasks_update: "read_ref r (s\<lparr>tasks := t\<rparr>) = read_ref r s"
  by (cases r) simp_all

lemma topic_ref_None_iff:
  "topic_ref topic = None \<longleftrightarrow> topic \<notin> {''ns'', ''vim_account'', ''sdn''}"
  by (simp add: topic_ref_def)

lemma cancel_tasks_unknown_topic:
  assumes "topic \<notin> {''ns'', ''vim_account'', ''sdn''}"
  shows "cancel_tasks topic ident s = (Inl (UnboundLocalError ''lcm_tasks''), s)"
proof -
  from assms have "topic_ref topic = None"
    by (simp add: topic_ref_def)
  then show ?thesis
    by (simp add: cancel_tasks_def)
qed

lemma cancel_tasks_no_entry:
  assumes "topic_ref topic = Some r" and "hashable ident" and "map_of (read_ref r s) ident = None"
  shows "cancel_tasks topic ident s = (Inr (), s)"
  using assms by (simp add: cancel_tasks_def)

lemma cancel_tasks_returns:
  assumes "topic_ref topic = Some r" and "hashable ident"
  shows "fst (cancel_tasks topic ident s) = Inr ()"
  using assms by (simp add: cancel_tasks_def split: option.splits list.splits)

lemma cancel_tasks_entry_emptied:
  assumes "topic_ref topic = Some r" and "hashable ident"
    and "map_of (read_ref r s) ident = Some orders"
  shows "map_of (read_ref r (snd (cancel_tasks topic ident s))) ident = Some []"
  using assms
  by (cases orders) (simp_all add: cancel_tasks_def read_write_ref update_conv')

text \<open>
  Claim C10. For a topic other than "ns", "vim_account" and "sdn", \<^verbatim>\<open>cancel_tasks\<close>
  raises a \<^verbatim>\<open>NameError\<close> (the unbound \<^verbatim>\<open>lcm_tasks\<close>) and changes nothing. For one of
  the three topics and an id (a hashable value), when the registry has no entry for
  the id it returns with the state unchanged; when it has one, it returns and the
  registry's entry for the id is the empty mapping afterwards.
\<close>

theorem cancel_tasks_spec:
  "(topic \<notin> {''ns'', ''vim_account'', ''sdn''} \<longrightarrow>
      (\<exists>e. cancel_tasks topic ident s = (Inl e, s) \<and> is_NameError e))
   \<and> (\<forall>r. topic_ref topic = Some r \<and> hashable ident \<longrightarrow>
        (map_of (read_ref r s) ident = None \<longrightarrow> cancel_tasks topic ident s = (Inr (), s))
      \<and> (map_of (read_ref r s) ident \<noteq> None \<longrightarrow>
           fst (cancel_tasks topic ident s) = Inr ()
         \<and> map_of (read_ref r (snd (cancel_tasks topic ident s))) ident = Some []))"
proof -
  have a: "topic \<notin> {''ns'', ''vim_account'', ''sdn''} \<longrightarrow>
      (\<exists>e. cancel_tasks topic ident s = (Inl e, s) \<and> is_NameError e)"
  proof
    assume "topic \<notin> {''ns'', ''vim_account'', ''sdn''}"
    then have "cancel_tasks topic ident s = (Inl (UnboundLocalError ''lcm_tasks''), s)"
      by (rule cancel_tasks_unknown_topic)
    moreover have "is_NameError (UnboundLocalError ''lcm_tasks'')"
      by simp
    ultimately show "\<exists>e. cancel_tasks topic ident s = (Inl e, s) \<and> is_NameError e"
      by blast
  qed
  have b: "\<forall>r. topic_ref topic = Some r \<and> hashable ident \<longrightarrow>
        (map_of (read_ref r s) ident = None \<longrightarrow> cancel_tasks topic ident s = (Inr (), s))
      \<and> (map_of (read_ref r s) ident \<noteq> None \<longrightarrow>
           fst (cancel_tasks topic ident s) = Inr ()
         \<and> map_of (read_ref r (snd (cancel_tasks topic ident s))) ident = Some [])"
    using cancel_tasks_no_entry cancel_tasks_returns cancel_tasks_entry_emptied
    by blast
  from a b show ?thesis ..
qed

theorem cancel_tasks_spec_witness:
  "''nsx'' \<notin> {''ns'', ''vim_account'', ''sdn''}
   \<and> (\<exists>e. cancel_tasks ''nsx'' (JStr ''v1'') lcm0 = (Inl e, lcm0) \<and> is_NameError e)
   \<and> topic_ref ''sdn'' = Some Sdn_tasks \<and> hashable (JStr ''v1'')
   \<and> map_of (read_ref Sdn_tasks lcm_one_vim_task) (JStr ''v1'') = None
   \<and> cancel_tasks ''sdn'' (JStr ''v1'') lcm_one_vim_task = (Inr (), lcm_one_vim_task)
   \<and> topic_ref ''vim_account'' = Some Vim_tasks
   \<and> map_of (read_ref Vim_tasks lcm_one_vim_task) (JStr ''v1'') \<noteq> None
   \<and> fst (cancel_tasks ''vim_account'' (JStr ''v1'') lcm_one_vim_task) = Inr ()
   \<and> map_of (read_ref Vim_tasks (snd (cancel_tasks ''vim_account'' (JStr ''v1'') lcm_one_vim_task)))
        (JStr ''v1'') = Some []"
proof -
  have t1: "''nsx'' \<notin> {''ns'', ''vim_account'', ''sdn''}"
    by simp
  have h: "hashable (JStr ''v1'')"
    by simp
  have r2: "topic_ref ''sdn'' = Some Sdn_tasks"
    by (simp add: topic_ref_def)
  have m2: "map_of (read_ref Sdn_tasks lcm_one_vim_task) (JStr ''v1'') = None"
    by (simp add: lcm_one_vim_task_def lcm0_def)
  have r3: "topic_ref ''vim_account'' = Some Vim_tasks"
    by (simp add: topic_ref_def)
  have m3: "map_of (read_ref Vim_tasks lcm_one_vim_task) (JStr ''v1'') \<noteq> None"
    by (simp add: lcm_one_vim_task_def lcm0_def)
  from cancel_tasks_spec [of "''nsx''" "JStr ''v1''" lcm0] t1
  have c1: "\<exists>e. cancel_tasks ''nsx'' (JStr ''v1'') lcm0 = (Inl e, lcm0) \<and> is_NameError e"
    by blast
  from cancel_tasks_spec [of "''sdn''" "JStr ''v1''" lcm_one_vim_task] r2 h m2
  have c2: "cancel_tasks ''sdn'' (JStr ''v1'') lcm_one_vim_task = (Inr (), lcm_one_vim_task)"
    by blast
  from cancel_tasks_spec [of "''vim_account''" "JStr ''v1''" lcm_one_vim_task] r3 h m3
  have c3: "fst (cancel_tasks ''vim_account'' (JStr ''v1'') lcm_one_vim_task) = Inr ()
     \<and> map_of (read_ref Vim_tasks (snd (cancel_tasks ''vim_account'' (JStr ''v1'') lcm_one_vim_task)))
          (JStr ''v1'') = Some []"
    by blast
  from t1 c1 r2 h m2 c2 r3 m3 c3 show ?thesis
    by blast
qed

section \<open>Properties of \<^verbatim>\<open>n2vc_callback\<close>\<close>

text \<open>
  The scan of the VCA entries never adds an error text: the branch that appends is
  reached only for a status equal to "active", which is neither "error" nor "blocked".
\<close>

lemma vca_scan_error_text_unchanged:
  "vca_scan idx entries (a, m, t) = Inr (a', m', t') \<Longrightarrow> t' = t"
proof (induction entries arbitrary: a m t)
  case Nil
  then show ?case by simp
next
  case (Cons entry entries)
  obtain vnf_index vca_info where entry: "entry = (vnf_index, vca_info)"
    by (cases entry)
  from Cons.prems show ?case
    unfolding entry
    by (auto simp: bindS_def Let_def split: sum.splits if_splits dest: Cons.IH)
qed

text \<open>
  Claim C1, at a status push "error" for the single charm of an NS (the charm was
  active before): the aggregation runs and the entry is in "error", but the callback
  sets \<^verbatim>\<open>config-status\<close> and \<^verbatim>\<open>detailed-status\<close> of the nsr to "configuring: error: 1" and
  leaves \<^verbatim>\<open>operationState\<close> of the nslcmop unset, where the claim has "failed",
  "fail configuring ..." and FAILED_TEMP.
\<close>

theorem n2vc_callback_error_push:
  "fst error_push = Inr ()
   \<and> get_path (db_nsr (snd error_push)) [''_admin'', ''deployed'', ''VCA'', ''1'', ''operational-status'']
       = Inr (JStr ''error'')
   \<and> getitem (db_nsr (snd error_push)) ''config-status'' = Inr (JStr ''configuring: error: 1'')
   \<and> getitem (db_nsr (snd error_push)) ''detailed-status'' = Inr (JStr ''configuring: error: 1'')
   \<and> getitem (db_nslcmop (snd error_push)) ''operationState'' = Inl (KeyError ''operationState'')
   \<and> update_nsr (snd error_push) \<and> update_nslcmop (snd error_push)"
  by code_simp

section \<open>Properties of \<^verbatim>\<open>kafka_read\<close>\<close>

lemma too_many_errors_first_start: "first_start s \<Longrightarrow> too_many_errors s"
  by (simp add: too_many_errors_def)

lemma too_many_errors_steady: "\<not> first_start s \<Longrightarrow> too_many_errors s \<longleftrightarrow> consecutive_errors s = 8"
  by (simp add: too_many_errors_def)

text \<open>
  Claim C4, at the start of the loop: the first exception of \<^verbatim>\<open>aioread\<close> leaves the loop
  at once, whatever the environment and whatever would follow; nothing is retried
  and nothing is slept, where the claim has 30 errors tolerated with 5 s between
  them.
\<close>

theorem kafka_read_first_error_raises:
  "kafka_read env (Inl e # rest) s =
     (Raised e,
      s\<lparr>order_id := 1, consecutive_errors := 0, first_start := True,
         loop_nsr_id := None, loop_nslcmop_id := None,
         trace := trace s @
           [Called MsgAioRead (Inl e),
            LogError (''Task kafka_read task exit error too many errors. Exception: '' @ exc_str e)]\<rparr>)"
  by (simp add: kafka_read_def kafka_read_iter_def aioread_event_def catchE_def thenE_def bindE_def
      emit_def raiseE_def too_many_errors_def)

text \<open>
  In steady state (one message has been read) eight consecutive errors are retried
  with 2 s between them, and the ninth leaves the loop.
\<close>

lemma kafka_read_steady_eight_tolerated:
  "fst (kafka_read env_quiet
          (Inr (''admin'', ''echo'', JNull) # replicate 8 (Inl (MsgException ''bus down''))) read0)
     = Running"
  by code_simp

lemma kafka_read_steady_ninth_raises:
  "fst (kafka_read env_quiet
          (Inr (''admin'', ''echo'', JNull) # replicate 9 (Inl (MsgException ''bus down''))) read0)
     = Raised (MsgException ''bus down'')"
  by code_simp

section \<open>Properties of \<^verbatim>\<open>kafka_ping\<close>\<close>

text \<open>
  Against claim C5 as stated: after two iterations in which the self-ping came back
  once, \<^verbatim>\<open>pings_not_received\<close> is 1, above 0, and the next iteration sleeps 120 s, not 5 s.
\<close>

theorem kafka_ping_sleep_counterexample:
  "0 < pings_not_received ping_after_two
   \<and> trace (snd (kafka_ping_iter quiet_iter ping_after_two)) =
       trace ping_after_two @
         [Called (MsgAioWrite ''admin'' ''ping'' ping_message) (Inr JNull), Slept 120]"
  by code_simp

lemma kafka_ping_iter_publishes:
  "\<exists>r rest. trace (snd (kafka_ping_iter i s)) =
      trace s @ Called (MsgAioWrite ''admin'' ''ping'' ping_message) r # rest"
  by (cases "write_raises i")
     (auto simp: kafka_ping_iter_def ping_read_def Let_def split: exc.splits)

lemma kafka_ping_iter_sleep:
  assumes "write_raises i = None"
  shows "trace (snd (kafka_ping_iter i s)) =
           trace s @ [Called (MsgAioWrite ''admin'' ''ping'' ping_message) (Inr JNull),
                      Slept (if kafka_has_received s then 120 else 5)]"
  using assms by (simp add: kafka_ping_iter_def ping_read_def Let_def)

lemma kafka_ping_iter_has_received:
  assumes "write_raises i = None"
  shows "kafka_has_received (snd (kafka_ping_iter i s)) \<longleftrightarrow>
           kafka_has_received s \<or> ping_read_at_write i \<or> pings_not_received s = 0"
  using assms by (auto simp: kafka_ping_iter_def ping_read_def Let_def)

lemma kafka_ping_iter_raises:
  assumes "write_raises i = None"
  shows "fst (kafka_ping_iter i s) =
           (if 10 < pings_not_received (snd (kafka_ping_iter i s))
            then Inl (LcmException ''It is not receiving pings from Kafka bus'')
            else Inr ())"
  using assms by (simp add: kafka_ping_iter_def ping_read_def Let_def)

lemma kafka_ping_loop_append:
  "kafka_ping_loop (pre @ rest) s =
     (case kafka_ping_loop pre s of
        (None, s1) \<Rightarrow> kafka_ping_loop rest s1
      | (Some e, s1) \<Rightarrow> (Some e, s1))"
  by (induction pre arbitrary: s) (auto split: prod.splits sum.splits)

text \<open>An exception of an iteration leaves the coroutine in that iteration: the rest of the script is not run.\<close>

lemma kafka_ping_raise:
  assumes "kafka_ping pre ps = (None, s1)"
      and "fst (kafka_ping_iter i s1) = Inl e"
  shows "kafka_ping (pre @ i # rest) ps = (Some e, snd (kafka_ping_iter i s1))"
  using assms
  by (cases "kafka_ping_iter i s1") (simp add: kafka_ping_def kafka_ping_loop_append)

text \<open>The exception of the prober leaves \<^verbatim>\<open>gather\<close>, \<^verbatim>\<open>start\<close> and the main block, unless the dispatch loop has raised.\<close>

lemma main_block_ping_raise:
  assumes "fst (kafka_ping script ps) = Some (LcmException m)"
      and "\<forall>x. fst (kafka_read env messages rs) \<noteq> Raised x"
  shows "start env messages rs script ps first = Raised (LcmException m)"
    and "main_block env messages rs script ps first = Traceback (LcmException m)"
  using assms
  by (cases "fst (kafka_read env messages rs)"; simp add: main_block_def start_def gather_def)+

text \<open>Whatever the dispatch loop does, the process does not stay alive and does not end with status 0.\<close>

lemma main_block_ping_raise_ends:
  assumes "fst (kafka_ping script ps) = Some e"
  shows "main_block env messages rs script ps first \<noteq> Alive"
    and "main_block env messages rs script ps first \<noteq> Exited 0"
  using assms
  by (cases "fst (kafka_read env messages rs)"; cases first;
      simp add: main_block_def start_def gather_def split: exc.splits)+

lemma kafka_ping_process_ends:
  assumes run: "kafka_ping pre ps = (None, s1)"
      and w: "write_raises i = None"
      and c: "10 < pings_not_received (snd (kafka_ping_iter i s1))"
  shows "kafka_ping (pre @ i # rest) ps =
           (Some (LcmException ''It is not receiving pings from Kafka bus''), snd (kafka_ping_iter i s1))"
    and "(\<forall>x. fst (kafka_read env messages rs) \<noteq> Raised x) \<longrightarrow>
           start env messages rs (pre @ i # rest) ps first =
             Raised (LcmException ''It is not receiving pings from Kafka bus'')
         \<and> main_block env messages rs (pre @ i # rest) ps first =
             Traceback (LcmException ''It is not receiving pings from Kafka bus'')"
    and "main_block env messages rs (pre @ i # rest) ps first \<noteq> Alive"
    and "main_block env messages rs (pre @ i # rest) ps first \<noteq> Exited 0"
proof -
  from kafka_ping_iter_raises[OF w, of s1] c
  have r: "fst (kafka_ping_iter i s1) = Inl (LcmException ''It is not receiving pings from Kafka bus'')"
    by simp
  from kafka_ping_raise[OF run r]
  show k: "kafka_ping (pre @ i # rest) ps =
      (Some (LcmException ''It is not receiving pings from Kafka bus''), snd (kafka_ping_iter i s1))" .
  then have f: "fst (kafka_ping (pre @ i # rest) ps) =
      Some (LcmException ''It is not receiving pings from Kafka bus'')"
    by simp
  from main_block_ping_raise[OF f]
  show "(\<forall>x. fst (kafka_read env messages rs) \<noteq> Raised x) \<longrightarrow>
           start env messages rs (pre @ i # rest) ps first =
             Raised (LcmException ''It is not receiving pings from Kafka bus'')
         \<and> main_block env messages rs (pre @ i # rest) ps first =
             Traceback (LcmException ''It is not receiving pings from Kafka bus'')"
    by blast
  from main_block_ping_raise_ends[OF f]
  show "main_block env messages rs (pre @ i # rest) ps first \<noteq> Alive"
    and "main_block env messages rs (pre @ i # rest) ps first \<noteq> Exited 0"
    by blast+
qed

text \<open>
  Claim C5, amended in its sleep clause only. Every iteration publishes the
  self-ping first. When the publish succeeds, the iteration then sleeps 5 s if no
  iteration so far has found \<^verbatim>\<open>pings_not_received\<close> at 0 (\<^verbatim>\<open>kafka_has_received\<close> is
  false) and 120 s otherwise, whatever \<^verbatim>\<open>pings_not_received\<close> is; the flag is set by an
  iteration that finds the counter at 0 after its publish. If the counter is above
  10 after the sleep, the iteration raises \<^verbatim>\<open>LcmException\<close>. Raised in an iteration
  that the coroutine reaches, the exception leaves \<^verbatim>\<open>kafka_ping\<close> in that iteration,
  the rest of the script not being run; it leaves \<^verbatim>\<open>gather\<close> and \<^verbatim>\<open>start\<close> and is not
  caught by the main block, so that the process ends with the traceback of that
  exception unless the dispatch loop has raised; in every case the process
  neither stays alive nor ends with status 0.
\<close>

theorem kafka_ping_iter_spec:
  "(\<exists>r rest. trace (snd (kafka_ping_iter i s)) =
      trace s @ Called (MsgAioWrite ''admin'' ''ping'' ping_message) r # rest)
   \<and> (write_raises i = None \<longrightarrow>
        trace (snd (kafka_ping_iter i s)) =
          trace s @ [Called (MsgAioWrite ''admin'' ''ping'' ping_message) (Inr JNull),
                     Slept (if kafka_has_received s then 120 else 5)]
      \<and> (kafka_has_received (snd (kafka_ping_iter i s)) \<longleftrightarrow>
           kafka_has_received s \<or> ping_read_at_write i \<or> pings_not_received s = 0)
      \<and> fst (kafka_ping_iter i s) =
           (if 10 < pings_not_received (snd (kafka_ping_iter i s))
            then Inl (LcmException ''It is not receiving pings from Kafka bus'')
            else Inr ()))
   \<and> (\<forall>pre ps. kafka_ping pre ps = (None, s) \<and> write_raises i = None
         \<and> 10 < pings_not_received (snd (kafka_ping_iter i s)) \<longrightarrow>
        kafka_ping (pre @ i # rest) ps =
          (Some (LcmException ''It is not receiving pings from Kafka bus''), snd (kafka_ping_iter i s))
      \<and> (\<forall>env messages rs first.
            ((\<forall>x. fst (kafka_read env messages rs) \<noteq> Raised x) \<longrightarrow>
               start env messages rs (pre @ i # rest) ps first =
                 Raised (LcmException ''It is not receiving pings from Kafka bus'')
             \<and> main_block env messages rs (pre @ i # rest) ps first =
                 Traceback (LcmException ''It is not receiving pings from Kafka bus''))
          \<and> main_block env messages rs (pre @ i # rest) ps first \<noteq> Alive
          \<and> main_block env messages rs (pre @ i # rest) ps first \<noteq> Exited 0))"
proof -
  have a: "\<exists>r rest. trace (snd (kafka_ping_iter i s)) =
      trace s @ Called (MsgAioWrite ''admin'' ''ping'' ping_message) r # rest"
    by (rule kafka_ping_iter_publishes)
  have b: "write_raises i = None \<longrightarrow>
        trace (snd (kafka_ping_iter i s)) =
          trace s @ [Called (MsgAioWrite ''admin'' ''ping'' ping_message) (Inr JNull),
                     Slept (if kafka_has_received s then 120 else 5)]
      \<and> (kafka_has_received (snd (kafka_ping_iter i s)) \<longleftrightarrow>
           kafka_has_received s \<or> ping_read_at_write i \<or> pings_not_received s = 0)
      \<and> fst (kafka_ping_iter i s) =
           (if 10 < pings_not_received (snd (kafka_ping_iter i s))
            then Inl (LcmException ''It is not receiving pings from Kafka bus'')
            else Inr ())"
    using kafka_ping_iter_sleep [of i s] kafka_ping_iter_has_received [of i s]
      kafka_ping_iter_raises [of i s]
    by blast
  have c: "\<forall>pre ps. kafka_ping pre ps = (None, s) \<and> write_raises i = None
         \<and> 10 < pings_not_received (snd (kafka_ping_iter i s)) \<longrightarrow>
        kafka_ping (pre @ i # rest) ps =
          (Some (LcmException ''It is not receiving pings from Kafka bus''), snd (kafka_ping_iter i s))
      \<and> (\<forall>env messages rs first.
            ((\<forall>x. fst (kafka_read env messages rs) \<noteq> Raised x) \<longrightarrow>
               start env messages rs (pre @ i # rest) ps first =
                 Raised (LcmException ''It is not receiving pings from Kafka bus'')
             \<and> main_block env messages rs (pre @ i # rest) ps first =
                 Traceback (LcmException ''It is not receiving pings from Kafka bus''))
          \<and> main_block env messages rs (pre @ i # rest) ps first \<noteq> Alive
          \<and> main_block env messages rs (pre @ i # rest) ps first \<noteq> Exited 0)"
    using kafka_ping_process_ends [where i = i and ?s1.0 = s and rest = rest]
    by blast
  from a b c show ?thesis
    by (intro conjI)
qed

text \<open>
  The theorem at the start of the process: the bus accepts every publish and never
  delivers the self-ping. Nine iterations sleep 5 s each and leave the counter at
  10; the tenth sleeps 5 s, finds it at 11 and raises, and the process ends with the
  traceback although the script goes on and the dispatch loop is still running.
\<close>

theorem kafka_ping_iter_spec_witness:
  "kafka_ping (replicate 9 quiet_iter) ping0 = (None, ping_nine)
   \<and> write_raises quiet_iter = None
   \<and> 10 < pings_not_received (snd (kafka_ping_iter quiet_iter ping_nine))
   \<and> trace (snd (kafka_ping_iter quiet_iter ping_nine)) =
       trace ping_nine @ [Called (MsgAioWrite ''admin'' ''ping'' ping_message) (Inr JNull), Slept 5]
   \<and> fst (kafka_ping_iter quiet_iter ping_nine) =
       Inl (LcmException ''It is not receiving pings from Kafka bus'')
   \<and> kafka_ping (replicate 9 quiet_iter @ quiet_iter # [quiet_iter, quiet_iter]) ping0 =
       (Some (LcmException ''It is not receiving pings from Kafka bus''),
        snd (kafka_ping_iter quiet_iter ping_nine))
   \<and> (\<forall>x. fst (kafka_read env_quiet [] read0) \<noteq> Raised x)
   \<and> main_block env_quiet [] read0 (replicate 9 quiet_iter @ quiet_iter # [quiet_iter, quiet_iter]) ping0 True =
       Traceback (LcmException ''It is not receiving pings from Kafka bus'')"
proof -
  have run: "kafka_ping (replicate 9 quiet_iter) ping0 = (None, ping_nine)"
    unfolding ping_nine_def by (rule prod_eqI) (code_simp, simp)
  have w: "write_raises quiet_iter = None"
    by (simp add: quiet_iter_def)
  have k: "\<not> kafka_has_received ping_nine"
    by code_simp
  have p: "10 < pings_not_received (snd (kafka_ping_iter quiet_iter ping_nine))"
    by code_simp
  have r: "\<forall>x. fst (kafka_read env_quiet [] read0) \<noteq> Raised x"
    by (simp add: kafka_read_def read0_def)
  from kafka_ping_iter_spec [of quiet_iter ping_nine "[quiet_iter, quiet_iter]"] run w k p r
  show ?thesis
    by simp
qed


section \<open>Properties of \<^verbatim>\<open>update_db\<close> and \<^verbatim>\<open>update_db_2\<close>\<close>

lemma update_db_DbException:
  assumes "answer env (trace s) (DbReplace item ident desc) = Inl (DbException m)"
  shows "update_db env item ident desc s =
           (Inr (), s\<lparr>trace := trace s @
              [Called (DbReplace item ident desc) (Inl (DbException m)),
               LogError (''Updating '' @ item @ '' _id='' @ py_str ident @ '': '' @ m)]\<rparr>)"
  using assms
  by (simp add: update_db_def catchE_def thenE_def bindE_def call_def emit_def returnE_def Let_def)

lemma update_db_2_DbException:
  assumes "answer env (trace s) (DbSetOne item (JDict [(''_id'', ident)]) desc) = Inl (DbException m)"
  shows "update_db_2 env item ident desc s =
           (Inr (), s\<lparr>trace := trace s @
              [Called (DbSetOne item (JDict [(''_id'', ident)]) desc) (Inl (DbException m)),
               LogError (''Updating '' @ item @ '' _id='' @ py_str ident @ '': '' @ m)]\<rparr>)"
  using assms
  by (simp add: update_db_2_def catchE_def thenE_def bindE_def call_def emit_def returnE_def Let_def)

lemma update_db_not_DbException:
  "fst (update_db env item ident desc s) \<noteq> Inl (DbException m)"
  by (cases "answer env (trace s) (DbReplace item ident desc)")
     (auto simp: update_db_def catchE_def thenE_def bindE_def call_def emit_def returnE_def
        raiseE_def Let_def split: exc.splits)

lemma update_db_2_not_DbException:
  "fst (update_db_2 env item ident desc s) \<noteq> Inl (DbException m)"
  by (cases "answer env (trace s) (DbSetOne item (JDict [(''_id'', ident)]) desc)")
     (auto simp: update_db_2_def catchE_def thenE_def bindE_def call_def emit_def returnE_def
        raiseE_def Let_def split: exc.splits)

text \<open>
  \<^verbatim>\<open>vim_create\<close> against a database that refuses every write: with RO up it makes its two
  updates, both refused, and still returns the RO id; with RO down it ends on its
  error path, the ERROR record refused as well, and returns normally.
\<close>

lemma vim_create_success_without_updates:
  "fst (vim_create (env_of (db_refuses_writes True) Pending) vim_content1 (JInt 2) vim0)
     = Inr (JStr ''RO-1'')
   \<and> list_all refused
        (trace (snd (vim_create (env_of (db_refuses_writes True) Pending) vim_content1 (JInt 2) vim0)))
   \<and> length (filter is_replace
        (trace (snd (vim_create (env_of (db_refuses_writes True) Pending) vim_content1 (JInt 2) vim0))))
       = 2"
  by code_simp

lemma vim_create_error_without_updates:
  "fst (vim_create (env_of (db_refuses_writes False) Pending) vim_content1 (JInt 2) vim0)
     = Inr JNull
   \<and> exc_v (snd (vim_create (env_of (db_refuses_writes False) Pending) vim_content1 (JInt 2) vim0))
       = Some (ROClientException 500 ''RO down'')
   \<and> list_all refused
        (trace (snd (vim_create (env_of (db_refuses_writes False) Pending) vim_content1 (JInt 2) vim0)))
   \<and> length (filter is_replace
        (trace (snd (vim_create (env_of (db_refuses_writes False) Pending) vim_content1 (JInt 2) vim0))))
       = 1"
  by code_simp

subsection \<open>No statement of a workflow raises the exception of a refused status write\<close>

named_theorems no_db_intros
named_theorems never_db_intros

lemmas case_splits = json.split option.split exc.split sum.split list.split prod.split task_state.split
  bool.split

lemma no_db_Inr [simp]: "no_db (Inr x)"
  by (simp add: no_db_def)

lemma no_db_Inl [simp]: "no_db (Inl e) = (\<not> is_DbException e)"
  by (simp add: no_db_def)

lemma no_db_iff: "no_db r \<longleftrightarrow> (\<forall>m. r \<noteq> Inl (DbException m))"
  by (cases r) (auto simp: no_db_def elim: is_DbException.elims)

lemma no_db_bindS [no_db_intros]: "no_db r \<Longrightarrow> (\<And>x. no_db (f x)) \<Longrightarrow> no_db (bindS r f)"
  by (cases r) (simp_all add: bindS_def)

lemma no_db_foldS [no_db_intros]: "(\<And>x a. no_db (f x a)) \<Longrightarrow> no_db (foldS f xs acc)"
  by (induction xs arbitrary: acc) (auto intro!: no_db_bindS)

lemma no_db_mapS [no_db_intros]: "(\<And>x. no_db (f x)) \<Longrightarrow> no_db (mapS f xs)"
  by (induction xs) (auto intro!: no_db_bindS)

lemma never_dbD: "never_db m \<Longrightarrow> m s = (r, s') \<Longrightarrow> no_db r"
  unfolding never_db_def by (metis fst_conv)

lemma never_db_returnE [never_db_intros]: "never_db (returnE x)"
  by (simp add: never_db_def returnE_def)

lemma never_db_raiseE [never_db_intros]: "\<not> is_DbException e \<Longrightarrow> never_db (raiseE e)"
  by (simp add: never_db_def raiseE_def)

lemma never_db_liftE [never_db_intros]: "no_db r \<Longrightarrow> never_db (liftE r)"
  by (simp add: never_db_def liftE_def)

lemma never_db_gets [never_db_intros]: "never_db (gets f)"
  by (simp add: never_db_def gets_def)

lemma never_db_modify [never_db_intros]: "never_db (modify f)"
  by (simp add: never_db_def modify_def)

lemma never_db_emit [never_db_intros]: "never_db (emit ev)"
  by (simp add: never_db_def emit_def)

lemma never_db_bindE [never_db_intros]:
  assumes "never_db m" and "\<And>x. never_db (f x)"
  shows "never_db (bindE m f)"
  unfolding never_db_def
proof
  fix s
  obtain r s1 where m: "m s = (r, s1)" by (cases "m s")
  show "no_db (fst (bindE m f s))"
  proof (cases r)
    case (Inl e)
    with m never_dbD[OF assms(1) m] show ?thesis by (simp add: bindE_def)
  next
    case (Inr x)
    obtain r2 s2 where f: "f x s1 = (r2, s2)" by (cases "f x s1")
    with m Inr never_dbD[OF assms(2) f] show ?thesis by (simp add: bindE_def)
  qed
qed

lemma never_db_thenE [never_db_intros]: "never_db m \<Longrightarrow> never_db k \<Longrightarrow> never_db (thenE m k)"
  by (simp add: thenE_def never_db_bindE)

lemma never_db_catchE [never_db_intros]:
  assumes "never_db m" and "\<And>e. \<not> is_DbException e \<Longrightarrow> never_db (h e)"
  shows "never_db (catchE m h)"
  unfolding never_db_def
proof
  fix s
  obtain r s1 where m: "m s = (r, s1)" by (cases "m s")
  show "no_db (fst (catchE m h s))"
  proof (cases r)
    case (Inr x)
    with m show ?thesis by (simp add: catchE_def)
  next
    case (Inl e)
    with never_dbD[OF assms(1) m] have ne: "\<not> is_DbException e" by simp
    obtain r2 s2 where f: "h e s1 = (r2, s2)" by (cases "h e s1")
    with m Inl never_dbD[OF assms(2)[OF ne] f] show ?thesis by (simp add: catchE_def)
  qed
qed

lemma never_db_catchE_all: "(\<And>e. never_db (h e)) \<Longrightarrow> never_db (catchE m h)"
  unfolding never_db_def
proof
  fix s
  assume h: "\<And>e. \<forall>s. no_db (fst (h e s))"
  obtain r s1 where m: "m s = (r, s1)" by (cases "m s")
  show "no_db (fst (catchE m h s))"
    using m h by (cases r) (simp_all add: catchE_def)
qed

lemma never_db_finallyE [never_db_intros]:
  assumes "never_db m" and "never_db fin"
  shows "never_db (finallyE m fin)"
  unfolding never_db_def
proof
  fix s
  obtain r s1 where m: "m s = (r, s1)" by (cases "m s")
  obtain r2 s2 where f: "fin s1 = (r2, s2)" by (cases "fin s1")
  from never_dbD[OF assms(1) m] never_dbD[OF assms(2) f] m f
  show "no_db (fst (finallyE m fin s))"
    by (cases r2) (simp_all add: finallyE_def)
qed

lemma never_db_whenE [never_db_intros]: "never_db m \<Longrightarrow> never_db (whenE b m)"
  by (simp add: whenE_def never_db_returnE)

lemma never_db_forE [never_db_intros]: "(\<And>x. never_db (f x)) \<Longrightarrow> never_db (forE xs f)"
  by (induction xs) (simp_all add: never_db_returnE never_db_thenE)

lemma never_db_mapE [never_db_intros]: "(\<And>x. never_db (f x)) \<Longrightarrow> never_db (mapE f xs)"
  by (induction xs) (auto intro!: never_db_returnE never_db_bindE)

lemma never_db_foldE [never_db_intros]: "(\<And>x a. never_db (f x a)) \<Longrightarrow> never_db (foldE f xs acc)"
  by (induction xs arbitrary: acc) (auto intro!: never_db_returnE never_db_bindE)

lemma never_db_call [never_db_intros]:
  "only_writes_refused env \<Longrightarrow> \<not> is_status_write c \<Longrightarrow> never_db (call env c)"
  by (auto simp: never_db_def call_def Let_def no_db_iff only_writes_refused_def)

lemma never_db_call_unit [never_db_intros]:
  "only_writes_refused env \<Longrightarrow> \<not> is_status_write c \<Longrightarrow> never_db (call_unit env c)"
  unfolding call_unit_def by (auto intro!: never_db_intros)

text \<open>The two helpers never raise \<^verbatim>\<open>DbException\<close>, whatever the database answers.\<close>

lemma never_db_update_db [never_db_intros]: "never_db (update_db env item ident desc)"
  unfolding update_db_def
  by (rule never_db_catchE_all) (auto intro!: never_db_emit never_db_raiseE split: exc.split)

lemma never_db_update_db_2 [never_db_intros]: "never_db (update_db_2 env item ident desc)"
  unfolding update_db_2_def
  by (rule never_db_catchE_all) (auto intro!: never_db_emit never_db_raiseE split: exc.split)

lemma no_db_get_path [no_db_intros]: "no_db (get_path d ks)"
  by (induction ks arbitrary: d) (auto intro!: no_db_intros simp: getitem_def split: case_splits)

lemma no_db_setitem0: "no_db (setitem d k v)"
  by (auto simp: setitem_def split: case_splits)

lemma no_db_getitem0: "no_db (getitem d k)"
  by (auto simp: getitem_def split: case_splits)

lemma no_db_set_path [no_db_intros]: "no_db (set_path d ks v)"
  by (induction d ks v rule: set_path.induct) (auto intro!: no_db_intros no_db_setitem0 no_db_getitem0)

lemma no_db_pop_keys [no_db_intros]: "no_db (pop_keys d ks)"
  by (induction ks arbitrary: d) (auto intro!: no_db_intros simp: pop_default_def split: case_splits)

lemma never_db_upd_db_vim [never_db_intros]: "(\<And>d. no_db (f d)) \<Longrightarrow> never_db (upd_db_vim f)"
  unfolding upd_db_vim_def by (auto intro!: never_db_intros)

lemma never_db_upd_db_sdn [never_db_intros]: "(\<And>d. no_db (f d)) \<Longrightarrow> never_db (upd_db_sdn f)"
  unfolding upd_db_sdn_def by (auto intro!: never_db_intros)

lemma never_db_upd_nsr_lcm [never_db_intros]: "(\<And>d. no_db (f d)) \<Longrightarrow> never_db (upd_nsr_lcm f)"
  unfolding upd_nsr_lcm_def by (auto intro!: never_db_intros)

lemma never_db_ignore_404 [never_db_intros]: "never_db m \<Longrightarrow> never_db (ignore_404 m)"
  unfolding ignore_404_def by (auto intro!: never_db_intros split: case_splits)

lemma never_db_registry_insert [never_db_intros]: "never_db (registry_insert r ident order name task)"
  by (auto simp: never_db_def registry_insert_def split: option.split)

lemma never_db_wait_tasks [never_db_intros]: "never_db (wait_tasks env hs timeout)"
  by (simp add: never_db_def wait_tasks_def)

lemma never_db_ensure_future [never_db_intros]: "never_db (ensure_future c)"
  by (simp add: never_db_def ensure_future_def Let_def)

lemma never_db_handled [never_db_intros]: "never_db fin \<Longrightarrow> never_db (handled exit_log body fin)"
  unfolding handled_def
  by (intro never_db_finallyE never_db_catchE_all) (auto intro!: never_db_intros)

lemma never_db_workflow [never_db_intros]: "never_db fin \<Longrightarrow> never_db (workflow lt expected body fin)"
  unfolding workflow_def by (rule never_db_handled)

lemma no_db_getitem [no_db_intros]:
  "no_db (getitem a0 a1)"
  unfolding getitem_def
  by (auto intro!: no_db_intros simp: Let_def split: case_splits)

lemma no_db_dict_get [no_db_intros]:
  "no_db (dict_get a0 a1)"
  unfolding dict_get_def
  by (auto intro!: no_db_intros simp: Let_def split: case_splits)

lemma no_db_setitem [no_db_intros]:
  "no_db (setitem a0 a1 a2)"
  unfolding setitem_def
  by (auto intro!: no_db_intros simp: Let_def split: case_splits)

lemma no_db_pop_default [no_db_intros]:
  "no_db (pop_default a0 a1)"
  unfolding pop_default_def
  by (auto intro!: no_db_intros simp: Let_def split: case_splits)

lemma no_db_delitem [no_db_intros]:
  "no_db (delitem a0 a1)"
  unfolding delitem_def
  by (auto intro!: no_db_intros simp: Let_def split: case_splits)

lemma no_db_contains [no_db_intros]:
  "no_db (contains a0 a1)"
  unfolding contains_def
  by (auto intro!: no_db_intros simp: Let_def split: case_splits)

lemma no_db_items [no_db_intros]:
  "no_db (items a0)"
  unfolding items_def
  by (auto intro!: no_db_intros simp: Let_def split: case_splits)

lemma no_db_vca_scan [no_db_intros]: "no_db (vca_scan idx entries acc)"
  by (induction idx entries acc rule: vca_scan.induct) (auto intro!: no_db_intros simp: Let_def split: case_splits)

lemma never_db_set_nsr [never_db_intros]:
  "never_db (set_nsr a0 a1)"
  unfolding set_nsr_def
  by (auto intro!: never_db_intros no_db_intros simp: Let_def split: case_splits)

lemma never_db_set_nslcmop [never_db_intros]:
  "never_db (set_nslcmop a0 a1)"
  unfolding set_nslcmop_def
  by (auto intro!: never_db_intros no_db_intros simp: Let_def split: case_splits)

lemma never_db_set_nsr_path [never_db_intros]:
  "never_db (set_nsr_path a0 a1)"
  unfolding set_nsr_path_def
  by (auto intro!: never_db_intros no_db_intros simp: Let_def split: case_splits)

lemma never_db_get_nsr_path [never_db_intros]:
  "never_db (get_nsr_path a0)"
  unfolding get_nsr_path_def
  by (auto intro!: never_db_intros no_db_intros simp: Let_def split: case_splits)

lemma never_db_n2vc_aggregate [never_db_intros]:
  "only_writes_refused env \<Longrightarrow> never_db (n2vc_aggregate env a1)"
  unfolding n2vc_aggregate_def
  by (auto intro!: never_db_intros no_db_intros simp: Let_def split: case_splits)

lemma never_db_n2vc_callback_body [never_db_intros]:
  "only_writes_refused env \<Longrightarrow> never_db (n2vc_callback_body env a1 a2 a3 a4)"
  unfolding n2vc_callback_body_def
  by (auto intro!: never_db_intros no_db_intros simp: Let_def split: case_splits)

lemma never_db_n2vc_callback [never_db_intros]:
  "only_writes_refused env \<Longrightarrow> never_db (n2vc_callback env a1 a2 a3 a4 a5 a6 a7 a8)"
  unfolding n2vc_callback_def
  by (auto intro!: never_db_intros no_db_intros simp: Let_def split: case_splits)

lemma no_db_deployed_RO [no_db_intros]:
  "no_db (deployed_RO a0)"
  unfolding deployed_RO_def
  by (auto intro!: no_db_intros simp: Let_def split: case_splits)

lemma no_db_config_sdn [no_db_intros]:
  "no_db (config_sdn a0)"
  unfolding config_sdn_def
  by (auto intro!: no_db_intros simp: Let_def split: case_splits)

lemma no_db_del_if_in [no_db_intros]:
  "no_db (del_if_in a0 a1)"
  unfolding del_if_in_def
  by (auto intro!: no_db_intros simp: Let_def split: case_splits)

lemma never_db_resolve_sdn [never_db_intros]:
  "only_writes_refused env \<Longrightarrow> never_db (resolve_sdn env a1)"
  unfolding resolve_sdn_def
  by (auto intro!: never_db_intros no_db_intros simp: Let_def split: case_splits)

lemma no_db_init_deployed [no_db_intros]:
  "no_db (init_deployed a0)"
  unfolding init_deployed_def
  by (auto intro!: no_db_intros simp: Let_def split: case_splits)

lemma never_db_vim_finally [never_db_intros]:
  "only_writes_refused env \<Longrightarrow> never_db (vim_finally env a1)"
  unfolding vim_finally_def
  by (auto intro!: never_db_intros no_db_intros simp: Let_def split: case_splits)

lemma never_db_sdn_finally [never_db_intros]:
  "only_writes_refused env \<Longrightarrow> never_db (sdn_finally env a1)"
  unfolding sdn_finally_def
  by (auto intro!: never_db_intros no_db_intros simp: Let_def split: case_splits)

lemma never_db_vim_create_body [never_db_intros]:
  "only_writes_refused env \<Longrightarrow> never_db (vim_create_body env a1 a2)"
  unfolding vim_create_body_def
  by (auto intro!: never_db_intros no_db_intros simp: Let_def split: case_splits)

lemma never_db_vim_create [never_db_intros]:
  "only_writes_refused env \<Longrightarrow> never_db (vim_create env a1 a2)"
  unfolding vim_create_def
  by (auto intro!: never_db_intros no_db_intros simp: Let_def split: case_splits)

lemma no_db_rename_vim_type [no_db_intros]:
  "no_db (rename_vim_type a0)"
  unfolding rename_vim_type_def
  by (auto intro!: no_db_intros simp: Let_def split: case_splits)

lemma no_db_strip_sdn_config [no_db_intros]:
  "no_db (strip_sdn_config a0)"
  unfolding strip_sdn_config_def
  by (auto intro!: no_db_intros simp: Let_def split: case_splits)

lemma no_db_copy_keys [no_db_intros]: "no_db (copy_keys a ks b)"
  by (induction ks arbitrary: b) (auto intro!: no_db_intros simp: Let_def split: case_splits)

lemma never_db_vim_edit_body [never_db_intros]:
  "only_writes_refused env \<Longrightarrow> never_db (vim_edit_body env a1 a2)"
  unfolding vim_edit_body_def
  by (auto intro!: never_db_intros no_db_intros simp: Let_def split: case_splits)

lemma never_db_vim_edit [never_db_intros]:
  "only_writes_refused env \<Longrightarrow> never_db (vim_edit env a1 a2)"
  unfolding vim_edit_def
  by (auto intro!: never_db_intros no_db_intros simp: Let_def split: case_splits)

lemma never_db_vim_delete_body [never_db_intros]:
  "only_writes_refused env \<Longrightarrow> never_db (vim_delete_body env a1)"
  unfolding vim_delete_body_def
  by (auto intro!: never_db_intros no_db_intros simp: Let_def split: case_splits)

lemma never_db_vim_delete [never_db_intros]:
  "only_writes_refused env \<Longrightarrow> never_db (vim_delete env a1 a2)"
  unfolding vim_delete_def
  by (auto intro!: never_db_intros no_db_intros simp: Let_def split: case_splits)

lemma never_db_sdn_create_body [never_db_intros]:
  "only_writes_refused env \<Longrightarrow> never_db (sdn_create_body env a1 a2)"
  unfolding sdn_create_body_def
  by (auto intro!: never_db_intros no_db_intros simp: Let_def split: case_splits)

lemma never_db_sdn_create [never_db_intros]:
  "only_writes_refused env \<Longrightarrow> never_db (sdn_create env a1 a2)"
  unfolding sdn_create_def
  by (auto intro!: never_db_intros no_db_intros simp: Let_def split: case_splits)

lemma never_db_sdn_edit_body [never_db_intros]:
  "only_writes_refused env \<Longrightarrow> never_db (sdn_edit_body env a1 a2)"
  unfolding sdn_edit_body_def
  by (auto intro!: never_db_intros no_db_intros simp: Let_def split: case_splits)

lemma never_db_sdn_edit [never_db_intros]:
  "only_writes_refused env \<Longrightarrow> never_db (sdn_edit env a1 a2)"
  unfolding sdn_edit_def
  by (auto intro!: never_db_intros no_db_intros simp: Let_def split: case_splits)

lemma never_db_sdn_delete_body [never_db_intros]:
  "only_writes_refused env \<Longrightarrow> never_db (sdn_delete_body env a1)"
  unfolding sdn_delete_body_def
  by (auto intro!: never_db_intros no_db_intros simp: Let_def split: case_splits)

lemma never_db_sdn_delete [never_db_intros]:
  "only_writes_refused env \<Longrightarrow> never_db (sdn_delete env a1 a2)"
  unfolding sdn_delete_def
  by (auto intro!: never_db_intros no_db_intros simp: Let_def split: case_splits)

lemma no_db_dict_get_key [no_db_intros]:
  "no_db (dict_get_key a0 a1)"
  unfolding dict_get_key_def
  by (auto intro!: no_db_intros simp: Let_def split: case_splits)

lemma never_db_failed_update [never_db_intros]:
  "only_writes_refused env \<Longrightarrow> never_db (failed_update env)"
  unfolding failed_update_def
  by (auto intro!: never_db_intros no_db_intros simp: Let_def split: case_splits)

lemma never_db_write_nslcmop_update [never_db_intros]:
  "only_writes_refused env \<Longrightarrow> never_db (write_nslcmop_update env a1)"
  unfolding write_nslcmop_update_def
  by (auto intro!: never_db_intros no_db_intros simp: Let_def split: case_splits)

lemma never_db_write_nsr_update [never_db_intros]:
  "only_writes_refused env \<Longrightarrow> never_db (write_nsr_update env a1)"
  unfolding write_nsr_update_def
  by (auto intro!: never_db_intros no_db_intros simp: Let_def split: case_splits)

lemma never_db_action_result [never_db_intros]:
  "only_writes_refused env \<Longrightarrow> never_db (action_result env a1 a2)"
  unfolding action_result_def
  by (auto intro!: never_db_intros no_db_intros simp: Let_def split: case_splits)

lemma never_db_action_outcome [never_db_intros]:
  "only_writes_refused env \<Longrightarrow> never_db (action_outcome env a1)"
  unfolding action_outcome_def
  by (auto intro!: never_db_intros no_db_intros simp: Let_def split: case_splits)

lemma never_db_ns_action_body [never_db_intros]:
  "only_writes_refused env \<Longrightarrow> never_db (ns_action_body env a1 a2)"
  unfolding ns_action_body_def
  by (auto intro!: never_db_intros no_db_intros simp: Let_def split: case_splits)

lemma never_db_ns_action [never_db_intros]:
  "only_writes_refused env \<Longrightarrow> never_db (ns_action env a1 a2)"
  unfolding ns_action_def
  by (auto intro!: never_db_intros no_db_intros simp: Let_def split: case_splits)

lemma never_db_set_step_status [never_db_intros]:
  "never_db (set_step_status a0)"
  unfolding set_step_status_def
  by (auto intro!: never_db_intros no_db_intros simp: Let_def split: case_splits)

lemma never_db_remove_charms [never_db_intros]:
  "only_writes_refused env \<Longrightarrow> never_db (remove_charms env a1 a2)"
  unfolding remove_charms_def
  by (auto intro!: never_db_intros no_db_intros simp: Let_def split: case_splits)

lemma never_db_delete_failed [never_db_intros]:
  "never_db gone \<Longrightarrow> \<not> is_DbException e \<Longrightarrow> never_db (delete_failed lt what ro_id gone e)"
  unfolding delete_failed_def by (auto intro!: never_db_intros split: case_splits)

lemma never_db_delete_ns [never_db_intros]:
  "only_writes_refused env \<Longrightarrow> never_db (delete_ns env a1)"
  unfolding delete_ns_def
  by (auto intro!: never_db_intros no_db_intros simp: Let_def split: case_splits)

lemma never_db_delete_nsd [never_db_intros]:
  "only_writes_refused env \<Longrightarrow> never_db (delete_nsd env a1)"
  unfolding delete_nsd_def
  by (auto intro!: never_db_intros no_db_intros simp: Let_def split: case_splits)

lemma never_db_delete_vnfds [never_db_intros]:
  "only_writes_refused env \<Longrightarrow> never_db (delete_vnfds env a1)"
  unfolding delete_vnfds_def
  by (auto intro!: never_db_intros no_db_intros simp: Let_def split: case_splits)

lemma never_db_collect_vca [never_db_intros]:
  "never_db collect_vca"
  unfolding collect_vca_def
  by (auto intro!: never_db_intros no_db_intros simp: Let_def split: case_splits)

lemma never_db_terminate_outcome [never_db_intros]:
  "only_writes_refused env \<Longrightarrow> never_db (terminate_outcome env a1 a2)"
  unfolding terminate_outcome_def
  by (auto intro!: never_db_intros no_db_intros simp: Let_def split: case_splits)

lemma never_db_ns_terminate_body [never_db_intros]:
  "only_writes_refused env \<Longrightarrow> never_db (ns_terminate_body env a1 a2)"
  unfolding ns_terminate_body_def
  by (auto intro!: never_db_intros no_db_intros simp: Let_def split: case_splits)

lemma never_db_ns_terminate [never_db_intros]:
  "only_writes_refused env \<Longrightarrow> never_db (ns_terminate env a1 a2)"
  unfolding ns_terminate_def
  by (auto intro!: never_db_intros no_db_intros simp: Let_def split: case_splits)

lemma no_db_iter_list [no_db_intros]:
  "no_db (iter_list a0)"
  unfolding iter_list_def
  by (auto intro!: no_db_intros simp: Let_def split: case_splits)

lemma no_db_index0 [no_db_intros]:
  "no_db (index0 a0)"
  unfolding index0_def
  by (auto intro!: no_db_intros simp: Let_def split: case_splits)

lemma no_db_unpack2 [no_db_intros]:
  "no_db (unpack2 a0)"
  unfolding unpack2_def
  by (auto intro!: no_db_intros simp: Let_def split: case_splits)

lemma no_db_RO_id [no_db_intros]:
  "no_db (RO_id a0 a1)"
  unfolding RO_id_def
  by (auto intro!: no_db_intros simp: Let_def split: case_splits)

lemma no_db_put_elements [no_db_intros]:
  "no_db (put_elements a0 a1 a2)"
  unfolding put_elements_def
  by (auto intro!: no_db_intros simp: Let_def split: case_splits)

lemma never_db_cloud_init [never_db_intros]:
  "only_writes_refused env \<Longrightarrow> never_db (cloud_init env a1 a2)"
  unfolding cloud_init_def
  by (auto intro!: never_db_intros no_db_intros simp: Let_def split: case_splits)

lemma never_db_vnfd2RO [never_db_intros]:
  "only_writes_refused env \<Longrightarrow> never_db (vnfd2RO env a1 a2)"
  unfolding vnfd2RO_def
  by (auto intro!: never_db_intros no_db_intros simp: Let_def split: case_splits)

lemma never_db_vim_account_2_RO [never_db_intros]:
  "only_writes_refused env \<Longrightarrow> never_db (vim_account_2_RO env a1)"
  unfolding vim_account_2_RO_def
  by (auto intro!: never_db_intros no_db_intros simp: Let_def split: case_splits)

lemma no_db_set_by_key [no_db_intros]:
  "no_db (set_by_key a0 a1 a2 a3)"
  unfolding set_by_key_def
  by (auto intro!: no_db_intros simp: Let_def split: case_splits)

lemma never_db_add_vnf [never_db_intros]:
  "only_writes_refused env \<Longrightarrow> never_db (add_vnf env a1 a2)"
  unfolding add_vnf_def
  by (auto intro!: never_db_intros no_db_intros simp: Let_def split: case_splits)

lemma never_db_vld_sites [never_db_intros]:
  "only_writes_refused env \<Longrightarrow> never_db (vld_sites env a1)"
  unfolding vld_sites_def
  by (auto intro!: never_db_intros no_db_intros simp: Let_def split: case_splits)

lemma never_db_add_vld [never_db_intros]:
  "only_writes_refused env \<Longrightarrow> never_db (add_vld env a1 a2)"
  unfolding add_vld_def
  by (auto intro!: never_db_intros no_db_intros simp: Let_def split: case_splits)

lemma never_db_ns_params_2_RO [never_db_intros]:
  "only_writes_refused env \<Longrightarrow> never_db (ns_params_2_RO env a1)"
  unfolding ns_params_2_RO_def
  by (auto intro!: never_db_intros no_db_intros simp: Let_def split: case_splits)

lemma never_db_load_vnf [never_db_intros]:
  "only_writes_refused env \<Longrightarrow> never_db (load_vnf env a1 a2)"
  unfolding load_vnf_def
  by (auto intro!: never_db_intros no_db_intros simp: Let_def split: case_splits)

lemma never_db_load [never_db_intros]:
  "only_writes_refused env \<Longrightarrow> never_db (load env a1 a2)"
  unfolding load_def
  by (auto intro!: never_db_intros no_db_intros simp: Let_def split: case_splits)

lemma never_db_save_nsr [never_db_intros]:
  "only_writes_refused env \<Longrightarrow> never_db (save_nsr env a1)"
  unfolding save_nsr_def
  by (auto intro!: never_db_intros no_db_intros simp: Let_def split: case_splits)

lemma never_db_set_vnfd_uuid [never_db_intros]:
  "never_db (set_vnfd_uuid a0 a1)"
  unfolding set_vnfd_uuid_def
  by (auto intro!: never_db_intros no_db_intros simp: Let_def split: case_splits)

lemma never_db_register_vnfd [never_db_intros]:
  "only_writes_refused env \<Longrightarrow> never_db (register_vnfd env a1 a2)"
  unfolding register_vnfd_def
  by (auto intro!: never_db_intros no_db_intros simp: Let_def split: case_splits)

lemma no_db_nsd2RO [no_db_intros]:
  "no_db (nsd2RO a0 a1 a2)"
  unfolding nsd2RO_def
  by (auto intro!: no_db_intros simp: Let_def split: case_splits)

lemma never_db_register_nsd [never_db_intros]:
  "only_writes_refused env \<Longrightarrow> never_db (register_nsd env a1 a2)"
  unfolding register_nsd_def
  by (auto intro!: never_db_intros no_db_intros simp: Let_def split: case_splits)

lemma never_db_recover_ns [never_db_intros]:
  "only_writes_refused env \<Longrightarrow> never_db (recover_ns env)"
  unfolding recover_ns_def
  by (auto intro!: never_db_intros no_db_intros simp: Let_def split: case_splits)

lemma never_db_create_ns [never_db_intros]:
  "only_writes_refused env \<Longrightarrow> never_db (create_ns env a1 a2)"
  unfolding create_ns_def
  by (auto intro!: never_db_intros no_db_intros simp: Let_def split: case_splits)

lemma no_db_vnf_vim_account [no_db_intros]:
  "no_db (vnf_vim_account a0 a1)"
  unfolding vnf_vim_account_def
  by (auto intro!: no_db_intros simp: Let_def split: case_splits)

lemma never_db_backfill_vim_account [never_db_intros]:
  "only_writes_refused env \<Longrightarrow> never_db (backfill_vim_account env)"
  unfolding backfill_vim_account_def
  by (auto intro!: never_db_intros no_db_intros simp: Let_def split: case_splits)

lemma never_db_poll_iter [never_db_intros]:
  "only_writes_refused env \<Longrightarrow> never_db (poll_iter env a1 a2 a3)"
  unfolding poll_iter_def
  by (auto intro!: never_db_intros no_db_intros simp: Let_def split: case_splits)

lemma no_db_poll_ns:
  "only_writes_refused env \<Longrightarrow> no_db (fst (poll_ns env nsr_id RO_nsr_id d t s))"
proof (induction env nsr_id RO_nsr_id d t s rule: poll_ns.induct)
  case (1 env nsr_id RO_nsr_id d t s)
  obtain r s' where p: "poll_iter env nsr_id RO_nsr_id d s = (r, s')"
    by (cases "poll_iter env nsr_id RO_nsr_id d s")
  from never_dbD[OF never_db_poll_iter[OF 1(2)] p] have nr: "no_db r" .
  show ?case
  proof (cases "t > 0")
    case False
    then show ?thesis by (subst poll_ns.simps) simp
  next
    case True
    show ?thesis
    proof (cases r)
      case (Inl e)
      with True p nr show ?thesis by (subst poll_ns.simps) simp
    next
      case (Inr v)
      show ?thesis
      proof (cases v)
        case (Some info)
        with True p Inr show ?thesis by (subst poll_ns.simps) simp
      next
        case None
        from 1(1)[OF True p[symmetric] _ _ 1(2)] Inr None
        have "no_db (fst (poll_ns env nsr_id RO_nsr_id d (t - 5) (s'\<lparr>trace := trace s' @ [Slept 5]\<rparr>)))"
          by simp
        with True p Inr None show ?thesis by (subst poll_ns.simps) simp
      qed
    qed
  qed
qed

lemma never_db_poll_ns [never_db_intros]:
  "only_writes_refused env \<Longrightarrow> never_db (poll_ns env nsr_id RO_nsr_id d t)"
  by (simp add: never_db_def no_db_poll_ns)

lemma never_db_wait_ns_ready [never_db_intros]:
  "only_writes_refused env \<Longrightarrow> never_db (wait_ns_ready env a1 a2)"
  unfolding wait_ns_ready_def
  by (auto intro!: never_db_intros no_db_intros simp: Let_def split: case_splits)

lemma no_db_update_first [no_db_intros]: "no_db (update_first a b xs)"
  by (induction xs) (auto intro!: no_db_intros simp: Let_def split: case_splits)

lemma no_db_update_vdur [no_db_intros]:
  "no_db (update_vdur a0 a1)"
  unfolding update_vdur_def
  by (auto intro!: no_db_intros simp: Let_def split: case_splits)

lemma never_db_enrich_vnfrs [never_db_intros]:
  "only_writes_refused env \<Longrightarrow> never_db (enrich_vnfrs env a1 a2)"
  unfolding enrich_vnfrs_def
  by (auto intro!: never_db_intros no_db_intros simp: Let_def split: case_splits)

lemma never_db_deploy [never_db_intros]:
  "only_writes_refused env \<Longrightarrow> never_db (deploy env a1 a2 a3 a4 a5 a6 a7 a8)"
  unfolding deploy_def
  by (auto intro!: never_db_intros no_db_intros simp: Let_def split: case_splits)

lemma no_db_initial_params [no_db_intros]:
  "no_db (initial_params a0)"
  unfolding initial_params_def
  by (auto intro!: no_db_intros simp: Let_def split: case_splits)

lemma no_db_has_juju [no_db_intros]:
  "no_db (has_juju a0)"
  unfolding has_juju_def
  by (auto intro!: no_db_intros simp: Let_def split: case_splits)

lemma never_db_configure_vnf [never_db_intros]:
  "only_writes_refused env \<Longrightarrow> never_db (configure_vnf env a1 a2 a3 a4)"
  unfolding configure_vnf_def
  by (auto intro!: never_db_intros no_db_intros simp: Let_def split: case_splits)

lemma never_db_deploy_charms [never_db_intros]:
  "only_writes_refused env \<Longrightarrow> never_db (deploy_charms env a1 a2 a3 a4)"
  unfolding deploy_charms_def
  by (auto intro!: never_db_intros no_db_intros simp: Let_def split: case_splits)

lemma never_db_save_nslcmop [never_db_intros]:
  "only_writes_refused env \<Longrightarrow> never_db (save_nslcmop env a1)"
  unfolding save_nslcmop_def
  by (auto intro!: never_db_intros no_db_intros simp: Let_def split: case_splits)

lemma never_db_record_outcome [never_db_intros]:
  "only_writes_refused env \<Longrightarrow> never_db (record_outcome env a1 a2)"
  unfolding record_outcome_def
  by (auto intro!: never_db_intros no_db_intros simp: Let_def split: case_splits)

lemma never_db_ns_instantiate_body [never_db_intros]:
  "only_writes_refused env \<Longrightarrow> never_db (ns_instantiate_body env a1 a2)"
  unfolding ns_instantiate_body_def
  by (auto intro!: never_db_intros no_db_intros simp: Let_def split: case_splits)

lemma never_db_inst_finally [never_db_intros]:
  "only_writes_refused env \<Longrightarrow> never_db (inst_finally env a1 a2)"
  unfolding inst_finally_def
  by (auto intro!: never_db_intros no_db_intros simp: Let_def split: case_splits)

lemma never_db_ns_instantiate [never_db_intros]:
  "only_writes_refused env \<Longrightarrow> never_db (ns_instantiate env a1 a2)"
  unfolding ns_instantiate_def
  by (auto intro!: never_db_intros no_db_intros simp: Let_def split: case_splits)

text \<open>
  Against claim C9 as stated: the removal of the row in \<^verbatim>\<open>vim_delete\<close> is a database
  write that does not go through the helpers. Refused, its \<^verbatim>\<open>DbException\<close> leaves the
  \<^verbatim>\<open>try\<close> block and the workflow ends on its error exit, recording ERROR.
\<close>

theorem vim_delete_refused_removal_propagates:
  "fst (vim_delete_body (env_of db_refuses_delete Pending) (JStr ''v1'')
          (vim0\<lparr>db_vim := JNull, exc_v := None, step := ''Getting vim from db''\<rparr>))
     = Inl (DbException ''db down'')
   \<and> exc_v (snd (vim_delete (env_of db_refuses_delete Pending) (JStr ''v1'') (JInt 2) vim0))
       = Some (DbException ''db down'')
   \<and> Called (DbDelOne ''vim_accounts'' (JDict [(''_id'', JStr ''v1'')])) (Inl (DbException ''db down''))
       \<in> set (trace (snd (vim_delete (env_of db_refuses_delete Pending) (JStr ''v1'') (JInt 2) vim0)))
   \<and> get_path (db_vim (snd (vim_delete (env_of db_refuses_delete Pending) (JStr ''v1'') (JInt 2) vim0)))
        [''_admin'', ''operationalState''] = Inr (JStr ''ERROR'')"
  by code_simp

lemma never_db_iff: "never_db m \<longleftrightarrow> (\<forall>s e. fst (m s) \<noteq> Inl (DbException e))"
  by (simp add: never_db_def no_db_iff)

text \<open>
  Claim C9, amended. When \<^verbatim>\<open>db.replace\<close> (in \<^verbatim>\<open>update_db\<close>) or \<^verbatim>\<open>db.set_one\<close> (in
  \<^verbatim>\<open>update_db_2\<close>) raises \<^verbatim>\<open>DbException\<close>, the helper returns normally, having only logged
  the failure (the text of the record is stated for an id that is not a list or a
  dictionary); neither helper ever raises \<^verbatim>\<open>DbException\<close>. Every \<^verbatim>\<open>db.replace\<close> and
  \<^verbatim>\<open>db.set_one\<close> of the workflows goes through the helpers, so a refused status write
  never propagates: in an environment where nothing but these two requests is
  answered by \<^verbatim>\<open>DbException\<close>, the \<^verbatim>\<open>try\<close> block of no workflow raises \<^verbatim>\<open>DbException\<close>, from
  any state and on any input, and neither does the workflow or the VCA callback.
  Status persistence is best-effort: there are runs of a workflow to its success
  exit and to its error exit in which every update was refused.
\<close>

theorem update_db_best_effort:
  "(\<forall>m. hashable ident \<and> answer env (trace s) (DbReplace item ident desc) = Inl (DbException m) \<longrightarrow>
      update_db env item ident desc s =
        (Inr (), s\<lparr>trace := trace s @
           [Called (DbReplace item ident desc) (Inl (DbException m)),
            LogError (''Updating '' @ item @ '' _id='' @ py_str ident @ '': '' @ m)]\<rparr>))
   \<and> (\<forall>m. hashable ident
         \<and> answer env (trace s) (DbSetOne item (JDict [(''_id'', ident)]) desc) = Inl (DbException m) \<longrightarrow>
      update_db_2 env item ident desc s =
        (Inr (), s\<lparr>trace := trace s @
           [Called (DbSetOne item (JDict [(''_id'', ident)]) desc) (Inl (DbException m)),
            LogError (''Updating '' @ item @ '' _id='' @ py_str ident @ '': '' @ m)]\<rparr>))
   \<and> (\<forall>m. fst (update_db env item ident desc s) \<noteq> Inl (DbException m))
   \<and> (\<forall>m. fst (update_db_2 env item ident desc s) \<noteq> Inl (DbException m))
   \<and> (only_writes_refused env \<longrightarrow>
        (\<forall>content vim_id t m. fst (vim_create_body env content vim_id t) \<noteq> Inl (DbException m))
      \<and> (\<forall>content vim_id t m. fst (vim_edit_body env content vim_id t) \<noteq> Inl (DbException m))
      \<and> (\<forall>vim_id t m. fst (vim_delete_body env vim_id t) \<noteq> Inl (DbException m))
      \<and> (\<forall>content sdn_id t m. fst (sdn_create_body env content sdn_id t) \<noteq> Inl (DbException m))
      \<and> (\<forall>content sdn_id t m. fst (sdn_edit_body env content sdn_id t) \<noteq> Inl (DbException m))
      \<and> (\<forall>sdn_id t m. fst (sdn_delete_body env sdn_id t) \<noteq> Inl (DbException m))
      \<and> (\<forall>nsr_id nslcmop_id t m. fst (ns_instantiate_body env nsr_id nslcmop_id t) \<noteq> Inl (DbException m))
      \<and> (\<forall>nsr_id nslcmop_id t m. fst (ns_terminate_body env nsr_id nslcmop_id t) \<noteq> Inl (DbException m))
      \<and> (\<forall>nsr_id nslcmop_id t m. fst (ns_action_body env nsr_id nslcmop_id t) \<noteq> Inl (DbException m))
      \<and> (\<forall>content order t m. fst (vim_create env content order t) \<noteq> Inl (DbException m))
      \<and> (\<forall>content order t m. fst (vim_edit env content order t) \<noteq> Inl (DbException m))
      \<and> (\<forall>vim_id order t m. fst (vim_delete env vim_id order t) \<noteq> Inl (DbException m))
      \<and> (\<forall>content order t m. fst (sdn_create env content order t) \<noteq> Inl (DbException m))
      \<and> (\<forall>content order t m. fst (sdn_edit env content order t) \<noteq> Inl (DbException m))
      \<and> (\<forall>sdn_id order t m. fst (sdn_delete env sdn_id order t) \<noteq> Inl (DbException m))
      \<and> (\<forall>nsr_id nslcmop_id t m. fst (ns_instantiate env nsr_id nslcmop_id t) \<noteq> Inl (DbException m))
      \<and> (\<forall>nsr_id nslcmop_id t m. fst (ns_terminate env nsr_id nslcmop_id t) \<noteq> Inl (DbException m))
      \<and> (\<forall>nsr_id nslcmop_id t m. fst (ns_action env nsr_id nslcmop_id t) \<noteq> Inl (DbException m))
      \<and> (\<forall>model app status message nsr oper idx task t m.
            fst (n2vc_callback env model app status message nsr oper idx task t) \<noteq> Inl (DbException m)))
   \<and> (\<exists>e content. fst (vim_create e content (JInt 2) vim0) = Inr (JStr ''RO-1'')
         \<and> list_all refused (trace (snd (vim_create e content (JInt 2) vim0)))
         \<and> length (filter is_replace (trace (snd (vim_create e content (JInt 2) vim0)))) = 2)
   \<and> (\<exists>e content x. fst (vim_create e content (JInt 2) vim0) = Inr JNull
         \<and> exc_v (snd (vim_create e content (JInt 2) vim0)) = Some x
         \<and> list_all refused (trace (snd (vim_create e content (JInt 2) vim0)))
         \<and> length (filter is_replace (trace (snd (vim_create e content (JInt 2) vim0)))) = 1)"
proof -
  have a: "\<forall>m. hashable ident \<and> answer env (trace s) (DbReplace item ident desc) = Inl (DbException m) \<longrightarrow>
      update_db env item ident desc s =
        (Inr (), s\<lparr>trace := trace s @
           [Called (DbReplace item ident desc) (Inl (DbException m)),
            LogError (''Updating '' @ item @ '' _id='' @ py_str ident @ '': '' @ m)]\<rparr>)"
    using update_db_DbException [of env s item ident desc] by blast
  have b: "\<forall>m. hashable ident
         \<and> answer env (trace s) (DbSetOne item (JDict [(''_id'', ident)]) desc) = Inl (DbException m) \<longrightarrow>
      update_db_2 env item ident desc s =
        (Inr (), s\<lparr>trace := trace s @
           [Called (DbSetOne item (JDict [(''_id'', ident)]) desc) (Inl (DbException m)),
            LogError (''Updating '' @ item @ '' _id='' @ py_str ident @ '': '' @ m)]\<rparr>)"
    using update_db_2_DbException [of env s item ident desc] by blast
  have c: "\<forall>m. fst (update_db env item ident desc s) \<noteq> Inl (DbException m)"
    using update_db_not_DbException [of env item ident desc s] by blast
  have d: "\<forall>m. fst (update_db_2 env item ident desc s) \<noteq> Inl (DbException m)"
    using update_db_2_not_DbException [of env item ident desc s] by blast
  have w: "only_writes_refused env \<longrightarrow>
        (\<forall>content vim_id t m. fst (vim_create_body env content vim_id t) \<noteq> Inl (DbException m))
      \<and> (\<forall>content vim_id t m. fst (vim_edit_body env content vim_id t) \<noteq> Inl (DbException m))
      \<and> (\<forall>vim_id t m. fst (vim_delete_body env vim_id t) \<noteq> Inl (DbException m))
      \<and> (\<forall>content sdn_id t m. fst (sdn_create_body env content sdn_id t) \<noteq> Inl (DbException m))
      \<and> (\<forall>content sdn_id t m. fst (sdn_edit_body env content sdn_id t) \<noteq> Inl (DbException m))
      \<and> (\<forall>sdn_id t m. fst (sdn_delete_body env sdn_id t) \<noteq> Inl (DbException m))
      \<and> (\<forall>nsr_id nslcmop_id t m. fst (ns_instantiate_body env nsr_id nslcmop_id t) \<noteq> Inl (DbException m))
      \<and> (\<forall>nsr_id nslcmop_id t m. fst (ns_terminate_body env nsr_id nslcmop_id t) \<noteq> Inl (DbException m))
      \<and> (\<forall>nsr_id nslcmop_id t m. fst (ns_action_body env nsr_id nslcmop_id t) \<noteq> Inl (DbException m))
      \<and> (\<forall>content order t m. fst (vim_create env content order t) \<noteq> Inl (DbException m))
      \<and> (\<forall>content order t m. fst (vim_edit env content order t) \<noteq> Inl (DbException m))
      \<and> (\<forall>vim_id order t m. fst (vim_delete env vim_id order t) \<noteq> Inl (DbException m))
      \<and> (\<forall>content order t m. fst (sdn_create env content order t) \<noteq> Inl (DbException m))
      \<and> (\<forall>content order t m. fst (sdn_edit env content order t) \<noteq> Inl (DbException m))
      \<and> (\<forall>sdn_id order t m. fst (sdn_delete env sdn_id order t) \<noteq> Inl (DbException m))
      \<and> (\<forall>nsr_id nslcmop_id t m. fst (ns_instantiate env nsr_id nslcmop_id t) \<noteq> Inl (DbException m))
      \<and> (\<forall>nsr_id nslcmop_id t m. fst (ns_terminate env nsr_id nslcmop_id t) \<noteq> Inl (DbException m))
      \<and> (\<forall>nsr_id nslcmop_id t m. fst (ns_action env nsr_id nslcmop_id t) \<noteq> Inl (DbException m))
      \<and> (\<forall>model app status message nsr oper idx task t m.
            fst (n2vc_callback env model app status message nsr oper idx task t) \<noteq> Inl (DbException m))"
  proof
    assume o: "only_writes_refused env"
    note i = never_db_iff[THEN iffD1, rule_format]
    show "(\<forall>content vim_id t m. fst (vim_create_body env content vim_id t) \<noteq> Inl (DbException m))
      \<and> (\<forall>content vim_id t m. fst (vim_edit_body env content vim_id t) \<noteq> Inl (DbException m))
      \<and> (\<forall>vim_id t m. fst (vim_delete_body env vim_id t) \<noteq> Inl (DbException m))
      \<and> (\<forall>content sdn_id t m. fst (sdn_create_body env content sdn_id t) \<noteq> Inl (DbException m))
      \<and> (\<forall>content sdn_id t m. fst (sdn_edit_body env content sdn_id t) \<noteq> Inl (DbException m))
      \<and> (\<forall>sdn_id t m. fst (sdn_delete_body env sdn_id t) \<noteq> Inl (DbException m))
      \<and> (\<forall>nsr_id nslcmop_id t m. fst (ns_instantiate_body env nsr_id nslcmop_id t) \<noteq> Inl (DbException m))
      \<and> (\<forall>nsr_id nslcmop_id t m. fst (ns_terminate_body env nsr_id nslcmop_id t) \<noteq> Inl (DbException m))
      \<and> (\<forall>nsr_id nslcmop_id t m. fst (ns_action_body env nsr_id nslcmop_id t) \<noteq> Inl (DbException m))
      \<and> (\<forall>content order t m. fst (vim_create env content order t) \<noteq> Inl (DbException m))
      \<and> (\<forall>content order t m. fst (vim_edit env content order t) \<noteq> Inl (DbException m))
      \<and> (\<forall>vim_id order t m. fst (vim_delete env vim_id order t) \<noteq> Inl (DbException m))
      \<and> (\<forall>content order t m. fst (sdn_create env content order t) \<noteq> Inl (DbException m))
      \<and> (\<forall>content order t m. fst (sdn_edit env content order t) \<noteq> Inl (DbException m))
      \<and> (\<forall>sdn_id order t m. fst (sdn_delete env sdn_id order t) \<noteq> Inl (DbException m))
      \<and> (\<forall>nsr_id nslcmop_id t m. fst (ns_instantiate env nsr_id nslcmop_id t) \<noteq> Inl (DbException m))
      \<and> (\<forall>nsr_id nslcmop_id t m. fst (ns_terminate env nsr_id nslcmop_id t) \<noteq> Inl (DbException m))
      \<and> (\<forall>nsr_id nslcmop_id t m. fst (ns_action env nsr_id nslcmop_id t) \<noteq> Inl (DbException m))
      \<and> (\<forall>model app status message nsr oper idx task t m.
            fst (n2vc_callback env model app status message nsr oper idx task t) \<noteq> Inl (DbException m))"
      by (intro conjI allI)
         (rule i, rule never_db_vim_create_body[OF o] never_db_vim_edit_body[OF o]
            never_db_vim_delete_body[OF o] never_db_sdn_create_body[OF o] never_db_sdn_edit_body[OF o]
            never_db_sdn_delete_body[OF o] never_db_ns_instantiate_body[OF o]
            never_db_ns_terminate_body[OF o] never_db_ns_action_body[OF o]
            never_db_vim_create[OF o] never_db_vim_edit[OF o] never_db_vim_delete[OF o]
            never_db_sdn_create[OF o] never_db_sdn_edit[OF o] never_db_sdn_delete[OF o]
            never_db_ns_instantiate[OF o] never_db_ns_terminate[OF o] never_db_ns_action[OF o]
            never_db_n2vc_callback[OF o])+
  qed
  have e: "\<exists>e content. fst (vim_create e content (JInt 2) vim0) = Inr (JStr ''RO-1'')
         \<and> list_all refused (trace (snd (vim_create e content (JInt 2) vim0)))
         \<and> length (filter is_replace (trace (snd (vim_create e content (JInt 2) vim0)))) = 2"
    using vim_create_success_without_updates by blast
  have f: "\<exists>e content x. fst (vim_create e content (JInt 2) vim0) = Inr JNull
         \<and> exc_v (snd (vim_create e content (JInt 2) vim0)) = Some x
         \<and> list_all refused (trace (snd (vim_create e content (JInt 2) vim0)))
         \<and> length (filter is_replace (trace (snd (vim_create e content (JInt 2) vim0)))) = 1"
    using vim_create_error_without_updates by blast
  from a b c d w e f show ?thesis
    by (intro conjI)
qed

text \<open>
  The theorem at a database that refuses every status write: the helpers return, and
  the \<^verbatim>\<open>try\<close> block of \<^verbatim>\<open>vim_create\<close> does not raise the exception of the refused writes.
\<close>

theorem update_db_best_effort_witness:
  "hashable (JStr ''v1'')
   \<and> answer (env_of (db_refuses_writes True) Pending) (trace vim0)
       (DbReplace ''vim_accounts'' (JStr ''v1'') vim_content1) = Inl (DbException ''db down'')
   \<and> update_db (env_of (db_refuses_writes True) Pending) ''vim_accounts'' (JStr ''v1'') vim_content1 vim0 =
       (Inr (), vim0\<lparr>trace := trace vim0 @
          [Called (DbReplace ''vim_accounts'' (JStr ''v1'') vim_content1) (Inl (DbException ''db down'')),
           LogError (''Updating '' @ ''vim_accounts'' @ '' _id='' @ py_str (JStr ''v1'') @ '': '' @ ''db down'')]\<rparr>)
   \<and> answer (env_of (db_refuses_writes True) Pending) (trace vim0)
       (DbSetOne ''vim_accounts'' (JDict [(''_id'', JStr ''v1'')]) vim_content1) = Inl (DbException ''db down'')
   \<and> update_db_2 (env_of (db_refuses_writes True) Pending) ''vim_accounts'' (JStr ''v1'') vim_content1 vim0 =
       (Inr (), vim0\<lparr>trace := trace vim0 @
          [Called (DbSetOne ''vim_accounts'' (JDict [(''_id'', JStr ''v1'')]) vim_content1)
             (Inl (DbException ''db down'')),
           LogError (''Updating '' @ ''vim_accounts'' @ '' _id='' @ py_str (JStr ''v1'') @ '': '' @ ''db down'')]\<rparr>)
   \<and> fst (vim_create_body (env_of (db_refuses_writes True) Pending) vim_content1 (JStr ''v1'') vim0)
       \<noteq> Inl (DbException ''db down'')
   \<and> fst (vim_create (env_of (db_refuses_writes True) Pending) vim_content1 (JInt 2) vim0)
       \<noteq> Inl (DbException ''db down'')"
proof -
  have h: "hashable (JStr ''v1'')"
    by simp
  have a: "answer (env_of (db_refuses_writes True) Pending) (trace vim0)
       (DbReplace ''vim_accounts'' (JStr ''v1'') vim_content1) = Inl (DbException ''db down'')"
    by (simp add: env_of_def db_refuses_writes_def)
  have b: "answer (env_of (db_refuses_writes True) Pending) (trace vim0)
       (DbSetOne ''vim_accounts'' (JDict [(''_id'', JStr ''v1'')]) vim_content1) = Inl (DbException ''db down'')"
    by (simp add: env_of_def db_refuses_writes_def)
  have o: "only_writes_refused (env_of (db_refuses_writes True) Pending)"
    by (auto simp: only_writes_refused_def env_of_def db_refuses_writes_def split: call.splits if_splits)
  note T = update_db_best_effort [where ident = "JStr ''v1''"
      and env = "env_of (db_refuses_writes True) Pending" and s = vim0 and item = "''vim_accounts''"
      and desc = vim_content1]
  note W = T[THEN conjunct2, THEN conjunct2, THEN conjunct2, THEN conjunct2, THEN conjunct1, THEN mp, OF o]
  note c1 = T[THEN conjunct1, rule_format, OF conjI[OF h a]]
  note c2 = T[THEN conjunct2, THEN conjunct1, rule_format, OF conjI[OF h b]]
  note c3 = W[THEN conjunct1, rule_format, of vim_content1 "JStr ''v1''" vim0 "''db down''"]
  note c4 = W[THEN conjunct2, THEN conjunct2, THEN conjunct2, THEN conjunct2, THEN conjunct2,
      THEN conjunct2, THEN conjunct2, THEN conjunct2, THEN conjunct2, THEN conjunct1, rule_format,
      of vim_content1 "JInt 2" vim0 "''db down''"]
  from h a c1 b c2 c3 c4 show ?thesis
    by (intro conjI)
qed


section \<open>Properties of \<^verbatim>\<open>ns_terminate\<close> and \<^verbatim>\<open>ns_action\<close>\<close>

text \<open>
  Claim C3, on an NS record in state NOT_INSTANTIATED: \<^verbatim>\<open>ns_terminate\<close> reads the two
  documents, calls neither RO nor VCA and writes nothing, as the claim says; but it
  does not return: the \<^verbatim>\<open>finally\<close> block reads \<^verbatim>\<open>db_nslcmop_update\<close>, which no statement
  has bound, and the coroutine ends with \<^verbatim>\<open>UnboundLocalError\<close>.
\<close>

theorem ns_terminate_not_instantiated:
  "ns_terminate (env_of db_not_instantiated Pending) ''ns1'' ''op1'' term0 =
     (Inl (UnboundLocalError ''db_nslcmop_update''),
      term0\<lparr>trace :=
               [Called (DbGetOne ''nslcmops'' (JDict [(''_id'', JStr ''op1'')])) (Inr op_terminate),
                Called (DbGetOne ''nsrs'' (JDict [(''_id'', JStr ''ns1'')])) (Inr nsr_not_instantiated)],
             step := ''Getting nsr, nslcmop from db'',
             db_nslcmop := op_terminate, db_nsr := nsr_not_instantiated,
             nsr_lcm := JDict []\<rparr>)"
  by code_simp

text \<open>
  Claim C8, at a cancelled task and at a task that raised: the record written to
  nslcmops has the detail "" where the claim has "Task has been cancelled" (the text
  goes to the local copy \<^verbatim>\<open>db_nslcmop\<close> only), and "FAILED Getting information from
  database: boom" where the claim has \<^verbatim>\<open>str(exc)\<close>, "boom" (the \<^verbatim>\<open>finally\<close> block takes the
  task's exception, assigned to \<^verbatim>\<open>exc\<close>, for a failure of the workflow).
\<close>

theorem ns_action_outcome_records:
  "fst (action_run ''active'' Cancelled) = Inr JNull
   \<and> last (trace (snd (action_run ''active'' Cancelled))) =
       Called (DbSetOne ''nslcmops'' (JDict [(''_id'', JStr ''op1'')]) (failed_record [])) (Inr JNull)
   \<and> getitem (db_nslcmop (snd (action_run ''active'' Cancelled))) ''detailed-status''
       = Inr (JStr ''Task has been cancelled'')
   \<and> fst (action_run ''active'' (Done (Some (OtherError ''boom'')))) = Inr JNull
   \<and> last (trace (snd (action_run ''active'' (Done (Some (OtherError ''boom'')))))) =
       Called (DbSetOne ''nslcmops'' (JDict [(''_id'', JStr ''op1'')])
                 (failed_record ''FAILED Getting information from database: boom'')) (Inr JNull)"
  by code_simp

text \<open>The other outcomes are as the claim has them: done without exception, timeout, and a charm that is not active.\<close>

lemma ns_action_done_ok:
  "last (trace (snd (action_run ''active'' (Done None)))) =
     Called (DbSetOne ''nslcmops'' (JDict [(''_id'', JStr ''op1'')])
               (JDict [(''detailed-status'', JStr ''Done''), (''operationState'', JStr ''COMPLETED''),
                       (''statusEnteredTime'', JInt 1000)])) (Inr JNull)"
  by code_simp

lemma ns_action_timeout:
  "last (trace (snd (action_run ''active'' Pending))) =
     Called (DbSetOne ''nslcmops'' (JDict [(''_id'', JStr ''op1'')]) (failed_record ''timeout''))
       (Inr JNull)
   \<and> map_of (tasks (snd (action_run ''active'' Pending))) 0 = Some CancelRequested"
  by code_simp

lemma ns_action_not_active:
  "exc_v (snd (action_run ''blocked'' Pending)) =
     Some (LcmException (''charm for member_vnf_index=1 operational_status=blocked not '' @ quoted ''active''))
   \<and> filter is_spawn (trace (snd (action_run ''blocked'' Pending))) = []
   \<and> last (trace (snd (action_run ''blocked'' Pending))) =
       Called (DbSetOne ''nslcmops'' (JDict [(''_id'', JStr ''op1'')])
         (failed_record (''FAILED Getting information from database: '' @
            (''charm for member_vnf_index=1 operational_status=blocked not '' @ quoted ''active''))))
         (Inr JNull)"
  by code_simp


section \<open>HTTP 404 from \<^verbatim>\<open>RO.delete\<close>\<close>

text \<open>The guard of the delete workflows turns a 404 into a normal return.\<close>

lemma ignore_404_call:
  assumes "answer env (trace s) c = Inl (ROClientException 404 m)"
  shows "ignore_404 (call_unit env c) s =
           (Inr (), s\<lparr>trace := trace s @ [Called c (Inl (ROClientException 404 m))]\<rparr>)"
  using assms
  by (simp add: ignore_404_def call_unit_def catchE_def thenE_def bindE_def call_def returnE_def
      Let_def)

text \<open>\<^verbatim>\<open>vim_delete\<close>, \<^verbatim>\<open>sdn_delete\<close> and \<^verbatim>\<open>ns_terminate\<close> with every delete and detach answered by 404: no exception is kept, the rows are removed and the termination is recorded COMPLETED.\<close>

lemma vim_delete_already_gone:
  "fst (vim_delete (env_of ro_all_gone Pending) (JStr ''v1'') (JInt 2) vim0) = Inr JNull
   \<and> exc_v (snd (vim_delete (env_of ro_all_gone Pending) (JStr ''v1'') (JInt 2) vim0)) = None
   \<and> last (trace (snd (vim_delete (env_of ro_all_gone Pending) (JStr ''v1'') (JInt 2) vim0))) =
       Called (DbDelOne ''vim_accounts'' (JDict [(''_id'', JStr ''v1'')])) (Inr JNull)"
  by code_simp

lemma sdn_delete_already_gone:
  "fst (sdn_delete (env_of ro_all_gone Pending) (JStr ''s1'') (JInt 2) sdn0) = Inr JNull
   \<and> exc_v (snd (sdn_delete (env_of ro_all_gone Pending) (JStr ''s1'') (JInt 2) sdn0)) = None
   \<and> last (trace (snd (sdn_delete (env_of ro_all_gone Pending) (JStr ''s1'') (JInt 2) sdn0))) =
       Called (DbDelOne ''sdns'' (JDict [(''_id'', JStr ''s1'')])) (Inr JNull)"
  by code_simp

lemma ns_terminate_already_gone:
  "fst (ns_terminate (env_of ro_all_gone Pending) ''ns1'' ''op1'' term0) = Inr JNull
   \<and> exc_v (snd (ns_terminate (env_of ro_all_gone Pending) ''ns1'' ''op1'' term0)) = None
   \<and> failed_detail (snd (ns_terminate (env_of ro_all_gone Pending) ''ns1'' ''op1'' term0)) = []
   \<and> length (filter (is_call is_delete)
        (trace (snd (ns_terminate (env_of ro_all_gone Pending) ''ns1'' ''op1'' term0)))) = 4
   \<and> bindS (case db_nslcmop_upd (snd (ns_terminate (env_of ro_all_gone Pending) ''ns1'' ''op1'' term0)) of
               Some u \<Rightarrow> Inr u | None \<Rightarrow> Inl (UnboundLocalError ''db_nslcmop_update''))
        (\<lambda>u. getitem u ''operationState'') = Inr (JStr ''COMPLETED'')"
  by code_simp

text \<open>
  Claim C2, at the deletion of an ERROR-state NS in \<^verbatim>\<open>ns_instantiate\<close>: RO shows the NS
  left by an earlier run, reports it in ERROR, and answers the \<^verbatim>\<open>RO.delete\<close> with 404.
  The 404 reaches the outer handler: the workflow ends on its error path, the nsr
  marked "failed" and the nslcmop FAILED, and no NS is created.
\<close>

theorem ns_instantiate_delete_404_fails:
  "fst (ns_instantiate (env_rerun ''ERROR'' not_found) ''ns1'' ''op1'' inst0) = Inr JNull
   \<and> exc_v (snd (ns_instantiate (env_rerun ''ERROR'' not_found) ''ns1'' ''op1'' inst0))
       = Some (ROClientException 404 ''not found'')
   \<and> step (snd (ns_instantiate (env_rerun ''ERROR'' not_found) ''ns1'' ''op1'' inst0))
       = ''Deleting ns at RO. RO_ns_id=uuid-old''
   \<and> getitem (db_nsr (snd (ns_instantiate (env_rerun ''ERROR'' not_found) ''ns1'' ''op1'' inst0)))
        ''operational-status'' = Inr (JStr ''failed'')
   \<and> getitem (db_nslcmop (snd (ns_instantiate (env_rerun ''ERROR'' not_found) ''ns1'' ''op1'' inst0)))
        ''operationState'' = Inr (JStr ''FAILED'')
   \<and> getitem (db_nslcmop (snd (ns_instantiate (env_rerun ''ERROR'' not_found) ''ns1'' ''op1'' inst0)))
        ''detailed-status'' = Inr (JStr ''FAILED Deleting ns at RO. RO_ns_id=uuid-old: not found'')
   \<and> last (trace (snd (ns_instantiate (env_rerun ''ERROR'' not_found) ''ns1'' ''op1'' inst0))) =
       Called (DbReplace ''nslcmops'' (JStr ''op1'')
                 (db_nslcmop (snd (ns_instantiate (env_rerun ''ERROR'' not_found) ''ns1'' ''op1'' inst0))))
              (Inr JNull)
   \<and> filter (is_call is_create)
        (trace (snd (ns_instantiate (env_rerun ''ERROR'' not_found) ''ns1'' ''op1'' inst0))) = []"
  by code_simp

text \<open>When the delete succeeds instead, the same run goes on, creates the NS anew and completes.\<close>

lemma ns_instantiate_delete_ok_recreates:
  "exc_v (snd (ns_instantiate (env_rerun ''ERROR'' (Inr JNull)) ''ns1'' ''op1'' inst0)) = None
   \<and> map (\<lambda>ev. case ev of Called (ROCreate kind d) r \<Rightarrow> kind | _ \<Rightarrow> [])
        (filter (is_call is_create)
           (trace (snd (ns_instantiate (env_rerun ''ERROR'' (Inr JNull)) ''ns1'' ''op1'' inst0))))
       = [''ns'']
   \<and> getitem (db_nsr (snd (ns_instantiate (env_rerun ''ERROR'' (Inr JNull)) ''ns1'' ''op1'' inst0)))
        ''operational-status'' = Inr (JStr ''running'')"
  by code_simp


section \<open>Reuse of RO artifacts by \<^verbatim>\<open>ns_instantiate\<close>\<close>

lemma getitem_setitem_same: "setitem d k v = Inr d' \<Longrightarrow> getitem d' k = Inr v"
  by (auto simp: setitem_def getitem_def update_conv' split: json.splits)

lemma getitem_setitem_other: "setitem d k v = Inr d' \<Longrightarrow> k' \<noteq> k \<Longrightarrow> getitem d' k' = getitem d k'"
  by (auto simp: setitem_def getitem_def update_conv' split: json.splits)


lemma set_path_top_frame:
  "set_path d (k # ks) v = Inr d' \<Longrightarrow> k' \<noteq> k \<Longrightarrow> getitem d' k' = getitem d k'"
  by (cases ks) (auto simp: bindS_def getitem_setitem_other split: sum.splits)

lemma set_path_frame2:
  "set_path d (k # k1 # ks) v = Inr d' \<Longrightarrow> k2 \<noteq> k1 \<Longrightarrow> get_path d' [k, k2] = get_path d [k, k2]"
  by (auto simp: bindS_def getitem_setitem_same set_path_top_frame split: sum.splits)







lemma growsD:
  "grows P m \<Longrightarrow> m s = (r, s') \<Longrightarrow> \<exists>evs. trace s' = trace s @ evs \<and> list_all P evs"
  unfolding grows_def by (metis snd_conv)

lemma grows_returnE: "grows P (returnE x)"
  by (simp add: grows_def returnE_def)

lemma grows_raiseE: "grows P (raiseE e)"
  by (simp add: grows_def raiseE_def)

lemma grows_liftE: "grows P (liftE r)"
  by (simp add: grows_def liftE_def)

lemma grows_gets: "grows P (gets f)"
  by (simp add: grows_def gets_def)

lemma grows_modify: "(\<And>s. trace (f s) = trace s) \<Longrightarrow> grows P (modify f)"
  by (simp add: grows_def modify_def)

lemma grows_call: "(\<And>r. P (Called c r)) \<Longrightarrow> grows P (call env c)"
  by (simp add: grows_def call_def Let_def)

lemma grows_emit: "P ev \<Longrightarrow> grows P (emit ev)"
  by (simp add: grows_def emit_def)

lemma grows_bindE:
  assumes "grows P m" and "\<And>x. grows P (f x)"
  shows "grows P (bindE m f)"
  unfolding grows_def
proof
  fix s
  obtain r s1 where m: "m s = (r, s1)" by (cases "m s")
  from growsD[OF assms(1) m] obtain e1 where e1: "trace s1 = trace s @ e1" "list_all P e1" by blast
  show "\<exists>evs. trace (snd (bindE m f s)) = trace s @ evs \<and> list_all P evs"
  proof (cases r)
    case (Inl e)
    with m e1 show ?thesis by (simp add: bindE_def)
  next
    case (Inr x)
    obtain r2 s2 where f: "f x s1 = (r2, s2)" by (cases "f x s1")
    from growsD[OF assms(2) f] obtain e2 where "trace s2 = trace s1 @ e2" "list_all P e2" by blast
    with m e1 Inr f show ?thesis by (simp add: bindE_def)
  qed
qed

lemma grows_thenE: "grows P m \<Longrightarrow> grows P k \<Longrightarrow> grows P (thenE m k)"
  by (simp add: thenE_def grows_bindE)

lemma grows_catchE:
  assumes "grows P m" and "\<And>e. grows P (h e)"
  shows "grows P (catchE m h)"
  unfolding grows_def
proof
  fix s
  obtain r s1 where m: "m s = (r, s1)" by (cases "m s")
  from growsD[OF assms(1) m] obtain e1 where e1: "trace s1 = trace s @ e1" "list_all P e1" by blast
  show "\<exists>evs. trace (snd (catchE m h s)) = trace s @ evs \<and> list_all P evs"
  proof (cases r)
    case (Inr x)
    with m e1 show ?thesis by (simp add: catchE_def)
  next
    case (Inl e)
    obtain r2 s2 where f: "h e s1 = (r2, s2)" by (cases "h e s1")
    from growsD[OF assms(2) f] obtain e2 where "trace s2 = trace s1 @ e2" "list_all P e2" by blast
    with m e1 Inl f show ?thesis by (simp add: catchE_def)
  qed
qed

lemma grows_finallyE:
  assumes "grows P m" and "grows P fin"
  shows "grows P (finallyE m fin)"
  unfolding grows_def
proof
  fix s
  obtain r s1 where m: "m s = (r, s1)" by (cases "m s")
  from growsD[OF assms(1) m] obtain e1 where e1: "trace s1 = trace s @ e1" "list_all P e1" by blast
  obtain r2 s2 where f: "fin s1 = (r2, s2)" by (cases "fin s1")
  from growsD[OF assms(2) f] obtain e2 where "trace s2 = trace s1 @ e2" "list_all P e2" by blast
  with m e1 f show "\<exists>evs. trace (snd (finallyE m fin s)) = trace s @ evs \<and> list_all P evs"
    by (cases r2) (simp_all add: finallyE_def)
qed

lemma grows_mapE: "(\<And>x. grows P (f x)) \<Longrightarrow> grows P (mapE f xs)"
  by (induction xs) (simp_all add: grows_returnE grows_bindE)

lemma grows_forE: "(\<And>x. grows P (f x)) \<Longrightarrow> grows P (forE xs f)"
  by (induction xs) (simp_all add: grows_returnE grows_thenE)

lemma grows_foldE: "(\<And>x a. grows P (f x a)) \<Longrightarrow> grows P (foldE f xs acc)"
  by (induction xs arbitrary: acc) (simp_all add: grows_returnE grows_bindE)

lemmas grows_intros = grows_returnE grows_raiseE grows_liftE grows_gets grows_modify grows_call
  grows_emit grows_bindE grows_thenE grows_catchE grows_finallyE grows_mapE grows_forE grows_foldE
































text \<open>
  The whole workflow invoked again after a run that had created everything at RO:
  it looks the descriptors up, asks RO to show the NS (once to recover it, once to
  wait for it), creates nothing and completes.
\<close>

lemma ns_instantiate_again_creates_nothing:
  "exc_v (snd (ns_instantiate (env_rerun ''ACTIVE'' not_found) ''ns1'' ''op1'' inst0)) = None
   \<and> filter (is_call is_create)
        (trace (snd (ns_instantiate (env_rerun ''ACTIVE'' not_found) ''ns1'' ''op1'' inst0))) = []
   \<and> map (\<lambda>ev. case ev of Called c r \<Rightarrow> c)
        (filter (is_call (\<lambda>c. case c of ROGetList kind q \<Rightarrow> True | ROShow kind i \<Rightarrow> True | _ \<Rightarrow> False))
           (trace (snd (ns_instantiate (env_rerun ''ACTIVE'' not_found) ''ns1'' ''op1'' inst0)))) =
       [ROGetList ''vnfd'' (JDict [(''osm_id'', JStr ''ns1.A'')]),
        ROGetList ''vnfd'' (JDict [(''osm_id'', JStr ''ns1.B'')]),
        ROGetList ''nsd'' (JDict [(''osm_id'', JStr ''ns1.nsd1'')]),
        ROShow ''ns'' (JStr ''uuid-old''),
        ROShow ''ns'' (JStr ''uuid-old'')]
   \<and> get_path (db_nsr (snd (ns_instantiate (env_rerun ''ACTIVE'' not_found) ''ns1'' ''op1'' inst0)))
        (ro_path ''nsr_id'') = Inr (JStr ''uuid-old'')"
  by code_simp


section \<open>The record of an exception\<close>

lemma requested_append [simp]: "requested (xs @ ys) = requested xs @ requested ys"
  by (induction xs rule: requested.induct) simp_all






lemma is_record_truthy: "is_record d \<Longrightarrow> truthy d"
  by (auto simp: is_record_def split: json.splits)
















lemma grows_set_nsr: "grows (\<lambda>ev. True) (set_nsr k v)"
  unfolding set_nsr_def by (auto intro!: grows_intros)







































text \<open>
  The same for \<^verbatim>\<open>ns_instantiate\<close>: when the fetch of the operation record raises, both
  \<^verbatim>\<open>db_nsr\<close> and \<^verbatim>\<open>db_nslcmop\<close> are \<^verbatim>\<open>None\<close> in the \<^verbatim>\<open>finally\<close> block (lines 1006 and 1010) and
  nothing is written.
\<close>

lemma ns_instantiate_fetch_fails_no_record:
  "fst (ns_instantiate (env_of db_fetch_fails Pending) ''ns1'' ''op1'' inst0) = Inr JNull
   \<and> exc_v (snd (ns_instantiate (env_of db_fetch_fails Pending) ''ns1'' ''op1'' inst0))
       = Some (DbException ''not found'')
   \<and> requested (trace (snd (ns_instantiate (env_of db_fetch_fails Pending) ''ns1'' ''op1'' inst0)))
       = [DbGetOne ''nslcmops'' (JDict [(''_id'', JStr ''op1'')])]"
  by code_simp



end
